theory Spec2Isabelle
  imports Complex_Main "HOL-Library.Word"
begin

unbundle bit_operations_syntax

section \<open>Machine arithmetic\<close>

text \<open>
  The C++ integer fields are modelled as \<open>int\<close>, with the two's complement wrap-around of
  the field's width written out wherever the source computes a value of that width.
\<close>

definition s32 :: "int \<Rightarrow> int" where
  \<comment> \<open>the value of a 32-bit signed integer holding \<open>x\<close> modulo \<open>2^32\<close>\<close>
  "s32 x = (x + 2147483648) mod 4294967296 - 2147483648"

definition s16 :: "int \<Rightarrow> int" where
  "s16 x = (x + 32768) mod 65536 - 32768"

definition u32 :: "int \<Rightarrow> int" where
  "u32 x = x mod 4294967296"

definition cdiv :: "int \<Rightarrow> int \<Rightarrow> int" where
  \<comment> \<open>C division truncates toward zero\<close>
  "cdiv a b = sgn a * sgn b * (\<bar>a\<bar> div \<bar>b\<bar>)"

section \<open>Single-precision floating point\<close>

text \<open>
  A C \<open>float\<close> is an IEEE 754 binary32 value: a NaN, an infinity with its sign, or a finite
  value given by its sign (\<open>True\<close> is negative) and its magnitude. Arithmetic computes the
  exact rational result and rounds it to the nearest representable value, ties to even.
\<close>

datatype float = FNaN | FInf bool | FFin bool rat

definition pow2 :: "int \<Rightarrow> rat" where
  "pow2 e = (if 0 \<le> e then 2 ^ nat e else 1 / 2 ^ nat (- e))"

function expo_down :: "rat \<Rightarrow> int \<Rightarrow> int" where
  "expo_down a e = (if a < 1 \<and> - 126 < e then expo_down (a * 2) (e - 1) else e)"
  by pat_completeness auto
termination
  by (relation "measure (\<lambda>(a, e). nat (e + 126))") auto

function expo_up :: "rat \<Rightarrow> int \<Rightarrow> int" where
  "expo_up a e = (if 2 \<le> a \<and> e < 127 then expo_up (a / 2) (e + 1) else e)"
  by pat_completeness auto
termination
  by (relation "measure (\<lambda>(a, e). nat (127 - e))") auto

declare expo_down.simps [simp del] expo_up.simps [simp del]

definition float_exponent :: "rat \<Rightarrow> int" where
  \<comment> \<open>the greatest \<open>e\<close> in \<open>[-126, 127]\<close> with \<open>2^e \<le> a\<close>, and \<open>-126\<close> in the subnormal range\<close>
  "float_exponent a = (if 1 \<le> a then expo_up a 0 else expo_down a 0)"

definition round_half_even :: "rat \<Rightarrow> int" where
  "round_half_even x =
     (let f = \<lfloor>x\<rfloor>; d = x - of_int f
      in if d < 1 / 2 then f else if 1 / 2 < d then f + 1 else if even f then f else f + 1)"

definition float_round :: "bool \<Rightarrow> rat \<Rightarrow> float" where
  \<comment> \<open>round the magnitude \<open>a \<ge> 0\<close> with sign \<open>s\<close> to binary32\<close>
  "float_round s a =
     (let q = pow2 (float_exponent a - 23);
          r = of_int (round_half_even (a / q)) * q
      in if pow2 128 \<le> r then FInf s else FFin s r)"

definition fval :: "bool \<Rightarrow> rat \<Rightarrow> rat" where
  "fval s m = (if s then - m else m)"

definition fzero :: float where
  "fzero = FFin False 0"

definition float_of_int :: "int \<Rightarrow> float" where
  \<comment> \<open>the conversion of an integer operand to \<open>float\<close>\<close>
  "float_of_int i = float_round (i < 0) (of_int \<bar>i\<bar>)"

fun fneg :: "float \<Rightarrow> float" where
  "fneg FNaN = FNaN"
| "fneg (FInf s) = FInf (\<not> s)"
| "fneg (FFin s m) = FFin (\<not> s) m"

fun fadd :: "float \<Rightarrow> float \<Rightarrow> float" where
  "fadd FNaN y = FNaN"
| "fadd x FNaN = FNaN"
| "fadd (FInf s) (FInf t) = (if s = t then FInf s else FNaN)"
| "fadd (FInf s) (FFin t m) = FInf s"
| "fadd (FFin s m) (FInf t) = FInf t"
| "fadd (FFin s m) (FFin t n) =
     (let r = fval s m + fval t n
      in if r = 0 then FFin (s \<and> t) 0 else float_round (r < 0) \<bar>r\<bar>)"

definition fsub :: "float \<Rightarrow> float \<Rightarrow> float" where
  "fsub x y = fadd x (fneg y)"

fun fmul :: "float \<Rightarrow> float \<Rightarrow> float" where
  "fmul FNaN y = FNaN"
| "fmul x FNaN = FNaN"
| "fmul (FInf s) (FInf t) = FInf (s \<noteq> t)"
| "fmul (FInf s) (FFin t m) = (if m = 0 then FNaN else FInf (s \<noteq> t))"
| "fmul (FFin s m) (FInf t) = (if m = 0 then FNaN else FInf (s \<noteq> t))"
| "fmul (FFin s m) (FFin t n) = float_round (s \<noteq> t) (m * n)"

fun fdiv :: "float \<Rightarrow> float \<Rightarrow> float" where
  "fdiv FNaN y = FNaN"
| "fdiv x FNaN = FNaN"
| "fdiv (FInf s) (FInf t) = FNaN"
| "fdiv (FInf s) (FFin t m) = FInf (s \<noteq> t)"
| "fdiv (FFin s m) (FInf t) = FFin (s \<noteq> t) 0"
| "fdiv (FFin s m) (FFin t n) =
     (if n = 0 then (if m = 0 then FNaN else FInf (s \<noteq> t))
      else float_round (s \<noteq> t) (m / n))"

fun flt :: "float \<Rightarrow> float \<Rightarrow> bool" where
  "flt FNaN y = False"
| "flt x FNaN = False"
| "flt (FInf s) (FInf t) = (s \<and> \<not> t)"
| "flt (FInf s) (FFin t m) = s"
| "flt (FFin s m) (FInf t) = (\<not> t)"
| "flt (FFin s m) (FFin t n) = (fval s m < fval t n)"

fun feq :: "float \<Rightarrow> float \<Rightarrow> bool" where
  "feq FNaN y = False"
| "feq x FNaN = False"
| "feq (FInf s) (FInf t) = (s = t)"
| "feq (FInf s) (FFin t m) = False"
| "feq (FFin s m) (FInf t) = False"
| "feq (FFin s m) (FFin t n) = (fval s m = fval t n)"

definition fle :: "float \<Rightarrow> float \<Rightarrow> bool" where
  "fle x y = (flt x y \<or> feq x y)"

definition fmax :: "float \<Rightarrow> float \<Rightarrow> float" where
  \<comment> \<open>\<open>std::max(a, b)\<close> is \<open>(a < b) ? b : a\<close>\<close>
  "fmax a b = (if flt a b then b else a)"

datatype fpclass = FP_NAN | FP_INFINITE | FP_ZERO | FP_SUBNORMAL | FP_NORMAL

fun fpclassify :: "float \<Rightarrow> fpclass" where
  "fpclassify FNaN = FP_NAN"
| "fpclassify (FInf s) = FP_INFINITE"
| "fpclassify (FFin s m) =
     (if m = 0 then FP_ZERO else if m < pow2 (- 126) then FP_SUBNORMAL else FP_NORMAL)"

definition isnormal :: "float \<Rightarrow> bool" where
  "isnormal x = (fpclassify x = FP_NORMAL)"

fun int_of_float :: "float \<Rightarrow> int" where
  \<comment> \<open>the cast \<open>(int32_t)f\<close> truncates toward zero; it is undefined on NaN, on infinities and
      out of range, where the model gives the wrapped value, and 0 on NaN and infinities\<close>
  "int_of_float (FFin s m) = s32 (if s then - \<lfloor>m\<rfloor> else \<lfloor>m\<rfloor>)"
| "int_of_float x = 0"

section \<open>Volume ramp variables\<close>

definition UNITY_GAIN_INT :: int where
  "UNITY_GAIN_INT = 4096"

definition UNITY_GAIN_FLOAT :: float where
  "UNITY_GAIN_FLOAT = FFin False 1"

text \<open>The six variables \<open>setVolumeRampVariables\<close> receives by pointer.\<close>

record volvars =
  pIntSetVolume :: int
  pIntPrevVolume :: int
  pIntVolumeInc :: int
  pSetVolume :: float
  pPrevVolume :: float
  pVolumeInc :: float

definition limitVolume :: "float \<Rightarrow> float" where
  \<comment> \<open>the block of \<open>setVolumeRampVariables\<close> that replaces \<open>newVolume\<close> after the equality test\<close>
  "limitVolume newVolume =
     (if flt newVolume fzero then fzero
      else (case fpclassify newVolume of
              FP_SUBNORMAL \<Rightarrow> fzero
            | FP_NAN \<Rightarrow> fzero
            | FP_ZERO \<Rightarrow> newVolume
            | FP_INFINITE \<Rightarrow> UNITY_GAIN_FLOAT
            | FP_NORMAL \<Rightarrow>
                if flt UNITY_GAIN_FLOAT newVolume then UNITY_GAIN_FLOAT else newVolume))"

definition floatRampInc :: "float \<Rightarrow> int \<Rightarrow> float \<Rightarrow> float" where
  \<comment> \<open>\<open>inc = (newVolume - *pPrevVolume) / ramp\<close>\<close>
  "floatRampInc newVolume ramp prev = fdiv (fsub newVolume prev) (float_of_int ramp)"

definition floatRampAllowed :: "float \<Rightarrow> int \<Rightarrow> float \<Rightarrow> bool" where
  \<comment> \<open>\<open>isnormal(inc) && maxv + inc != maxv\<close>\<close>
  "floatRampAllowed newVolume ramp prev =
     (let inc = floatRampInc newVolume ramp prev; maxv = fmax newVolume prev
      in isnormal inc \<and> \<not> feq (fadd maxv inc) maxv)"

definition intVolumeOf :: "float \<Rightarrow> int" where
  \<comment> \<open>\<open>scaledVolume\<close> and \<open>intVolume\<close>\<close>
  "intVolumeOf newVolume =
     (let scaledVolume = fmul newVolume (float_of_int UNITY_GAIN_INT)
      in if fle (float_of_int UNITY_GAIN_INT) scaledVolume then UNITY_GAIN_INT
         else int_of_float scaledVolume)"

definition intRampInc :: "int \<Rightarrow> int \<Rightarrow> int \<Rightarrow> int" where
  \<comment> \<open>\<open>((intVolume << 16) - *pIntPrevVolume) / ramp\<close>\<close>
  "intRampInc intVolume ramp prev = s32 (cdiv (s32 (s32 (intVolume * 65536) - prev)) ramp)"

definition setVolumeRampVariables :: "float \<Rightarrow> int \<Rightarrow> volvars \<Rightarrow> bool \<times> volvars" where
  "setVolumeRampVariables newVolume0 ramp0 p =
     (if feq newVolume0 (pSetVolume p) then (False, p)
      else
        let newVolume = limitVolume newVolume0;
            floatOk = floatRampAllowed newVolume ramp0 (pPrevVolume p);
            p1 = (if ramp0 \<noteq> 0 \<and> floatOk
                  then p\<lparr>pVolumeInc := floatRampInc newVolume ramp0 (pPrevVolume p)\<rparr> else p);
            ramp1 = (if ramp0 \<noteq> 0 \<and> \<not> floatOk then 0 else ramp0);
            intVolume = intVolumeOf newVolume;
            inc = intRampInc intVolume ramp1 (pIntPrevVolume p);
            p2 = (if ramp1 \<noteq> 0 \<and> inc \<noteq> 0 then p1\<lparr>pIntVolumeInc := inc\<rparr> else p1);
            ramp2 = (if ramp1 \<noteq> 0 \<and> inc = 0 then 0 else ramp1);
            p3 = (if ramp2 = 0
                  then p2\<lparr>pVolumeInc := fzero, pPrevVolume := newVolume,
                          pIntVolumeInc := 0, pIntPrevVolume := s32 (intVolume * 65536)\<rparr>
                  else p2)
        in (True, p3\<lparr>pSetVolume := newVolume, pIntSetVolume := s16 intVolume\<rparr>))"

section \<open>External declarations\<close>

type_synonym byte = "8 word"

type_synonym audio_format_t = int

abbreviation (input) AUDIO_FORMAT_PCM_16_BIT :: audio_format_t where "AUDIO_FORMAT_PCM_16_BIT \<equiv> 1"
abbreviation (input) AUDIO_FORMAT_PCM_8_BIT :: audio_format_t where "AUDIO_FORMAT_PCM_8_BIT \<equiv> 2"
abbreviation (input) AUDIO_FORMAT_PCM_32_BIT :: audio_format_t where "AUDIO_FORMAT_PCM_32_BIT \<equiv> 3"
abbreviation (input) AUDIO_FORMAT_PCM_8_24_BIT :: audio_format_t where "AUDIO_FORMAT_PCM_8_24_BIT \<equiv> 4"
abbreviation (input) AUDIO_FORMAT_PCM_FLOAT :: audio_format_t where "AUDIO_FORMAT_PCM_FLOAT \<equiv> 5"
abbreviation (input) AUDIO_FORMAT_PCM_24_BIT_PACKED :: audio_format_t where
  "AUDIO_FORMAT_PCM_24_BIT_PACKED \<equiv> 6"

definition audio_bytes_per_sample :: "audio_format_t \<Rightarrow> nat" where
  \<comment> \<open>Modelled from the spec: \<open>system/audio.h\<close> is not among the sources; the size in bytes
      of one sample of the five linear PCM formats of the spec and of 8.24, and 0 otherwise.\<close>
  "audio_bytes_per_sample format =
     (if format = AUDIO_FORMAT_PCM_16_BIT then 2
      else if format = AUDIO_FORMAT_PCM_8_BIT then 1
      else if format = AUDIO_FORMAT_PCM_32_BIT then 4
      else if format = AUDIO_FORMAT_PCM_8_24_BIT then 4
      else if format = AUDIO_FORMAT_PCM_FLOAT then 4
      else if format = AUDIO_FORMAT_PCM_24_BIT_PACKED then 3
      else 0)"

definition audio_bytes_per_frame :: "nat \<Rightarrow> audio_format_t \<Rightarrow> nat" where
  "audio_bytes_per_frame channel_count format = channel_count * audio_bytes_per_sample format"

type_synonym audio_channel_mask_t = nat

abbreviation (input) AUDIO_CHANNEL_OUT_MONO :: audio_channel_mask_t where "AUDIO_CHANNEL_OUT_MONO \<equiv> 1"
abbreviation (input) AUDIO_CHANNEL_OUT_STEREO :: audio_channel_mask_t where "AUDIO_CHANNEL_OUT_STEREO \<equiv> 3"

definition audio_channel_mask_get_representation :: "audio_channel_mask_t \<Rightarrow> nat" where
  \<comment> \<open>Modelled from the spec: \<open>system/audio.h\<close> is not among the sources; the top two bits
      of the 32-bit mask, 0 for a position mask and 2 for an index mask.\<close>
  "audio_channel_mask_get_representation m = (m div 2 ^ 30) mod 4"

definition audio_channel_mask_get_bits :: "audio_channel_mask_t \<Rightarrow> nat" where
  "audio_channel_mask_get_bits m = m mod 2 ^ 30"

function popcount :: "nat \<Rightarrow> nat" where
  "popcount m = (if m = 0 then 0 else m mod 2 + popcount (m div 2))"
  by pat_completeness auto
termination
  by (relation "measure (\<lambda>m. m)") auto

declare popcount.simps [simp del]

definition audio_channel_count_from_out_mask :: "audio_channel_mask_t \<Rightarrow> nat" where
  \<comment> \<open>Modelled from the spec: \<open>system/audio.h\<close> is not among the sources; the number of
      channels of a position or index mask is the number of its bits, and 0 for any other
      representation.\<close>
  "audio_channel_count_from_out_mask m =
     (if audio_channel_mask_get_representation m = 0
         \<or> audio_channel_mask_get_representation m = 2
      then popcount (audio_channel_mask_get_bits m) else 0)"

definition isAudioChannelPositionMask :: "audio_channel_mask_t \<Rightarrow> bool" where
  "isAudioChannelPositionMask channelMask =
     (audio_channel_mask_get_representation channelMask = 0)"

definition FCC_LIMIT :: nat where
  \<comment> \<open>Modelled from the spec: the compile-time channel limit, "typically 8".\<close>
  "FCC_LIMIT = 8"

definition MAX_NUM_CHANNELS :: nat where
  "MAX_NUM_CHANNELS = FCC_LIMIT"

definition MAX_NUM_VOLUMES :: nat where
  "MAX_NUM_VOLUMES = 2"

text \<open>
  The buffer provider is an external object. Its model is the list of the answers it will
  give to the coming \<open>getNextBuffer\<close> calls: no buffer (\<open>raw == NULL\<close>), or a buffer of
  some frames with the bytes found at \<open>raw\<close>, at an address that is a multiple of 4
  (\<open>Frames\<close>) or is not (\<open>Unaligned\<close>). Once the list is used up it has no data. A
  buffer holds the bytes at \<open>raw\<close>, and \<open>aligned\<close> for \<open>(((uintptr_t)raw) & 3) == 0\<close>.
\<close>

datatype response = NoBuffer | Frames nat "byte list" | Unaligned nat "byte list"

type_synonym provider = "response list"

record Buffer =
  raw :: "byte list option"
  frameCount :: nat
  aligned :: bool

definition getNextBuffer :: "provider \<Rightarrow> Buffer \<Rightarrow> provider \<times> Buffer" where
  \<comment> \<open>Modelled from the spec: the pull contract of section 4.3; on entry \<open>frameCount\<close> is
      the number of frames wanted, on return it is the number of frames at \<open>raw\<close>, at most
      the number wanted, and \<open>raw\<close> is null when the provider has no data.\<close>
  "getNextBuffer p b =
     (case p of
        [] \<Rightarrow> ([], \<lparr>raw = None, frameCount = 0, aligned = True\<rparr>)
      | NoBuffer # rest \<Rightarrow> (rest, \<lparr>raw = None, frameCount = 0, aligned = True\<rparr>)
      | Frames n d # rest \<Rightarrow>
          (rest, \<lparr>raw = Some d, frameCount = min n (frameCount b), aligned = True\<rparr>)
      | Unaligned n d # rest \<Rightarrow>
          (rest, \<lparr>raw = Some d, frameCount = min n (frameCount b), aligned = False\<rparr>))"

definition releaseBuffer :: "provider \<Rightarrow> Buffer \<Rightarrow> provider \<times> Buffer" where
  \<comment> \<open>Modelled from the spec: the frames are consumed and the buffer handed back.\<close>
  "releaseBuffer p b = (p, \<lparr>raw = None, frameCount = 0, aligned = True\<rparr>)"

text \<open>
  The resampler is an external object too: the model keeps what the mixer gives it at
  creation and through its setters, and an opaque internal state.
\<close>

datatype src_quality = DEFAULT_QUALITY | DYN_LOW_QUALITY

record AudioResampler =
  rsFormat :: audio_format_t
  rsChannelCount :: nat
  rsDevSampleRate :: nat
  rsQuality :: src_quality
  rsInSampleRate :: nat
  rsVolume :: "float \<times> float"
  rsInternal :: nat

datatype mixtype =
    MIXTYPE_MULTI | MIXTYPE_MONOEXPAND | MIXTYPE_MULTI_SAVEONLY | MIXTYPE_MULTI_MONOVOL
  | MIXTYPE_MULTI_SAVEONLY_MONOVOL | MIXTYPE_MULTI_STEREOVOL
  | MIXTYPE_MULTI_SAVEONLY_STEREOVOL | MIXTYPE_STEREOEXPAND

datatype ctype = T_int16 | T_int32 | T_float

text \<open>
  The functions the mixer calls and the sources do not define: the resampler's methods, the
  mixing kernels of \<open>AudioMixerOps.h\<close>, the sample conversions of \<open>audio_utils\<close>. They are
  parameters of the model. A kernel receives the bytes at \<open>out\<close>, \<open>in\<close> and \<open>aux\<close>, the two
  channel volumes and the auxiliary level, and returns the bytes it leaves at \<open>out\<close> and
  \<open>aux\<close>; a ramp kernel also receives the increments and returns the advanced volumes;
  \<open>resample\<close> receives the bytes at \<open>out\<close>, the frame count and the provider, and returns
  the bytes it leaves at \<open>out\<close> and the number of answers it has taken from the provider.
  Each kernel has an instance for float volumes and one for integer volumes.
\<close>

record ext =
  isMusicRate :: "nat \<Rightarrow> bool"
  resampler_reset :: "AudioResampler \<Rightarrow> AudioResampler"
  resampler_getUnreleasedFrames :: "AudioResampler \<Rightarrow> nat"
  resampler_resample ::
    "AudioResampler \<Rightarrow> byte list \<Rightarrow> nat \<Rightarrow> provider \<Rightarrow> AudioResampler \<times> byte list \<times> nat"
  volumeMulti_float ::
    "mixtype \<Rightarrow> ctype \<Rightarrow> ctype \<Rightarrow> nat \<Rightarrow> byte list \<Rightarrow> nat \<Rightarrow> byte list \<Rightarrow> byte list option
      \<Rightarrow> float \<times> float \<Rightarrow> float \<Rightarrow> byte list \<times> byte list option"
  volumeMulti_int ::
    "mixtype \<Rightarrow> ctype \<Rightarrow> ctype \<Rightarrow> nat \<Rightarrow> byte list \<Rightarrow> nat \<Rightarrow> byte list \<Rightarrow> byte list option
      \<Rightarrow> int \<times> int \<Rightarrow> int \<Rightarrow> byte list \<times> byte list option"
  volumeRampMulti_float ::
    "mixtype \<Rightarrow> ctype \<Rightarrow> ctype \<Rightarrow> nat \<Rightarrow> byte list \<Rightarrow> nat \<Rightarrow> byte list \<Rightarrow> byte list option
      \<Rightarrow> float \<times> float \<Rightarrow> float \<times> float \<Rightarrow> float \<Rightarrow> float
      \<Rightarrow> byte list \<times> byte list option \<times> (float \<times> float) \<times> float"
  volumeRampMulti_int ::
    "mixtype \<Rightarrow> ctype \<Rightarrow> ctype \<Rightarrow> nat \<Rightarrow> byte list \<Rightarrow> nat \<Rightarrow> byte list \<Rightarrow> byte list option
      \<Rightarrow> int \<times> int \<Rightarrow> int \<times> int \<Rightarrow> int \<Rightarrow> int
      \<Rightarrow> byte list \<times> byte list option \<times> (int \<times> int) \<times> int"
  memcpy_to_i16_from_float :: "byte list \<Rightarrow> nat \<Rightarrow> byte list"
  memcpy_to_float_from_q4_27 :: "byte list \<Rightarrow> nat \<Rightarrow> byte list"
  memcpy_to_i16_from_q4_27 :: "byte list \<Rightarrow> nat \<Rightarrow> byte list"

section \<open>Tracks and the mixer\<close>

datatype hook_t =
    Hook_NULL
  | Track_nop
  | Track_Resample mixtype ctype ctype
  | Track_NoResample mixtype ctype ctype

datatype process_hook_t =
    Process_validate
  | Process_nop
  | Process_genericNoResampling
  | Process_genericResampling
  | Process_noResampleOneTrack mixtype ctype ctype

record TrackBase =
  needs :: int
  volume :: "int list"
  prevVolume :: "int list"
  volumeInc :: "int list"
  auxInc :: int
  prevAuxLevel :: int
  auxLevel :: int
  t_frameCount :: nat
  channelCount :: nat
  enabled :: bool
  channelMask :: audio_channel_mask_t
  bufferProvider :: "provider option"
  buffer :: Buffer
  hook :: hook_t
  mIn :: "byte list option"
  mResampler :: "AudioResampler option"
  sampleRate :: nat
  mainBuffer :: nat
  auxBuffer :: nat
  teeBuffer :: nat
  sessionId :: int
  mMixerFormat :: audio_format_t
  mFormat :: audio_format_t
  mMixerInFormat :: audio_format_t
  mVolume :: "float list"
  mPrevVolume :: "float list"
  mVolumeInc :: "float list"
  mAuxLevel :: float
  mPrevAuxLevel :: float
  mAuxInc :: float
  mMixerChannelMask :: audio_channel_mask_t
  mMixerChannelCount :: nat
  mTeeBufferFrameCount :: int
  mInputFrameSize :: nat

record AudioMixerBase =
  mSampleRate :: nat
  mFrameCount :: nat
  mHook :: process_hook_t
  mOutputTemp :: "byte list option"
  mResampleTemp :: "byte list option"
  mGroups :: "(nat \<times> int list) list"
  mEnabled :: "int list"
  mTracks :: "(int \<times> TrackBase) list"
  memory :: "nat \<Rightarrow> byte"

text \<open>
  \<open>LOG_ALWAYS_FATAL\<close> aborts the process, and so does a dereference of a null pointer
  or an access beyond the end of an array: they are the error values of the model.
\<close>

datatype error = Fatal | NullDereference | OutOfBounds

datatype status_t = OK | BAD_VALUE

text \<open>
  \<open>mTracks\<close> is a \<open>std::map\<close>: its entries are kept in increasing order of the name. The
  model is the list of its entries in that order.
\<close>

fun map_insert :: "int \<Rightarrow> 'a \<Rightarrow> (int \<times> 'a) list \<Rightarrow> (int \<times> 'a) list" where
  "map_insert k v [] = [(k, v)]"
| "map_insert k v ((k', v') # xs) =
     (if k < k' then (k, v) # (k', v') # xs
      else if k = k' then (k, v) # xs
      else (k', v') # map_insert k v xs)"

definition map_erase :: "int \<Rightarrow> (int \<times> 'a) list \<Rightarrow> (int \<times> 'a) list" where
  "map_erase k xs = filter (\<lambda>e. fst e \<noteq> k) xs"

definition exists :: "int \<Rightarrow> AudioMixerBase \<Rightarrow> bool" where
  "exists name m = (map_of (mTracks m) name \<noteq> None)"

definition invalidate :: "AudioMixerBase \<Rightarrow> AudioMixerBase" where
  "invalidate m = m\<lparr>mHook := Process_validate\<rparr>"

definition isValidFormat :: "audio_format_t \<Rightarrow> bool" where
  "isValidFormat format =
     (format = AUDIO_FORMAT_PCM_8_BIT \<or> format = AUDIO_FORMAT_PCM_16_BIT
      \<or> format = AUDIO_FORMAT_PCM_24_BIT_PACKED \<or> format = AUDIO_FORMAT_PCM_32_BIT
      \<or> format = AUDIO_FORMAT_PCM_FLOAT)"

definition isValidChannelMask :: "audio_channel_mask_t \<Rightarrow> bool" where
  "isValidChannelMask channelMask' =
     (audio_channel_count_from_out_mask channelMask' \<le> MAX_NUM_CHANNELS)"

definition newTrack ::
  "AudioMixerBase \<Rightarrow> audio_channel_mask_t \<Rightarrow> audio_format_t \<Rightarrow> int \<Rightarrow> TrackBase" where
  \<comment> \<open>the track \<open>create\<close> fills in; \<open>kUseFloat && kUseNewMixer\<close> is true\<close>
  "newTrack m channelMask' format sessionId' =
     \<lparr>needs = 0, volume = [0, 0], prevVolume = [0, 0], volumeInc = [0, 0],
      auxInc = 0, prevAuxLevel = 0, auxLevel = 0, t_frameCount = 0,
      channelCount = audio_channel_count_from_out_mask channelMask' mod 256,
      enabled = False, channelMask = channelMask',
      bufferProvider = None, buffer = \<lparr>raw = None, frameCount = 0, aligned = True\<rparr>,
      hook = Hook_NULL, mIn = None, mResampler = None, sampleRate = mSampleRate m,
      mainBuffer = 0, auxBuffer = 0, teeBuffer = 0, sessionId = sessionId',
      mMixerFormat = AUDIO_FORMAT_PCM_16_BIT, mFormat = format,
      mMixerInFormat = AUDIO_FORMAT_PCM_FLOAT,
      mVolume = [fzero, fzero], mPrevVolume = [fzero, fzero], mVolumeInc = [fzero, fzero],
      mAuxLevel = fzero, mPrevAuxLevel = fzero, mAuxInc = fzero,
      mMixerChannelMask = AUDIO_CHANNEL_OUT_STEREO,
      mMixerChannelCount = audio_channel_count_from_out_mask AUDIO_CHANNEL_OUT_STEREO,
      mTeeBufferFrameCount = 0,
      mInputFrameSize =
        audio_bytes_per_frame (audio_channel_count_from_out_mask channelMask' mod 256) format\<rparr>"

definition create ::
  "int \<Rightarrow> audio_channel_mask_t \<Rightarrow> audio_format_t \<Rightarrow> int \<Rightarrow> AudioMixerBase
    \<Rightarrow> error + status_t \<times> AudioMixerBase" where
  "create name channelMask' format sessionId' m =
     (if exists name m then Inl Fatal
      else if \<not> isValidChannelMask channelMask' then Inr (BAD_VALUE, m)
      else if \<not> isValidFormat format then Inr (BAD_VALUE, m)
      else Inr (OK, m\<lparr>mTracks :=
                  map_insert name (newTrack m channelMask' format sessionId') (mTracks m)\<rparr>))"

definition getOutputChannelCount :: "TrackBase \<Rightarrow> nat" where
  "getOutputChannelCount t = channelCount t"

definition getMixerChannelCount :: "TrackBase \<Rightarrow> nat" where
  "getMixerChannelCount t = mMixerChannelCount t"

definition doesResample :: "TrackBase \<Rightarrow> bool" where
  "doesResample t = (mResampler t \<noteq> None)"

definition setResampler :: "ext \<Rightarrow> nat \<Rightarrow> nat \<Rightarrow> TrackBase \<Rightarrow> bool \<times> TrackBase" where
  "setResampler x trackSampleRate devSampleRate t =
     (if trackSampleRate \<noteq> devSampleRate \<or> mResampler t \<noteq> None then
        (if sampleRate t \<noteq> trackSampleRate then
           (let t1 = t\<lparr>sampleRate := trackSampleRate\<rparr>
            in if mResampler t1 = None then
                 (let quality = (if isMusicRate x trackSampleRate
                                 then DEFAULT_QUALITY else DYN_LOW_QUALITY);
                      resamplerChannelCount = getOutputChannelCount t1
                  in (True, t1\<lparr>mResampler := Some
                        \<lparr>rsFormat = mMixerInFormat t1, rsChannelCount = resamplerChannelCount,
                         rsDevSampleRate = devSampleRate, rsQuality = quality,
                         rsInSampleRate = devSampleRate,
                         rsVolume = (UNITY_GAIN_FLOAT, UNITY_GAIN_FLOAT),
                         rsInternal = 0\<rparr>\<rparr>))
               else (True, t1))
         else (False, t))
      else (False, t))"

definition recreateResampler :: "ext \<Rightarrow> nat \<Rightarrow> TrackBase \<Rightarrow> TrackBase" where
  "recreateResampler x devSampleRate t =
     (if mResampler t \<noteq> None then
        (let resetToSampleRate = sampleRate t;
             t1 = t\<lparr>mResampler := None, sampleRate := devSampleRate\<rparr>
         in snd (setResampler x resetToSampleRate devSampleRate t1))
      else t)"

definition resetResampler :: "ext \<Rightarrow> TrackBase \<Rightarrow> TrackBase" where
  "resetResampler x t =
     (case mResampler t of None \<Rightarrow> t | Some r \<Rightarrow> t\<lparr>mResampler := Some (resampler_reset x r)\<rparr>)"

definition track_getUnreleasedFrames :: "ext \<Rightarrow> TrackBase \<Rightarrow> nat" where
  \<comment> \<open>\<open>TrackBase::getUnreleasedFrames\<close>\<close>
  "track_getUnreleasedFrames x t =
     (case mResampler t of Some r \<Rightarrow> resampler_getUnreleasedFrames x r | None \<Rightarrow> 0)"

definition getUnreleasedFrames :: "ext \<Rightarrow> int \<Rightarrow> AudioMixerBase \<Rightarrow> nat" where
  "getUnreleasedFrames x name m =
     (case map_of (mTracks m) name of
        Some t \<Rightarrow> track_getUnreleasedFrames x t
      | None \<Rightarrow> 0)"

definition setChannelMasks ::
  "ext \<Rightarrow> int \<Rightarrow> audio_channel_mask_t \<Rightarrow> audio_channel_mask_t \<Rightarrow> AudioMixerBase
    \<Rightarrow> error + bool \<times> AudioMixerBase" where
  "setChannelMasks x name trackChannelMask mixerChannelMask m =
     (case map_of (mTracks m) name of
        None \<Rightarrow> Inl Fatal
      | Some track \<Rightarrow>
          if trackChannelMask = channelMask track \<and> mixerChannelMask = mMixerChannelMask track
          then Inr (False, m)
          else
            let trackChannelCount = audio_channel_count_from_out_mask trackChannelMask;
                mixerChannelCount = audio_channel_count_from_out_mask mixerChannelMask;
                t1 = track\<lparr>channelMask := trackChannelMask,
                           channelCount := trackChannelCount mod 256,
                           mMixerChannelMask := mixerChannelMask,
                           mMixerChannelCount := mixerChannelCount\<rparr>;
                t2 = t1\<lparr>mInputFrameSize := audio_bytes_per_frame (channelCount t1) (mFormat t1)\<rparr>;
                t3 = recreateResampler x (mSampleRate m) t2
            in Inr (True, m\<lparr>mTracks := map_insert name t3 (mTracks m)\<rparr>))"

definition destroy :: "int \<Rightarrow> AudioMixerBase \<Rightarrow> error + AudioMixerBase" where
  "destroy name m =
     (case map_of (mTracks m) name of
        None \<Rightarrow> Inl Fatal
      | Some t \<Rightarrow>
          let m1 = (if enabled t then invalidate m else m)
          in Inr (m1\<lparr>mTracks := map_erase name (mTracks m1)\<rparr>))"

definition enable :: "int \<Rightarrow> AudioMixerBase \<Rightarrow> error + AudioMixerBase" where
  "enable name m =
     (case map_of (mTracks m) name of
        None \<Rightarrow> Inl Fatal
      | Some track \<Rightarrow>
          if \<not> enabled track
          then Inr (invalidate (m\<lparr>mTracks := map_insert name (track\<lparr>enabled := True\<rparr>) (mTracks m)\<rparr>))
          else Inr m)"

definition disable :: "int \<Rightarrow> AudioMixerBase \<Rightarrow> error + AudioMixerBase" where
  "disable name m =
     (case map_of (mTracks m) name of
        None \<Rightarrow> Inl Fatal
      | Some track \<Rightarrow>
          if enabled track
          then Inr (invalidate (m\<lparr>mTracks := map_insert name (track\<lparr>enabled := False\<rparr>) (mTracks m)\<rparr>))
          else Inr m)"

text \<open>The names of \<open>setParameter\<close>: targets, then parameters.\<close>

abbreviation (input) TRACK :: int where "TRACK \<equiv> 12288"
abbreviation (input) RESAMPLE :: int where "RESAMPLE \<equiv> 12289"
abbreviation (input) RAMP_VOLUME :: int where "RAMP_VOLUME \<equiv> 12290"
abbreviation (input) VOLUME :: int where "VOLUME \<equiv> 12291"
abbreviation (input) CHANNEL_MASK :: int where "CHANNEL_MASK \<equiv> 16384"
abbreviation (input) FORMAT :: int where "FORMAT \<equiv> 16385"
abbreviation (input) MAIN_BUFFER :: int where "MAIN_BUFFER \<equiv> 16386"
abbreviation (input) AUX_BUFFER :: int where "AUX_BUFFER \<equiv> 16387"
abbreviation (input) MIXER_FORMAT :: int where "MIXER_FORMAT \<equiv> 16389"
abbreviation (input) MIXER_CHANNEL_MASK :: int where "MIXER_CHANNEL_MASK \<equiv> 16390"
abbreviation (input) TEE_BUFFER :: int where "TEE_BUFFER \<equiv> 16394"
abbreviation (input) TEE_BUFFER_FRAME_COUNT :: int where "TEE_BUFFER_FRAME_COUNT \<equiv> 16396"
abbreviation (input) SAMPLE_RATE :: int where "SAMPLE_RATE \<equiv> 16640"
abbreviation (input) RESET :: int where "RESET \<equiv> 16641"
abbreviation (input) REMOVE :: int where "REMOVE \<equiv> 16642"
abbreviation (input) VOLUME0 :: int where "VOLUME0 \<equiv> 16896"
abbreviation (input) AUXLEVEL :: int where "AUXLEVEL \<equiv> 16912"

text \<open>
  The \<open>void *value\<close> of \<open>setParameter\<close> is read in three ways: as an integer, as a buffer
  pointer, and as a pointer to a \<open>float\<close>. The model carries the pointer and the \<open>float\<close>
  found where it points.
\<close>

record param_value =
  valuePtr :: nat
  valueFloat :: float

definition valueInt :: "param_value \<Rightarrow> int" where
  "valueInt v = s32 (int (valuePtr v))"

definition valueBuf :: "param_value \<Rightarrow> nat" where
  "valueBuf v = valuePtr v"

definition putTrack :: "int \<Rightarrow> TrackBase \<Rightarrow> AudioMixerBase \<Rightarrow> AudioMixerBase" where
  \<comment> \<open>a write through the shared pointer \<open>mTracks[name]\<close>\<close>
  "putTrack name t m = m\<lparr>mTracks := map_insert name t (mTracks m)\<rparr>"

definition auxVars :: "TrackBase \<Rightarrow> volvars" where
  "auxVars t =
     \<lparr>pIntSetVolume = auxLevel t, pIntPrevVolume = prevAuxLevel t, pIntVolumeInc = auxInc t,
      pSetVolume = mAuxLevel t, pPrevVolume = mPrevAuxLevel t, pVolumeInc = mAuxInc t\<rparr>"

definition setAuxVars :: "volvars \<Rightarrow> TrackBase \<Rightarrow> TrackBase" where
  "setAuxVars p t =
     t\<lparr>auxLevel := pIntSetVolume p, prevAuxLevel := pIntPrevVolume p, auxInc := pIntVolumeInc p,
       mAuxLevel := pSetVolume p, mPrevAuxLevel := pPrevVolume p, mAuxInc := pVolumeInc p\<rparr>"

definition volumeVars :: "nat \<Rightarrow> TrackBase \<Rightarrow> volvars" where
  "volumeVars i t =
     \<lparr>pIntSetVolume = volume t ! i, pIntPrevVolume = prevVolume t ! i,
      pIntVolumeInc = volumeInc t ! i,
      pSetVolume = mVolume t ! i, pPrevVolume = mPrevVolume t ! i,
      pVolumeInc = mVolumeInc t ! i\<rparr>"

definition setVolumeVars :: "nat \<Rightarrow> volvars \<Rightarrow> TrackBase \<Rightarrow> TrackBase" where
  "setVolumeVars i p t =
     t\<lparr>volume := (volume t)[i := pIntSetVolume p],
       prevVolume := (prevVolume t)[i := pIntPrevVolume p],
       volumeInc := (volumeInc t)[i := pIntVolumeInc p],
       mVolume := (mVolume t)[i := pSetVolume p],
       mPrevVolume := (mPrevVolume t)[i := pPrevVolume p],
       mVolumeInc := (mVolumeInc t)[i := pVolumeInc p]\<rparr>"

definition setParameter ::
  "ext \<Rightarrow> int \<Rightarrow> int \<Rightarrow> int \<Rightarrow> param_value \<Rightarrow> AudioMixerBase \<Rightarrow> error + AudioMixerBase" where
  \<comment> \<open>\<open>ALOG_ASSERT\<close> is compiled out and is left out\<close>
  "setParameter x name target param v m =
     (case map_of (mTracks m) name of
        None \<Rightarrow> Inl Fatal
      | Some track \<Rightarrow>
          if target = TRACK then
            (if param = CHANNEL_MASK then
               (case setChannelMasks x name (nat (u32 (valueInt v))) (mMixerChannelMask track) m of
                  Inl e \<Rightarrow> Inl e
                | Inr (changed, m') \<Rightarrow> Inr (if changed then invalidate m' else m'))
             else if param = MAIN_BUFFER then
               (if mainBuffer track \<noteq> valueBuf v
                then Inr (invalidate (putTrack name (track\<lparr>mainBuffer := valueBuf v\<rparr>) m))
                else Inr m)
             else if param = AUX_BUFFER then
               (if auxBuffer track \<noteq> valueBuf v
                then Inr (invalidate (putTrack name (track\<lparr>auxBuffer := valueBuf v\<rparr>) m))
                else Inr m)
             else if param = FORMAT then
               (if mFormat track \<noteq> valueInt v
                then Inr (invalidate (putTrack name (track\<lparr>mFormat := valueInt v\<rparr>) m))
                else Inr m)
             else if param = MIXER_FORMAT then
               (if mMixerFormat track \<noteq> valueInt v
                then Inr (putTrack name (track\<lparr>mMixerFormat := valueInt v\<rparr>) m)
                else Inr m)
             else if param = MIXER_CHANNEL_MASK then
               (case setChannelMasks x name (channelMask track) (nat (u32 (valueInt v))) m of
                  Inl e \<Rightarrow> Inl e
                | Inr (changed, m') \<Rightarrow> Inr (if changed then invalidate m' else m'))
             else if param = TEE_BUFFER then
               (if teeBuffer track \<noteq> valueBuf v
                then Inr (invalidate (putTrack name (track\<lparr>teeBuffer := valueBuf v\<rparr>) m))
                else Inr m)
             else if param = TEE_BUFFER_FRAME_COUNT then
               (if mTeeBufferFrameCount track \<noteq> valueInt v
                then Inr (invalidate
                       (putTrack name (track\<lparr>mTeeBufferFrameCount := valueInt v\<rparr>) m))
                else Inr m)
             else Inl Fatal)
          else if target = RESAMPLE then
            (if param = SAMPLE_RATE then
               (case setResampler x (nat (u32 (valueInt v))) (mSampleRate m) track of
                  (changed, t') \<Rightarrow>
                    if changed then Inr (invalidate (putTrack name t' m)) else Inr m)
             else if param = RESET then
               Inr (invalidate (putTrack name (resetResampler x track) m))
             else if param = REMOVE then
               Inr (invalidate
                 (putTrack name (track\<lparr>mResampler := None, sampleRate := mSampleRate m\<rparr>) m))
             else Inl Fatal)
          else if target = RAMP_VOLUME \<or> target = VOLUME then
            (let ramp = (if target = RAMP_VOLUME then s32 (int (mFrameCount m)) else 0)
             in if param = AUXLEVEL then
                  (case setVolumeRampVariables (valueFloat v) ramp (auxVars track) of
                     (changed, p) \<Rightarrow>
                       if changed then Inr (invalidate (putTrack name (setAuxVars p track) m))
                       else Inr m)
                else if VOLUME0 \<le> u32 param \<and> u32 param < VOLUME0 + int MAX_NUM_VOLUMES then
                  (let i = nat (param - VOLUME0)
                   in case setVolumeRampVariables (valueFloat v) ramp (volumeVars i track) of
                        (changed, p) \<Rightarrow>
                          if changed
                          then Inr (invalidate (putTrack name (setVolumeVars i p track) m))
                          else Inr m)
                else Inl Fatal)
          else Inl Fatal)"

definition newMixer :: "nat \<Rightarrow> nat \<Rightarrow> AudioMixerBase" where
  \<comment> \<open>the constructor \<open>AudioMixerBase(frameCount, sampleRate)\<close>, in an address space of
      zero bytes\<close>
  "newMixer frameCount' sampleRate' =
     \<lparr>mSampleRate = sampleRate', mFrameCount = frameCount', mHook = Process_nop,
      mOutputTemp = None, mResampleTemp = None, mGroups = [], mEnabled = [], mTracks = [],
      memory = (\<lambda>a. 0)\<rparr>"

definition float_valid :: "float \<Rightarrow> bool" where
  \<comment> \<open>a finite value is a binary32 value when rounding leaves it as it is\<close>
  "float_valid x =
     (case x of FFin s m \<Rightarrow> 0 \<le> m \<and> float_round s m = FFin s m | _ \<Rightarrow> True)"

definition volume_in_range :: "float \<Rightarrow> bool" where
  \<comment> \<open>\<open>0 \<le> v \<le> 1.0\<close>, and \<open>v\<close> is not subnormal\<close>
  "volume_in_range v =
     (fle fzero v \<and> fle v UNITY_GAIN_FLOAT \<and> fpclassify v \<noteq> FP_SUBNORMAL)"

section \<open>Hook selection\<close>

abbreviation (input) NEEDS_CHANNEL_COUNT__MASK :: int where "NEEDS_CHANNEL_COUNT__MASK \<equiv> 7"
abbreviation (input) NEEDS_CHANNEL_1 :: int where "NEEDS_CHANNEL_1 \<equiv> 0"
abbreviation (input) NEEDS_CHANNEL_2 :: int where "NEEDS_CHANNEL_2 \<equiv> 1"
abbreviation (input) NEEDS_MUTE :: int where "NEEDS_MUTE \<equiv> 256"
abbreviation (input) NEEDS_RESAMPLE :: int where "NEEDS_RESAMPLE \<equiv> 4096"
abbreviation (input) NEEDS_AUX :: int where "NEEDS_AUX \<equiv> 65536"

datatype tracktype =
    TRACKTYPE_NOP | TRACKTYPE_RESAMPLE | TRACKTYPE_RESAMPLEMONO | TRACKTYPE_RESAMPLESTEREO
  | TRACKTYPE_NORESAMPLE | TRACKTYPE_NORESAMPLEMONO | TRACKTYPE_NORESAMPLESTEREO

abbreviation (input) PROCESSTYPE_NORESAMPLEONETRACK :: int where "PROCESSTYPE_NORESAMPLEONETRACK \<equiv> 0"

definition needsRamp :: "TrackBase \<Rightarrow> bool" where
  "needsRamp t = ((volumeInc t ! 0 OR volumeInc t ! 1 OR auxInc t) \<noteq> 0)"

definition useStereoVolume :: "TrackBase \<Rightarrow> bool" where
  "useStereoVolume t =
     (channelMask t = AUDIO_CHANNEL_OUT_STEREO \<and> isAudioChannelPositionMask (mMixerChannelMask t))"

definition isVolumeMuted :: "TrackBase \<Rightarrow> bool" where
  \<comment> \<open>muted only if no channel volume compares different from 0\<close>
  "isVolumeMuted t = list_all (\<lambda>v. feq v fzero) (mVolume t)"

definition trackHookFor ::
  "(ctype \<Rightarrow> ctype \<Rightarrow> hook_t) \<Rightarrow> audio_format_t \<Rightarrow> error + hook_t" where
  \<comment> \<open>the inner \<open>switch (mixerInFormat)\<close> of \<open>getTrackHook\<close>: \<open>TO\<close> and \<open>TI\<close> are
      \<open>float, float\<close> or \<open>int32_t, int16_t\<close>\<close>
  "trackHookFor h mixerInFormat =
     (if mixerInFormat = AUDIO_FORMAT_PCM_FLOAT then Inr (h T_float T_float)
      else if mixerInFormat = AUDIO_FORMAT_PCM_16_BIT then Inr (h T_int32 T_int16)
      else Inl Fatal)"

definition getTrackHook ::
  "tracktype \<Rightarrow> nat \<Rightarrow> audio_format_t \<Rightarrow> audio_format_t \<Rightarrow> error + hook_t" where
  \<comment> \<open>\<open>kUseNewMixer\<close> is true, so the legacy hooks are never returned\<close>
  "getTrackHook trackType channelCount' mixerInFormat mixerOutFormat =
     (if channelCount' > MAX_NUM_CHANNELS then Inl Fatal
      else (case trackType of
              TRACKTYPE_NOP \<Rightarrow> Inr Track_nop
            | TRACKTYPE_RESAMPLE \<Rightarrow> trackHookFor (Track_Resample MIXTYPE_MULTI) mixerInFormat
            | TRACKTYPE_RESAMPLESTEREO \<Rightarrow>
                trackHookFor (Track_Resample MIXTYPE_MULTI_STEREOVOL) mixerInFormat
            | TRACKTYPE_RESAMPLEMONO \<Rightarrow>
                trackHookFor (Track_Resample MIXTYPE_STEREOEXPAND) mixerInFormat
            | TRACKTYPE_NORESAMPLEMONO \<Rightarrow>
                trackHookFor (Track_NoResample MIXTYPE_MONOEXPAND) mixerInFormat
            | TRACKTYPE_NORESAMPLE \<Rightarrow> trackHookFor (Track_NoResample MIXTYPE_MULTI) mixerInFormat
            | TRACKTYPE_NORESAMPLESTEREO \<Rightarrow>
                trackHookFor (Track_NoResample MIXTYPE_MULTI_STEREOVOL) mixerInFormat))"

definition getProcessHook ::
  "int \<Rightarrow> nat \<Rightarrow> audio_format_t \<Rightarrow> audio_format_t \<Rightarrow> bool \<Rightarrow> error + process_hook_t" where
  "getProcessHook processType channelCount' mixerInFormat mixerOutFormat stereoVolume =
     (if processType \<noteq> PROCESSTYPE_NORESAMPLEONETRACK then Inl Fatal
      else if channelCount' > MAX_NUM_CHANNELS then Inl Fatal
      else
        let mt = (if stereoVolume then MIXTYPE_MULTI_SAVEONLY_STEREOVOL
                  else MIXTYPE_MULTI_SAVEONLY)
        in if mixerInFormat = AUDIO_FORMAT_PCM_FLOAT then
             (if mixerOutFormat = AUDIO_FORMAT_PCM_FLOAT
              then Inr (Process_noResampleOneTrack mt T_float T_float)
              else if mixerOutFormat = AUDIO_FORMAT_PCM_16_BIT
              then Inr (Process_noResampleOneTrack mt T_int16 T_float)
              else Inl Fatal)
           else if mixerInFormat = AUDIO_FORMAT_PCM_16_BIT then
             (if mixerOutFormat = AUDIO_FORMAT_PCM_FLOAT
              then Inr (Process_noResampleOneTrack mt T_float T_int16)
              else if mixerOutFormat = AUDIO_FORMAT_PCM_16_BIT
              then Inr (Process_noResampleOneTrack mt T_int16 T_int16)
              else Inl Fatal)
           else Inl Fatal)"

text \<open>The three flags of \<open>process__validate\<close>, and the two containers it rebuilds.\<close>

record vstate =
  all16BitsStereoNoResample :: bool
  resampling :: bool
  volumeRamp :: bool
  v_enabled :: "int list"
  v_groups :: "(nat \<times> int list) list"

fun groups_add :: "nat \<Rightarrow> int \<Rightarrow> (nat \<times> int list) list \<Rightarrow> (nat \<times> int list) list" where
  \<comment> \<open>\<open>mGroups[mainBuffer].emplace_back(name)\<close>; \<open>mGroups\<close> is an unordered map, whose
      iteration order is not specified: the model lists the groups in the order of their
      first insertion\<close>
  "groups_add k n [] = [(k, [n])]"
| "groups_add k n ((k', ns) # gs) =
     (if k = k' then (k', ns @ [n]) # gs else (k', ns) # groups_add k n gs)"

definition trackNeeds :: "TrackBase \<Rightarrow> int" where
  \<comment> \<open>the value of \<open>n\<close> stored in \<open>t->needs\<close> by the first loop of \<open>process__validate\<close>\<close>
  "trackNeeds t =
     (let n0 = u32 (NEEDS_CHANNEL_1 + int (channelCount t) - 1);
          n1 = (if doesResample t then n0 OR NEEDS_RESAMPLE else n0);
          n2 = (if auxLevel t \<noteq> 0 \<and> auxBuffer t \<noteq> 0 then n1 OR NEEDS_AUX else n1)
      in if (volumeInc t ! 0 OR volumeInc t ! 1) \<noteq> 0 then n2
         else if \<not> doesResample t \<and> isVolumeMuted t then n2 OR NEEDS_MUTE
         else n2)"

definition selectTrackHook :: "TrackBase \<Rightarrow> error + hook_t" where
  \<comment> \<open>the hook chosen for a track with \<open>t->needs\<close> already stored\<close>
  "selectTrackHook t =
     (let n = needs t in
      if n AND NEEDS_MUTE \<noteq> 0 then Inr Track_nop
      else if n AND NEEDS_RESAMPLE \<noteq> 0 then
        (if n AND NEEDS_CHANNEL_COUNT__MASK = NEEDS_CHANNEL_1
            \<and> channelMask t = AUDIO_CHANNEL_OUT_MONO
            \<and> isAudioChannelPositionMask (mMixerChannelMask t)
         then getTrackHook TRACKTYPE_RESAMPLEMONO (mMixerChannelCount t)
                (mMixerInFormat t) (mMixerFormat t)
         else if n AND NEEDS_CHANNEL_COUNT__MASK \<ge> NEEDS_CHANNEL_2 \<and> useStereoVolume t
         then getTrackHook TRACKTYPE_RESAMPLESTEREO (mMixerChannelCount t)
                (mMixerInFormat t) (mMixerFormat t)
         else getTrackHook TRACKTYPE_RESAMPLE (mMixerChannelCount t)
                (mMixerInFormat t) (mMixerFormat t))
      else
        (case (if n AND NEEDS_CHANNEL_COUNT__MASK = NEEDS_CHANNEL_1
               then getTrackHook
                      (if isAudioChannelPositionMask (mMixerChannelMask t)
                          \<and> channelMask t = AUDIO_CHANNEL_OUT_MONO
                       then TRACKTYPE_NORESAMPLEMONO else TRACKTYPE_NORESAMPLE)
                      (mMixerChannelCount t) (mMixerInFormat t) (mMixerFormat t)
               else Inr (hook t)) of
           Inl e \<Rightarrow> Inl e
         | Inr h1 \<Rightarrow>
             if n AND NEEDS_CHANNEL_COUNT__MASK \<ge> NEEDS_CHANNEL_2
             then getTrackHook
                    (if useStereoVolume t then TRACKTYPE_NORESAMPLESTEREO
                     else TRACKTYPE_NORESAMPLE)
                    (mMixerChannelCount t) (mMixerInFormat t) (mMixerFormat t)
             else Inr h1))"

definition validateTrack :: "TrackBase \<Rightarrow> vstate \<Rightarrow> error + TrackBase \<times> vstate" where
  \<comment> \<open>the body of the first loop of \<open>process__validate\<close> for an enabled track, after the
      two \<open>emplace_back\<close>\<close>
  "validateTrack t st =
     (let st1 = (if (volumeInc t ! 0 OR volumeInc t ! 1) \<noteq> 0 then st\<lparr>volumeRamp := True\<rparr>
                 else st);
          t1 = t\<lparr>needs := trackNeeds t\<rparr>;
          n = needs t1;
          st2 = (if n AND NEEDS_MUTE \<noteq> 0 then st1
                 else
                   let a = (if n AND NEEDS_AUX \<noteq> 0
                            then st1\<lparr>all16BitsStereoNoResample := False\<rparr> else st1)
                   in if n AND NEEDS_RESAMPLE \<noteq> 0
                      then a\<lparr>all16BitsStereoNoResample := False, resampling := True\<rparr>
                      else if n AND NEEDS_CHANNEL_COUNT__MASK = NEEDS_CHANNEL_1
                      then a\<lparr>all16BitsStereoNoResample := False\<rparr>
                      else a)
      in case selectTrackHook t1 of
           Inl e \<Rightarrow> Inl e
         | Inr h \<Rightarrow> Inr (t1\<lparr>hook := h\<rparr>, st2))"

fun validateTracks ::
  "(int \<times> TrackBase) list \<Rightarrow> vstate \<Rightarrow> error + (int \<times> TrackBase) list \<times> vstate" where
  "validateTracks [] st = Inr ([], st)"
| "validateTracks ((name, t) # rest) st =
     (if \<not> enabled t then
        (case validateTracks rest st of
           Inl e \<Rightarrow> Inl e
         | Inr (ts, st') \<Rightarrow> Inr ((name, t) # ts, st'))
      else
        (case validateTrack t
                (st\<lparr>v_enabled := v_enabled st @ [name],
                    v_groups := groups_add (mainBuffer t) name (v_groups st)\<rparr>) of
           Inl e \<Rightarrow> Inl e
         | Inr (t', st1) \<Rightarrow>
             (case validateTracks rest st1 of
                Inl e \<Rightarrow> Inl e
              | Inr (ts, st') \<Rightarrow> Inr ((name, t') # ts, st'))))"

definition selectProcessHook :: "AudioMixerBase \<Rightarrow> vstate \<Rightarrow> error + AudioMixerBase" where
  \<comment> \<open>"select the processing hooks"; a new temporary array is taken to hold zero bytes\<close>
  "selectProcessHook m st =
     (let m1 = m\<lparr>mHook := Process_nop\<rparr> in
      if length (mEnabled m1) > 0 then
        (if resampling st then
           Inr (m1\<lparr>mOutputTemp :=
                     (case mOutputTemp m1 of
                        None \<Rightarrow> Some (replicate (4 * (MAX_NUM_CHANNELS * mFrameCount m1)) 0)
                      | Some b \<Rightarrow> Some b),
                   mResampleTemp :=
                     (case mResampleTemp m1 of
                        None \<Rightarrow> Some (replicate (4 * (MAX_NUM_CHANNELS * mFrameCount m1)) 0)
                      | Some b \<Rightarrow> Some b),
                   mHook := Process_genericResampling\<rparr>)
         else
           (let m2 = m1\<lparr>mHook := Process_genericNoResampling\<rparr> in
            if all16BitsStereoNoResample st \<and> \<not> volumeRamp st \<and> length (mEnabled m2) = 1 then
              (case map_of (mTracks m2) (mEnabled m2 ! 0) of
                 None \<Rightarrow> Inl NullDereference
               | Some t \<Rightarrow>
                   if needs t AND NEEDS_MUTE = 0 then
                     (case getProcessHook PROCESSTYPE_NORESAMPLEONETRACK (mMixerChannelCount t)
                             (mMixerInFormat t) (mMixerFormat t) (useStereoVolume t) of
                        Inl e \<Rightarrow> Inl e
                      | Inr h \<Rightarrow> Inr (m2\<lparr>mHook := h\<rparr>))
                   else Inr m2)
            else Inr m2))
      else Inr m1)"

definition validateSelect :: "AudioMixerBase \<Rightarrow> error + AudioMixerBase \<times> vstate" where
  \<comment> \<open>\<open>process__validate\<close> up to its call of \<open>process()\<close>\<close>
  "validateSelect m =
     (case validateTracks (mTracks m)
             \<lparr>all16BitsStereoNoResample = True, resampling = False, volumeRamp = False,
              v_enabled = [], v_groups = []\<rparr> of
        Inl e \<Rightarrow> Inl e
      | Inr (ts, st) \<Rightarrow>
          (case selectProcessHook
                  (m\<lparr>mEnabled := v_enabled st, mGroups := v_groups st, mTracks := ts\<rparr>) st of
             Inl e \<Rightarrow> Inl e
           | Inr m' \<Rightarrow> Inr (m', st)))"

fun remuteTracks :: "int list \<Rightarrow> AudioMixerBase \<Rightarrow> error + AudioMixerBase \<times> bool" where
  \<comment> \<open>the loop over \<open>mEnabled\<close> after the call of \<open>process()\<close>; the flag is \<open>allMuted\<close>\<close>
  "remuteTracks [] m = Inr (m, True)"
| "remuteTracks (name # names) m =
     (case map_of (mTracks m) name of
        None \<Rightarrow> Inl NullDereference
      | Some t \<Rightarrow>
          if \<not> doesResample t \<and> isVolumeMuted t then
            remuteTracks names
              (putTrack name (t\<lparr>needs := needs t OR NEEDS_MUTE, hook := Track_nop\<rparr>) m)
          else
            (case remuteTracks names m of
               Inl e \<Rightarrow> Inl e
             | Inr (m', allMuted) \<Rightarrow> Inr (m', False)))"

definition validateFinish :: "vstate \<Rightarrow> AudioMixerBase \<Rightarrow> error + AudioMixerBase" where
  \<comment> \<open>\<open>process__validate\<close> after its call of \<open>process()\<close>\<close>
  "validateFinish st m =
     (if length (mEnabled m) > 0 then
        (case remuteTracks (mEnabled m) m of
           Inl e \<Rightarrow> Inl e
         | Inr (m1, allMuted) \<Rightarrow>
             if allMuted then Inr (m1\<lparr>mHook := Process_nop\<rparr>)
             else if all16BitsStereoNoResample st \<and> length (mEnabled m1) = 1 then
               (case map_of (mTracks m1) (mEnabled m1 ! 0) of
                  None \<Rightarrow> Inl NullDereference
                | Some t \<Rightarrow>
                    (case getProcessHook PROCESSTYPE_NORESAMPLEONETRACK (mMixerChannelCount t)
                            (mMixerInFormat t) (mMixerFormat t) (useStereoVolume t) of
                       Inl e \<Rightarrow> Inl e
                     | Inr h \<Rightarrow> Inr (m1\<lparr>mHook := h\<rparr>)))
             else Inr m1)
      else Inr m)"

section \<open>Volume ramps\<close>

definition float_from_u4_28 :: "int \<Rightarrow> float" where
  \<comment> \<open>Modelled from the spec: \<open>audio_utils/primitives.h\<close> is not among the sources; the
      unsigned 32-bit U4.28 value is converted to \<open>float\<close> and scaled by \<open>2^-28\<close>.\<close>
  "float_from_u4_28 uval = fmul (float_of_int (u32 uval)) (FFin False (pow2 (- 28)))"

definition u4_28_from_float :: "float \<Rightarrow> int" where
  \<comment> \<open>Modelled from the spec: \<open>audio_utils/primitives.h\<close> is not among the sources; the
      value is scaled by \<open>2^28\<close> and rounded to the nearest integer, ties away from zero,
      clamped to \<open>[0, 0xffffffff]\<close>. The result on a NaN is undefined; the model gives 0.\<close>
  "u4_28_from_float f =
     (if fle f fzero then 0
      else if fle (fdiv (float_of_int 4294967295) (FFin False (pow2 28))) f then 4294967295
      else (case fmul f (FFin False (pow2 28)) of
              FFin s m \<Rightarrow> u32 \<lfloor>fval s m + 1 / 2\<rfloor>
            | _ \<Rightarrow> 0))"

definition rampDone_float :: "float \<Rightarrow> float \<Rightarrow> float \<Rightarrow> bool" where
  \<comment> \<open>\<open>(inc > 0 && prev + inc >= target) || (inc < 0 && prev + inc <= target)\<close>\<close>
  "rampDone_float inc prev target =
     ((flt fzero inc \<and> fle target (fadd prev inc)) \<or> (flt inc fzero \<and> fle (fadd prev inc) target))"

definition rampDone_int :: "int \<Rightarrow> int \<Rightarrow> int \<Rightarrow> bool" where
  \<comment> \<open>\<open>(inc > 0 && ((prev + inc) >> 16) >= target) || (inc < 0 && ((prev + inc) >> 16) <= target)\<close>\<close>
  "rampDone_int inc prev target =
     ((0 < inc \<and> target \<le> s32 (prev + inc) div 65536)
      \<or> (inc < 0 \<and> s32 (prev + inc) div 65536 \<le> target))"

definition rampCommit :: "nat \<Rightarrow> TrackBase \<Rightarrow> TrackBase" where
  \<comment> \<open>the four assignments of a completed ramp on channel \<open>i\<close>\<close>
  "rampCommit i t =
     t\<lparr>volumeInc := (volumeInc t)[i := 0],
       prevVolume := (prevVolume t)[i := s32 (volume t ! i * 65536)],
       mVolumeInc := (mVolumeInc t)[i := fzero],
       mPrevVolume := (mPrevVolume t)[i := mVolume t ! i]\<rparr>"

definition adjustVolumeRamp_channel :: "bool \<Rightarrow> nat \<Rightarrow> TrackBase \<Rightarrow> TrackBase" where
  \<comment> \<open>the body of the loops over \<open>i\<close> of \<open>adjustVolumeRamp\<close>\<close>
  "adjustVolumeRamp_channel useFloat i t =
     (if useFloat then
        (if rampDone_float (mVolumeInc t ! i) (mPrevVolume t ! i) (mVolume t ! i)
         then rampCommit i t
         else t\<lparr>prevVolume := (prevVolume t)[i := s32 (u4_28_from_float (mPrevVolume t ! i))]\<rparr>)
      else
        (if rampDone_int (volumeInc t ! i) (prevVolume t ! i) (volume t ! i)
         then rampCommit i t
         else t\<lparr>mPrevVolume := (mPrevVolume t)[i := float_from_u4_28 (prevVolume t ! i)]\<rparr>))"

definition auxCommit :: "TrackBase \<Rightarrow> TrackBase" where
  "auxCommit t =
     t\<lparr>auxInc := 0, prevAuxLevel := s32 (auxLevel t * 65536),
       mAuxInc := fzero, mPrevAuxLevel := mAuxLevel t\<rparr>"

definition adjustVolumeRamp :: "bool \<Rightarrow> bool \<Rightarrow> TrackBase \<Rightarrow> TrackBase" where
  \<comment> \<open>\<open>FLOAT_AUX\<close> is defined\<close>
  "adjustVolumeRamp aux useFloat t =
     (let t1 = adjustVolumeRamp_channel useFloat 1 (adjustVolumeRamp_channel useFloat 0 t)
      in if aux then
           (if useFloat then
              (if rampDone_float (mAuxInc t1) (mPrevAuxLevel t1) (mAuxLevel t1)
               then auxCommit t1 else t1)
            else
              (if rampDone_int (auxInc t1) (prevAuxLevel t1) (auxLevel t1)
               then auxCommit t1 else t1))
         else t1)"






section \<open>Mixing\<close>

definition BLOCKSIZE :: nat where
  "BLOCKSIZE = 16"

fun sizeof :: "ctype \<Rightarrow> nat" where
  "sizeof T_int16 = 2"
| "sizeof T_int32 = 4"
| "sizeof T_float = 4"

text \<open>
  The caller's buffers live in \<open>memory\<close>, a byte for every address; address 0 is the null
  pointer. The mixer's own arrays are lists of bytes.
\<close>

definition mem_read :: "(nat \<Rightarrow> byte) \<Rightarrow> nat \<Rightarrow> nat \<Rightarrow> byte list" where
  "mem_read mem a n = map mem [a..<a + n]"

definition mem_write :: "nat \<Rightarrow> byte list \<Rightarrow> (nat \<Rightarrow> byte) \<Rightarrow> (nat \<Rightarrow> byte)" where
  "mem_write a bs mem = (\<lambda>i. if a \<le> i \<and> i < a + length bs then bs ! (i - a) else mem i)"

definition store :: "nat \<Rightarrow> byte list \<Rightarrow> (nat \<Rightarrow> byte) \<Rightarrow> error + (nat \<Rightarrow> byte)" where
  \<comment> \<open>a write of some bytes through a pointer, which must not be null\<close>
  "store a bs mem = (if a = 0 \<and> bs \<noteq> [] then Inl NullDereference else Inr (mem_write a bs mem))"

definition memset0 :: "nat \<Rightarrow> nat \<Rightarrow> (nat \<Rightarrow> byte) \<Rightarrow> error + (nat \<Rightarrow> byte)" where
  \<comment> \<open>\<open>memset(a, 0, n)\<close>\<close>
  "memset0 a n mem = store a (replicate n 0) mem"

definition fit :: "nat \<Rightarrow> byte list \<Rightarrow> byte list" where
  \<comment> \<open>a kernel called for \<open>n\<close> bytes at \<open>out\<close> writes those bytes and no other: the model
      keeps that many bytes of what the parameter returns\<close>
  "fit n bs = take n (bs @ replicate n 0)"

definition fitAux :: "byte list option \<Rightarrow> byte list option \<Rightarrow> byte list option" where
  "fitAux aux aux' =
     (case aux of
        None \<Rightarrow> None
      | Some a \<Rightarrow> Some (fit (length a) (case aux' of None \<Rightarrow> a | Some b \<Rightarrow> b)))"

definition splice :: "nat \<Rightarrow> byte list \<Rightarrow> byte list \<Rightarrow> byte list" where
  \<comment> \<open>the array \<open>old\<close> with the bytes \<open>new\<close> written at offset \<open>off\<close>\<close>
  "splice off new old = take off old @ new @ drop (off + length new) old"

definition MIXTYPE_MONOVOL :: "mixtype \<Rightarrow> nat \<Rightarrow> mixtype" where
  "MIXTYPE_MONOVOL mt channels =
     (if channels \<le> 2 then mt
      else if mt = MIXTYPE_MULTI then MIXTYPE_MULTI_MONOVOL
      else if mt = MIXTYPE_MULTI_SAVEONLY then MIXTYPE_MULTI_SAVEONLY_MONOVOL
      else mt)"

definition volumeMix ::
  "ext \<Rightarrow> mixtype \<Rightarrow> bool \<Rightarrow> bool \<Rightarrow> ctype \<Rightarrow> ctype \<Rightarrow> TrackBase \<Rightarrow> byte list \<Rightarrow> nat
    \<Rightarrow> byte list \<Rightarrow> byte list option \<Rightarrow> bool \<Rightarrow> TrackBase \<times> byte list \<times> byte list option" where
  \<comment> \<open>\<open>volumeRampMulti\<close> and \<open>volumeMulti\<close> call the kernel of the channel count when the
      count is in \<open>[1, FCC_LIMIT]\<close> and do nothing otherwise\<close>
  "volumeMix x MIXTYPE USEFLOATVOL ADJUSTVOL TO TI t out outFrames inp aux ramp =
     (let channels = mMixerChannelCount t;
          mt = MIXTYPE_MONOVOL MIXTYPE channels;
          ok = (0 < channels \<and> channels \<le> FCC_LIMIT)
      in if USEFLOATVOL then
           (if ramp then
              (let (t1, out1, aux1) =
                 (if ok then
                    (case volumeRampMulti_float x mt TO TI channels out outFrames inp aux
                            (mPrevVolume t ! 0, mPrevVolume t ! 1)
                            (mVolumeInc t ! 0, mVolumeInc t ! 1)
                            (mPrevAuxLevel t) (mAuxInc t) of
                       (out', aux', (vl, vr), va) \<Rightarrow>
                         (t\<lparr>mPrevVolume := [vl, vr], mPrevAuxLevel := va\<rparr>,
                          fit (length out) out', fitAux aux aux'))
                  else (t, out, aux))
               in ((if ADJUSTVOL then adjustVolumeRamp (aux \<noteq> None) True t1 else t1),
                   out1, aux1))
            else
              (if ok then
                 (case volumeMulti_float x mt TO TI channels out outFrames inp aux
                         (mVolume t ! 0, mVolume t ! 1) (mAuxLevel t) of
                    (out', aux') \<Rightarrow> (t, fit (length out) out', fitAux aux aux'))
               else (t, out, aux)))
         else
           (if ramp then
              (let (t1, out1, aux1) =
                 (if ok then
                    (case volumeRampMulti_int x mt TO TI channels out outFrames inp aux
                            (prevVolume t ! 0, prevVolume t ! 1)
                            (volumeInc t ! 0, volumeInc t ! 1)
                            (prevAuxLevel t) (auxInc t) of
                       (out', aux', (vl, vr), va) \<Rightarrow>
                         (t\<lparr>prevVolume := [s32 vl, s32 vr], prevAuxLevel := s32 va\<rparr>,
                          fit (length out) out', fitAux aux aux'))
                  else (t, out, aux))
               in ((if ADJUSTVOL then adjustVolumeRamp (aux \<noteq> None) False t1 else t1),
                   out1, aux1))
            else
              (if ok then
                 (case volumeMulti_int x mt TO TI channels out outFrames inp aux
                         (volume t ! 0, volume t ! 1) (auxLevel t) of
                    (out', aux') \<Rightarrow> (t, fit (length out) out', fitAux aux aux'))
               else (t, out, aux))))"

definition track_NoResample ::
  "ext \<Rightarrow> mixtype \<Rightarrow> ctype \<Rightarrow> ctype \<Rightarrow> TrackBase \<Rightarrow> byte list \<Rightarrow> nat \<Rightarrow> byte list option
    \<Rightarrow> error + TrackBase \<times> byte list \<times> byte list option" where
  \<comment> \<open>the result holds the track, the bytes at \<open>out\<close> and the bytes at \<open>aux\<close>\<close>
  "track_NoResample x MIXTYPE TO TI t out frameCount' aux =
     (case mIn t of
        None \<Rightarrow> Inl NullDereference
      | Some inp \<Rightarrow>
          (case volumeMix x MIXTYPE (TI = T_float) True TO TI t out frameCount' inp aux
                  (needsRamp t) of
             (t1, out1, aux1) \<Rightarrow>
               Inr (t1\<lparr>mIn := Some (drop ((if MIXTYPE = MIXTYPE_MONOEXPAND then frameCount'
                                             else frameCount' * mMixerChannelCount t1)
                                            * sizeof TI) inp)\<rparr>,
                    out1, aux1)))"

definition track_Resample ::
  "ext \<Rightarrow> mixtype \<Rightarrow> ctype \<Rightarrow> ctype \<Rightarrow> TrackBase \<Rightarrow> byte list \<Rightarrow> nat \<Rightarrow> byte list option
    \<Rightarrow> byte list option
    \<Rightarrow> error + TrackBase \<times> byte list \<times> byte list option \<times> byte list option" where
  \<comment> \<open>the result holds the track, the bytes at \<open>out\<close>, the array \<open>temp\<close> and the bytes at
      \<open>aux\<close>\<close>
  "track_Resample x MIXTYPE TO TI t out outFrameCount temp aux =
     (case (mResampler t, bufferProvider t) of
        (Some r, Some p) \<Rightarrow>
          (let r1 = r\<lparr>rsInSampleRate := sampleRate t\<rparr>;
               ramp = needsRamp t
           in if MIXTYPE = MIXTYPE_MONOEXPAND \<or> MIXTYPE = MIXTYPE_STEREOEXPAND \<or> ramp
                 \<or> aux \<noteq> None then
                (case temp of
                   None \<Rightarrow> Inl NullDereference
                 | Some tb \<Rightarrow>
                     let n = outFrameCount * mMixerChannelCount t * sizeof TO in
                     if length tb < n then Inl OutOfBounds
                     else
                       (case resampler_resample x
                               (r1\<lparr>rsVolume := (UNITY_GAIN_FLOAT, UNITY_GAIN_FLOAT)\<rparr>)
                               (replicate n 0) outFrameCount p of
                          (r2, res, used) \<Rightarrow>
                            (case volumeMix x MIXTYPE (TI = T_float) True TO TI
                                    (t\<lparr>mResampler := Some r2,
                                       bufferProvider := Some (drop used p)\<rparr>)
                                    out outFrameCount (fit n res) aux ramp of
                               (t1, out1, aux1) \<Rightarrow>
                                 Inr (t1, out1, Some (splice 0 (fit n res) tb), aux1))))
              else
                (case resampler_resample x (r1\<lparr>rsVolume := (mVolume t ! 0, mVolume t ! 1)\<rparr>)
                        out outFrameCount p of
                   (r2, res, used) \<Rightarrow>
                     Inr (t\<lparr>mResampler := Some r2, bufferProvider := Some (drop used p)\<rparr>,
                          fit (length out) res, temp, aux)))
      | _ \<Rightarrow> Inl NullDereference)"

text \<open>
  The state of a loop that mixes one track into an accumulator: the track, the accumulator,
  the array \<open>mResampleTemp\<close>, the memory, and the pointer \<open>aux\<close> (0 when null).
\<close>

record mixstate =
  ms_track :: TrackBase
  ms_outTemp :: "byte list"
  ms_temp :: "byte list option"
  ms_memory :: "nat \<Rightarrow> byte"
  ms_aux :: nat

definition callHook :: "ext \<Rightarrow> nat \<Rightarrow> nat \<Rightarrow> nat \<Rightarrow> mixstate \<Rightarrow> error + mixstate" where
  \<comment> \<open>\<open>(t->*t->hook)(outTemp + off, numOutFrames, temp, aux)\<close>, with \<open>off\<close> in bytes; the
      accumulator has 4-byte elements\<close>
  "callHook x off numOutFrames aux s =
     (let t = ms_track s;
          len = numOutFrames * mMixerChannelCount t * 4;
          out = take len (drop off (ms_outTemp s));
          auxb = (if aux = 0 then None else Some (mem_read (ms_memory s) aux (4 * numOutFrames)));
          finish = (\<lambda>t' out' aux'. Inr (s\<lparr>ms_track := t',
                       ms_outTemp := splice off out' (ms_outTemp s),
                       ms_memory := (case aux' of None \<Rightarrow> ms_memory s
                                     | Some a \<Rightarrow> mem_write aux a (ms_memory s))\<rparr>))
      in case hook t of
           Hook_NULL \<Rightarrow> Inl NullDereference
         | Track_nop \<Rightarrow> Inr s
         | Track_NoResample MIXTYPE TO TI \<Rightarrow>
             if length (ms_outTemp s) < off + len then Inl OutOfBounds
             else (case track_NoResample x MIXTYPE TO TI t out numOutFrames auxb of
                     Inl e \<Rightarrow> Inl e
                   | Inr (t', out', aux') \<Rightarrow> finish t' out' aux')
         | Track_Resample MIXTYPE TO TI \<Rightarrow>
             if length (ms_outTemp s) < off + len then Inl OutOfBounds
             else (case track_Resample x MIXTYPE TO TI t out numOutFrames (ms_temp s) auxb of
                     Inl e \<Rightarrow> Inl e
                   | Inr (t', out', temp', aux') \<Rightarrow>
                       (case finish t' out' aux' of
                          Inl e \<Rightarrow> Inl e
                        | Inr s' \<Rightarrow> Inr (s'\<lparr>ms_temp := temp'\<rparr>))))"

fun foldE :: "('a \<Rightarrow> 's \<Rightarrow> error + 's) \<Rightarrow> 'a list \<Rightarrow> 's \<Rightarrow> error + 's" where
  \<comment> \<open>a \<open>for\<close> loop over a container, stopped by the first failure\<close>
  "foldE f [] s = Inr s"
| "foldE f (a # as) s = (case f a s of Inl e \<Rightarrow> Inl e | Inr s' \<Rightarrow> foldE f as s')"

definition withTrack ::
  "int \<Rightarrow> (TrackBase \<Rightarrow> error + TrackBase) \<Rightarrow> AudioMixerBase \<Rightarrow> error + AudioMixerBase" where
  \<comment> \<open>a statement on \<open>mTracks[name]\<close>, which is null when the name is not registered\<close>
  "withTrack name f m =
     (case map_of (mTracks m) name of
        None \<Rightarrow> Inl NullDereference
      | Some t \<Rightarrow> (case f t of Inl e \<Rightarrow> Inl e | Inr t' \<Rightarrow> Inr (putTrack name t' m)))"

definition plen :: "TrackBase \<Rightarrow> nat" where
  \<comment> \<open>the number of answers the track's provider has left\<close>
  "plen t = (case bufferProvider t of None \<Rightarrow> 0 | Some p \<Rightarrow> length p)"

subsection \<open>\<open>process__nop\<close>\<close>

definition drainStep :: "nat \<Rightarrow> TrackBase \<Rightarrow> error + TrackBase \<times> nat option" where
  \<comment> \<open>one turn of \<open>while (outFrames)\<close>: the track, and the new \<open>outFrames\<close> unless the loop
      is left by \<open>break\<close>\<close>
  "drainStep outFrames t =
     (case bufferProvider t of
        None \<Rightarrow> Inl NullDereference
      | Some p \<Rightarrow>
          (case getNextBuffer p ((buffer t)\<lparr>frameCount := outFrames\<rparr>) of
             (p1, b1) \<Rightarrow>
               if raw b1 = None then Inr (t\<lparr>bufferProvider := Some p1, buffer := b1\<rparr>, None)
               else (case releaseBuffer p1 b1 of
                       (p2, b2) \<Rightarrow>
                         Inr (t\<lparr>bufferProvider := Some p2, buffer := b2\<rparr>,
                              Some (outFrames - frameCount b1)))))"

function drainLoop :: "nat \<Rightarrow> TrackBase \<Rightarrow> error + TrackBase" where
  "drainLoop outFrames t =
     (if outFrames = 0 then Inr t
      else (case drainStep outFrames t of
              Inl e \<Rightarrow> Inl e
            | Inr (t1, None) \<Rightarrow> Inr t1
            | Inr (t1, Some outFrames1) \<Rightarrow> drainLoop outFrames1 t1))"
  by pat_completeness auto

termination drainLoop
  apply (relation "measure (\<lambda>(n, t). plen t)")
   apply simp
  apply (auto simp: drainStep_def plen_def releaseBuffer_def getNextBuffer_def
      split: option.splits prod.splits if_splits list.splits response.splits)
  done

declare drainLoop.simps [simp del]

definition nop_group :: "nat \<times> int list \<Rightarrow> AudioMixerBase \<Rightarrow> error + AudioMixerBase" where
  \<comment> \<open>the body of the loop over \<open>mGroups\<close>; \<open>group[0]\<close> of an empty vector is out of bounds\<close>
  "nop_group pair m =
     (case snd pair of
        [] \<Rightarrow> Inl OutOfBounds
      | name0 # _ \<Rightarrow>
          (case map_of (mTracks m) name0 of
             None \<Rightarrow> Inl NullDereference
           | Some t \<Rightarrow>
               (case memset0 (mainBuffer t)
                       (mFrameCount m
                          * audio_bytes_per_frame (getMixerChannelCount t) (mMixerFormat t))
                       (memory m) of
                  Inl e \<Rightarrow> Inl e
                | Inr mem \<Rightarrow>
                    foldE (\<lambda>name. withTrack name (drainLoop (mFrameCount m))) (snd pair)
                      (m\<lparr>memory := mem\<rparr>))))"

definition process_nop :: "AudioMixerBase \<Rightarrow> error + AudioMixerBase" where
  "process_nop m = foldE nop_group (mGroups m) m"

subsection \<open>\<open>process__genericNoResampling\<close>\<close>

definition acquire_track :: "nat \<Rightarrow> TrackBase \<Rightarrow> error + TrackBase" where
  \<comment> \<open>"acquire buffer"; \<open>t->frameCount\<close> is a \<open>uint16_t\<close>\<close>
  "acquire_track frameCount' t =
     (case bufferProvider t of
        None \<Rightarrow> Inl NullDereference
      | Some p \<Rightarrow>
          (case getNextBuffer p ((buffer t)\<lparr>frameCount := frameCount'\<rparr>) of
             (p1, b1) \<Rightarrow>
               Inr (t\<lparr>bufferProvider := Some p1, buffer := b1,
                      t_frameCount := frameCount b1 mod 65536, mIn := raw b1\<rparr>)))"

definition release_track :: "TrackBase \<Rightarrow> error + TrackBase" where
  \<comment> \<open>"release each track's buffer"\<close>
  "release_track t =
     (case bufferProvider t of
        None \<Rightarrow> Inl NullDereference
      | Some p \<Rightarrow>
          (case releaseBuffer p (buffer t) of
             (p1, b1) \<Rightarrow> Inr (t\<lparr>bufferProvider := Some p1, buffer := b1\<rparr>)))"

definition refill :: "nat \<Rightarrow> nat \<Rightarrow> nat \<Rightarrow> mixstate \<Rightarrow> error + mixstate \<times> nat option" where
  \<comment> \<open>the end of a turn of the loop below, from \<open>if (t->frameCount == 0 && outFrames)\<close>:
      the state, and \<open>outFrames\<close> unless the loop is left by \<open>break\<close>\<close>
  "refill remaining frameCount' outFrames s =
     (let t = ms_track s in
      if t_frameCount t = 0 \<and> outFrames \<noteq> 0 then
        (case bufferProvider t of
           None \<Rightarrow> Inl NullDereference
         | Some p \<Rightarrow>
             (case releaseBuffer p (buffer t) of
                (p1, b1) \<Rightarrow>
                  (case getNextBuffer p1
                          (b1\<lparr>frameCount := remaining - (frameCount' - outFrames)\<rparr>) of
                     (p2, b2) \<Rightarrow>
                       let t2 = t\<lparr>bufferProvider := Some p2, buffer := b2, mIn := raw b2\<rparr>
                       in if raw b2 = None then Inr (s\<lparr>ms_track := t2\<rparr>, None)
                          else Inr (s\<lparr>ms_track :=
                                        t2\<lparr>t_frameCount := frameCount b2 mod 65536\<rparr>\<rparr>,
                                    Some outFrames))))
      else Inr (s, Some outFrames))"

definition mixStep ::
  "ext \<Rightarrow> nat \<Rightarrow> nat \<Rightarrow> nat \<Rightarrow> mixstate \<Rightarrow> error + mixstate \<times> nat option" where
  \<comment> \<open>one turn of \<open>for (int outFrames = frameCount; outFrames > 0; )\<close>, with \<open>remaining\<close>
      for \<open>mFrameCount - numFrames\<close>: the state, and the new \<open>outFrames\<close> unless the loop is
      left by \<open>break\<close>\<close>
  "mixStep x remaining frameCount' outFrames s =
     (if mIn (ms_track s) = None then Inr (s, None)
      else
        let inFrames = (if t_frameCount (ms_track s) > outFrames then outFrames
                        else t_frameCount (ms_track s))
        in if inFrames > 0 then
             (case callHook x
                     ((frameCount' - outFrames) * mMixerChannelCount (ms_track s) * 4)
                     inFrames (ms_aux s) s of
                Inl e \<Rightarrow> Inl e
              | Inr s1 \<Rightarrow>
                  refill remaining frameCount' (outFrames - inFrames)
                    (s1\<lparr>ms_track := (ms_track s1)
                            \<lparr>t_frameCount := t_frameCount (ms_track s1) - inFrames\<rparr>,
                        ms_aux := (if ms_aux s1 \<noteq> 0 then ms_aux s1 + 4 * inFrames
                                   else ms_aux s1)\<rparr>))
           else refill remaining frameCount' outFrames s)"

function mixLoop :: "ext \<Rightarrow> nat \<Rightarrow> nat \<Rightarrow> nat \<Rightarrow> mixstate \<Rightarrow> error + mixstate" where
  "mixLoop x remaining frameCount' outFrames s =
     (if outFrames = 0 then Inr s
      else (case mixStep x remaining frameCount' outFrames s of
              Inl e \<Rightarrow> Inl e
            | Inr (s1, None) \<Rightarrow> Inr s1
            | Inr (s1, Some outFrames1) \<Rightarrow> mixLoop x remaining frameCount' outFrames1 s1))"
  by pat_completeness auto

termination mixLoop
  apply (relation "measures [\<lambda>(x, r, f, n, s). n, \<lambda>(x, r, f, n, s). plen (ms_track s)]")
   apply simp
  apply (auto simp: mixStep_def refill_def plen_def releaseBuffer_def getNextBuffer_def Let_def
      split: option.splits prod.splits if_splits list.splits response.splits sum.splits)
  done

declare mixLoop.simps [simp del]

definition mixTrack ::
  "ext \<Rightarrow> nat \<Rightarrow> nat \<Rightarrow> int \<Rightarrow> AudioMixerBase \<times> byte list
    \<Rightarrow> error + AudioMixerBase \<times> byte list" where
  \<comment> \<open>the body of the loop over the group inside a block; the state is the mixer and the
      array \<open>outTemp\<close>\<close>
  "mixTrack x numFrames frameCount' name ms =
     (case ms of
        (m, outTemp) \<Rightarrow>
          (case map_of (mTracks m) name of
             None \<Rightarrow> Inl NullDereference
           | Some t \<Rightarrow>
               (case mixLoop x (mFrameCount m - numFrames) frameCount' frameCount'
                       \<lparr>ms_track = t, ms_outTemp = outTemp, ms_temp = mResampleTemp m,
                        ms_memory = memory m,
                        ms_aux = (if needs t AND NEEDS_AUX \<noteq> 0 then auxBuffer t + 4 * numFrames
                                  else 0)\<rparr> of
                  Inl e \<Rightarrow> Inl e
                | Inr s \<Rightarrow>
                    Inr ((putTrack name (ms_track s) m)
                           \<lparr>mResampleTemp := ms_temp s, memory := ms_memory s\<rparr>,
                         ms_outTemp s))))"

definition convertMixerFormat ::
  "ext \<Rightarrow> nat \<Rightarrow> audio_format_t \<Rightarrow> byte list \<Rightarrow> audio_format_t \<Rightarrow> nat \<Rightarrow> (nat \<Rightarrow> byte)
    \<Rightarrow> error + (nat \<Rightarrow> byte)" where
  \<comment> \<open>\<open>inp\<close> holds the bytes of the array at \<open>in\<close>\<close>
  "convertMixerFormat x out mixerOutFormat inp mixerInFormat sampleCount mem =
     (if mixerInFormat = AUDIO_FORMAT_PCM_FLOAT then
        (if mixerOutFormat = AUDIO_FORMAT_PCM_FLOAT then
           (if length inp < sampleCount * 4 then Inl OutOfBounds
            else store out (take (sampleCount * 4) inp) mem)
         else if mixerOutFormat = AUDIO_FORMAT_PCM_16_BIT then
           (if length inp < sampleCount * 4 then Inl OutOfBounds
            else store out (fit (sampleCount * 2)
                              (memcpy_to_i16_from_float x (take (sampleCount * 4) inp)
                                 sampleCount)) mem)
         else Inl Fatal)
      else if mixerInFormat = AUDIO_FORMAT_PCM_16_BIT then
        (if mixerOutFormat = AUDIO_FORMAT_PCM_FLOAT then
           (if length inp < sampleCount * 4 then Inl OutOfBounds
            else store out (fit (sampleCount * 4)
                              (memcpy_to_float_from_q4_27 x (take (sampleCount * 4) inp)
                                 sampleCount)) mem)
         else if mixerOutFormat = AUDIO_FORMAT_PCM_16_BIT then
           (if length inp < sampleCount * 4 then Inl OutOfBounds
            else store out (fit (sampleCount * 2)
                              (memcpy_to_i16_from_q4_27 x (take (sampleCount * 4) inp)
                                 sampleCount)) mem)
         else Inl Fatal)
      else Inl Fatal)"

function blockLoop ::
  "ext \<Rightarrow> nat \<Rightarrow> int list \<Rightarrow> nat \<Rightarrow> nat \<Rightarrow> AudioMixerBase \<Rightarrow> error + AudioMixerBase" where
  \<comment> \<open>the \<open>do ... while (numFrames < mFrameCount)\<close> loop, from the values of \<open>out\<close> and
      \<open>numFrames\<close>; \<open>frameCount''\<close> is the constant \<open>mFrameCount\<close>\<close>
  "blockLoop x frameCount'' group' out numFrames m =
     (let frameCount' = min BLOCKSIZE (frameCount'' - numFrames) in
      case foldE (mixTrack x numFrames frameCount') group'
             (m, replicate (BLOCKSIZE * MAX_NUM_CHANNELS * 4) 0) of
        Inl e \<Rightarrow> Inl e
      | Inr (m1, outTemp) \<Rightarrow>
          (case group' of
             [] \<Rightarrow> Inl OutOfBounds
           | name0 # _ \<Rightarrow>
               (case map_of (mTracks m1) name0 of
                  None \<Rightarrow> Inl NullDereference
                | Some t1 \<Rightarrow>
                    (case convertMixerFormat x out (mMixerFormat t1) outTemp (mMixerInFormat t1)
                            (frameCount' * mMixerChannelCount t1) (memory m1) of
                       Inl e \<Rightarrow> Inl e
                     | Inr mem \<Rightarrow>
                         if numFrames + frameCount' < frameCount'' then
                           blockLoop x frameCount'' group'
                             (out + frameCount' * mMixerChannelCount t1
                                    * audio_bytes_per_sample (mMixerFormat t1))
                             (numFrames + frameCount') (m1\<lparr>memory := mem\<rparr>)
                         else Inr (m1\<lparr>memory := mem\<rparr>)))))"
  by pat_completeness auto

termination blockLoop
  apply (relation "measure (\<lambda>(x, fc, g, out, n, m). fc - n)")
   apply simp
  apply (simp add: BLOCKSIZE_def min_def split: if_splits)
  done

declare blockLoop.simps [simp del]

definition genericNoResampling_group ::
  "ext \<Rightarrow> nat \<times> int list \<Rightarrow> AudioMixerBase \<Rightarrow> error + AudioMixerBase" where
  \<comment> \<open>the body of the loop over \<open>mGroups\<close>\<close>
  "genericNoResampling_group x pair m =
     (case foldE (\<lambda>name. withTrack name (acquire_track (mFrameCount m))) (snd pair) m of
        Inl e \<Rightarrow> Inl e
      | Inr m1 \<Rightarrow>
          (case blockLoop x (mFrameCount m1) (snd pair) (fst pair) 0 m1 of
             Inl e \<Rightarrow> Inl e
           | Inr m2 \<Rightarrow> foldE (\<lambda>name. withTrack name release_track) (snd pair) m2))"

definition process_genericNoResampling :: "ext \<Rightarrow> AudioMixerBase \<Rightarrow> error + AudioMixerBase" where
  "process_genericNoResampling x m = foldE (genericNoResampling_group x) (mGroups m) m"

subsection \<open>\<open>process__genericResampling\<close>\<close>

definition pullStep ::
  "ext \<Rightarrow> nat \<Rightarrow> nat \<Rightarrow> nat \<Rightarrow> mixstate \<Rightarrow> error + mixstate \<times> nat option" where
  \<comment> \<open>one turn of \<open>while (outFrames < numFrames)\<close> for a track that does not resample\<close>
  "pullStep x numFrames aux outFrames s =
     (case bufferProvider (ms_track s) of
        None \<Rightarrow> Inl NullDereference
      | Some p \<Rightarrow>
          (case getNextBuffer p ((buffer (ms_track s))\<lparr>frameCount := numFrames - outFrames\<rparr>) of
             (p1, b1) \<Rightarrow>
               let t1 = (ms_track s)\<lparr>bufferProvider := Some p1, buffer := b1, mIn := raw b1\<rparr>
               in if raw b1 = None then Inr (s\<lparr>ms_track := t1\<rparr>, None)
                  else
                    (case callHook x (outFrames * mMixerChannelCount t1 * 4) (frameCount b1)
                            (if aux \<noteq> 0 then aux + 4 * outFrames else 0)
                            (s\<lparr>ms_track := t1\<rparr>) of
                       Inl e \<Rightarrow> Inl e
                     | Inr s1 \<Rightarrow>
                         (case release_track (ms_track s1) of
                            Inl e \<Rightarrow> Inl e
                          | Inr t2 \<Rightarrow>
                              Inr (s1\<lparr>ms_track := t2\<rparr>,
                                   Some (outFrames + frameCount (buffer (ms_track s1))))))))"

function pullLoop :: "ext \<Rightarrow> nat \<Rightarrow> nat \<Rightarrow> nat \<Rightarrow> mixstate \<Rightarrow> error + mixstate" where
  "pullLoop x numFrames aux outFrames s =
     (if \<not> outFrames < numFrames then Inr s
      else (case pullStep x numFrames aux outFrames s of
              Inl e \<Rightarrow> Inl e
            | Inr (s1, None) \<Rightarrow> Inr s1
            | Inr (s1, Some outFrames1) \<Rightarrow> pullLoop x numFrames aux outFrames1 s1))"
  by pat_completeness auto

termination pullLoop
proof (relation "measure (\<lambda>(x, n, a, k, s). plen (ms_track s))", goal_cases)
  case 1
  show ?case by simp
next
  case (2 x numFrames aux outFrames s r s1 cont outFrames1)
  have adj: "bufferProvider (adjustVolumeRamp a f t) = bufferProvider t" for a f t
    by (simp add: adjustVolumeRamp_def adjustVolumeRamp_channel_def rampCommit_def
        auxCommit_def Let_def)
  have vm: "bufferProvider t1 = bufferProvider t"
    if "volumeMix x mt uf av to ti t out n inp ab rmp = (t1, out1, ab1)"
    for mt uf av to ti t out n inp ab rmp t1 out1 ab1
    using that by (auto simp: volumeMix_def Let_def adj split: prod.splits if_splits)
  have nr: "plen t' \<le> plen t"
    if "track_NoResample x mt to ti t out n ab = Inr (t', out', ab')"
    for mt to ti t out n ab t' out' ab'
    using that by (auto simp: track_NoResample_def plen_def split: option.splits prod.splits
        dest!: vm)
  have rs: "plen t' \<le> plen t"
    if "track_Resample x mt to ti t out n tmp ab = Inr (t', out', tmp', ab')"
    for mt to ti t out n tmp ab t' out' tmp' ab'
    using that by (auto simp: track_Resample_def plen_def Let_def
        split: option.splits prod.splits if_splits dest!: vm)
  have ch: "plen (ms_track s') \<le> plen (ms_track s0)"
    if "callHook x off n a s0 = Inr s'" for off n a s0 s'
    using that nr rs
    by (auto simp: callHook_def Let_def split: hook_t.splits if_splits sum.splits prod.splits)
  from 2 show ?case
    by (auto simp: pullStep_def release_track_def releaseBuffer_def plen_def Let_def
        getNextBuffer_def
        split: option.splits prod.splits if_splits sum.splits list.splits response.splits
        dest!: ch)
qed

declare pullLoop.simps [simp del]

definition resampleTrack ::
  "ext \<Rightarrow> nat \<Rightarrow> int \<Rightarrow> AudioMixerBase \<times> byte list \<Rightarrow> error + AudioMixerBase \<times> byte list" where
  \<comment> \<open>the body of the loop over the group; the state is the mixer and the array at
      \<open>mOutputTemp\<close>\<close>
  "resampleTrack x numFrames name ms =
     (case ms of
        (m, outTemp) \<Rightarrow>
          (case map_of (mTracks m) name of
             None \<Rightarrow> Inl NullDereference
           | Some t \<Rightarrow>
               let aux = (if needs t AND NEEDS_AUX \<noteq> 0 then auxBuffer t else 0);
                   s = \<lparr>ms_track = t, ms_outTemp = outTemp, ms_temp = mResampleTemp m,
                        ms_memory = memory m, ms_aux = aux\<rparr>
               in case (if needs t AND NEEDS_RESAMPLE \<noteq> 0 then callHook x 0 numFrames aux s
                        else pullLoop x numFrames aux 0 s) of
                    Inl e \<Rightarrow> Inl e
                  | Inr s1 \<Rightarrow>
                      Inr ((putTrack name (ms_track s1) m)
                             \<lparr>mResampleTemp := ms_temp s1, memory := ms_memory s1\<rparr>,
                           ms_outTemp s1)))"

definition genericResampling_group ::
  "ext \<Rightarrow> nat \<times> int list \<Rightarrow> AudioMixerBase \<Rightarrow> error + AudioMixerBase" where
  \<comment> \<open>the body of the loop over \<open>mGroups\<close>\<close>
  "genericResampling_group x pair m =
     (case (mOutputTemp m, snd pair) of
        (None, _) \<Rightarrow> Inl NullDereference
      | (Some outTemp, []) \<Rightarrow> Inl OutOfBounds
      | (Some outTemp, name0 # _) \<Rightarrow>
          (case map_of (mTracks m) name0 of
             None \<Rightarrow> Inl NullDereference
           | Some t1 \<Rightarrow>
               let n = 4 * mMixerChannelCount t1 * mFrameCount m in
               if length outTemp < n then Inl OutOfBounds
               else
                 (case foldE (resampleTrack x (mFrameCount m)) (snd pair)
                         (m, splice 0 (replicate n 0) outTemp) of
                    Inl e \<Rightarrow> Inl e
                  | Inr (m1, outTemp1) \<Rightarrow>
                      (case map_of (mTracks m1) name0 of
                         None \<Rightarrow> Inl NullDereference
                       | Some t1' \<Rightarrow>
                           (case convertMixerFormat x (mainBuffer t1') (mMixerFormat t1')
                                   outTemp1 (mMixerInFormat t1')
                                   (mFrameCount m * mMixerChannelCount t1') (memory m1) of
                              Inl e \<Rightarrow> Inl e
                            | Inr mem \<Rightarrow>
                                Inr (m1\<lparr>mOutputTemp := Some outTemp1, memory := mem\<rparr>))))))"

definition process_genericResampling :: "ext \<Rightarrow> AudioMixerBase \<Rightarrow> error + AudioMixerBase" where
  "process_genericResampling x m = foldE (genericResampling_group x) (mGroups m) m"

subsection \<open>\<open>process__noResampleOneTrack\<close>\<close>

text \<open>The state of the loop: the track, the memory, and the pointers \<open>out\<close> and \<open>aux\<close>.\<close>

record onestate =
  os_track :: TrackBase
  os_memory :: "nat \<Rightarrow> byte"
  os_out :: nat
  os_aux :: nat

definition oneTrackStep ::
  "ext \<Rightarrow> mixtype \<Rightarrow> ctype \<Rightarrow> ctype \<Rightarrow> bool \<Rightarrow> nat \<Rightarrow> nat \<Rightarrow> onestate
    \<Rightarrow> error + onestate \<times> nat option" where
  \<comment> \<open>one turn of \<open>for (size_t numFrames = mFrameCount; numFrames > 0; )\<close>: the state, and
      the new \<open>numFrames\<close> unless the function returns from the loop\<close>
  "oneTrackStep x MIXTYPE TO TI ramp channels numFrames s =
     (case bufferProvider (os_track s) of
        None \<Rightarrow> Inl NullDereference
      | Some p \<Rightarrow>
          (case getNextBuffer p ((buffer (os_track s))\<lparr>frameCount := numFrames\<rparr>) of
             (p1, b1) \<Rightarrow>
               let t1 = (os_track s)\<lparr>bufferProvider := Some p1, buffer := b1\<rparr> in
               if raw b1 = None \<or> \<not> aligned b1 then
                 (case memset0 (os_out s)
                         (numFrames * channels * audio_bytes_per_sample (mMixerFormat t1))
                         (os_memory s) of
                    Inl e \<Rightarrow> Inl e
                  | Inr mem \<Rightarrow> Inr (s\<lparr>os_track := t1, os_memory := mem\<rparr>, None))
               else
                 let outFrames = frameCount b1;
                     len = outFrames * channels * sizeof TO;
                     auxb = (if os_aux s = 0 then None
                             else Some (mem_read (os_memory s) (os_aux s) (4 * outFrames)))
                 in (case volumeMix x MIXTYPE (TI = T_float) False TO TI t1
                              (mem_read (os_memory s) (os_out s) len) outFrames (the (raw b1))
                              auxb ramp of
                       (t2, out', aux') \<Rightarrow>
                         (case (store (os_out s) out' (os_memory s), release_track t2) of
                            (Inr mem, Inr t3) \<Rightarrow>
                              Inr (s\<lparr>os_track := t3,
                                     os_memory := (case aux' of None \<Rightarrow> mem
                                                   | Some a \<Rightarrow> mem_write (os_aux s) a mem),
                                     os_out := os_out s + len,
                                     os_aux := (if os_aux s \<noteq> 0 then os_aux s + 4 * outFrames
                                                else os_aux s)\<rparr>,
                                   Some (numFrames - frameCount (buffer t2)))
                          | (Inl e, _) \<Rightarrow> Inl e
                          | (_, Inl e) \<Rightarrow> Inl e))))"

function oneTrackLoop ::
  "ext \<Rightarrow> mixtype \<Rightarrow> ctype \<Rightarrow> ctype \<Rightarrow> bool \<Rightarrow> nat \<Rightarrow> nat \<Rightarrow> onestate
    \<Rightarrow> error + onestate \<times> bool" where
  \<comment> \<open>the flag of the result tells whether the loop has run to its end\<close>
  "oneTrackLoop x MIXTYPE TO TI ramp channels numFrames s =
     (if numFrames = 0 then Inr (s, True)
      else (case oneTrackStep x MIXTYPE TO TI ramp channels numFrames s of
              Inl e \<Rightarrow> Inl e
            | Inr (s1, None) \<Rightarrow> Inr (s1, False)
            | Inr (s1, Some numFrames1) \<Rightarrow>
                oneTrackLoop x MIXTYPE TO TI ramp channels numFrames1 s1))"
  by pat_completeness auto

termination oneTrackLoop
proof (relation "measure (\<lambda>(x, mt, to, ti, r, c, n, s). plen (os_track s))", goal_cases)
  case 1
  show ?case by simp
next
  case (2 x MIXTYPE TO TI ramp channels numFrames s r s1 cont numFrames1)
  have adj: "bufferProvider (adjustVolumeRamp a f t) = bufferProvider t" for a f t
    by (simp add: adjustVolumeRamp_def adjustVolumeRamp_channel_def rampCommit_def
        auxCommit_def Let_def)
  have vm: "bufferProvider t1 = bufferProvider t"
    if "volumeMix x mt uf av to ti t out n inp ab rmp = (t1, out1, ab1)"
    for mt uf av to ti t out n inp ab rmp t1 out1 ab1
    using that by (auto simp: volumeMix_def Let_def adj split: prod.splits if_splits)
  from 2 show ?case
    by (auto simp: oneTrackStep_def release_track_def releaseBuffer_def plen_def Let_def
        getNextBuffer_def
        split: option.splits prod.splits if_splits sum.splits list.splits response.splits
        dest!: vm)
qed

declare oneTrackLoop.simps [simp del]

definition process_noResampleOneTrack ::
  "ext \<Rightarrow> mixtype \<Rightarrow> ctype \<Rightarrow> ctype \<Rightarrow> AudioMixerBase \<Rightarrow> error + AudioMixerBase" where
  "process_noResampleOneTrack x MIXTYPE TO TI m =
     (if length (mEnabled m) \<noteq> 1 then Inl Fatal
      else
        (case map_of (mTracks m) (mEnabled m ! 0) of
           None \<Rightarrow> Inl NullDereference
         | Some t \<Rightarrow>
             (case oneTrackLoop x MIXTYPE TO TI (needsRamp t) (mMixerChannelCount t)
                     (mFrameCount m)
                     \<lparr>os_track = t, os_memory = memory m, os_out = mainBuffer t,
                      os_aux = auxBuffer t\<rparr> of
                Inl e \<Rightarrow> Inl e
              | Inr (s, finished) \<Rightarrow>
                  Inr ((putTrack (mEnabled m ! 0)
                          (if finished \<and> needsRamp t
                           then adjustVolumeRamp (os_aux s \<noteq> 0) (TI = T_float) (os_track s)
                           else os_track s) m)
                         \<lparr>memory := os_memory s\<rparr>))))"

subsection \<open>\<open>process\<close>\<close>

definition processHook :: "ext \<Rightarrow> AudioMixerBase \<Rightarrow> error + AudioMixerBase" where
  \<comment> \<open>\<open>(this->*mHook)()\<close> for the hooks that mix. \<open>selectProcessHook\<close> never leaves
      \<open>process__validate\<close> in \<open>mHook\<close>, so that its case is not reached from
      \<open>process__validate\<close>\<close>
  "processHook x m =
     (case mHook m of
        Process_validate \<Rightarrow> Inl Fatal
      | Process_nop \<Rightarrow> process_nop m
      | Process_genericNoResampling \<Rightarrow> process_genericNoResampling x m
      | Process_genericResampling \<Rightarrow> process_genericResampling x m
      | Process_noResampleOneTrack MIXTYPE TO TI \<Rightarrow> process_noResampleOneTrack x MIXTYPE TO TI m)"

definition process_validate :: "ext \<Rightarrow> AudioMixerBase \<Rightarrow> error + AudioMixerBase" where
  "process_validate x m =
     (case validateSelect m of
        Inl e \<Rightarrow> Inl e
      | Inr (m1, st) \<Rightarrow>
          (case processHook x m1 of
             Inl e \<Rightarrow> Inl e
           | Inr m2 \<Rightarrow> validateFinish st m2))"

definition process :: "ext \<Rightarrow> AudioMixerBase \<Rightarrow> error + AudioMixerBase" where
  \<comment> \<open>\<open>preProcess\<close> and \<open>postProcess\<close> do nothing in this class\<close>
  "process x m =
     (if mHook m = Process_validate then process_validate x m else processHook x m)"

section \<open>Invariants\<close>

definition resamplerInv :: "AudioMixerBase \<Rightarrow> bool" where
  "resamplerInv m =
     (\<forall>e \<in> set (mTracks m). sampleRate (snd e) \<noteq> mSampleRate m \<longrightarrow> mResampler (snd e) \<noteq> None)"

definition trackInv :: "nat \<Rightarrow> TrackBase \<Rightarrow> bool" where
  "trackInv dev t = (sampleRate t \<noteq> dev \<longrightarrow> mResampler t \<noteq> None)"

text \<open>Concrete configurations, on which the properties below are run.\<close>

definition silentExt :: ext where
  \<comment> \<open>an environment whose kernels and resampler leave the buffers as they are\<close>
  "silentExt =
     \<lparr>isMusicRate = (\<lambda>r. 30000 \<le> r),
      resampler_reset = (\<lambda>r. r\<lparr>rsInternal := 0\<rparr>),
      resampler_getUnreleasedFrames = rsInternal,
      resampler_resample = (\<lambda>r dst n p. (r, dst, 0)),
      volumeMulti_float = (\<lambda>mt to ti ch out n inp aux vol vola. (out, aux)),
      volumeMulti_int = (\<lambda>mt to ti ch out n inp aux vol vola. (out, aux)),
      volumeRampMulti_float =
        (\<lambda>mt to ti ch out n inp aux vol volinc vola volainc. (out, aux, vol, vola)),
      volumeRampMulti_int =
        (\<lambda>mt to ti ch out n inp aux vol volinc vola volainc. (out, aux, vol, vola)),
      memcpy_to_i16_from_float = (\<lambda>src n. replicate (2 * n) 0),
      memcpy_to_float_from_q4_27 = (\<lambda>src n. replicate (4 * n) 0),
      memcpy_to_i16_from_q4_27 = (\<lambda>src n. replicate (2 * n) 0)\<rparr>"

definition stereoTrack :: TrackBase where
  "stereoTrack = newTrack (newMixer 64 48000) AUDIO_CHANNEL_OUT_STEREO AUDIO_FORMAT_PCM_16_BIT 0"

definition oneTrackMixer :: AudioMixerBase where
  \<comment> \<open>a mixer of 64 frames at 48 kHz after \<open>create(7, AUDIO_CHANNEL_OUT_STEREO,
      AUDIO_FORMAT_PCM_16_BIT, 0)\<close>\<close>
  "oneTrackMixer = (newMixer 64 48000)\<lparr>mTracks := [(7, stereoTrack)]\<rparr>"

definition zeroVars :: volvars where
  "zeroVars =
     \<lparr>pIntSetVolume = 0, pIntPrevVolume = 0, pIntVolumeInc = 0,
      pSetVolume = fzero, pPrevVolume = fzero, pVolumeInc = fzero\<rparr>"


definition rampTrack64 :: TrackBase where
  \<comment> \<open>\<open>stereoTrack\<close> after \<open>setParameter(RAMP_VOLUME, VOLUME0, 0.5)\<close> in a mixer of 64 frames\<close>
  "rampTrack64 =
     stereoTrack\<lparr>volume := [2048, 0], volumeInc := [2097152, 0],
       mVolume := [FFin False (1 / 2), fzero],
       mVolumeInc := [FFin False (1 / 128), fzero]\<rparr>"

definition reachedTrack :: TrackBase where
  \<comment> \<open>a track whose float ramp to \<open>0.3f\<close> has just reached its target: the committed
      volumes are those \<open>setVolumeRampVariables\<close> stores for \<open>0.3f\<close>\<close>
  "reachedTrack =
     stereoTrack\<lparr>volume := [1228, 0], volumeInc := [1257472, 0],
       mVolume := [FFin False (5033165 / 16777216), fzero],
       mPrevVolume := [FFin False (5033165 / 16777216), fzero],
       mVolumeInc := [FFin False (5033165 / 1073741824), fzero]\<rparr>"

definition steadyTrack :: TrackBase where
  \<comment> \<open>\<open>stereoTrack\<close> after \<open>setParameter(VOLUME, VOLUME0, 0.3f)\<close>: no ramp is running\<close>
  "steadyTrack =
     stereoTrack\<lparr>volume := [1228, 0], prevVolume := [80478208, 0],
       mVolume := [FFin False (5033165 / 16777216), fzero],
       mPrevVolume := [FFin False (5033165 / 16777216), fzero]\<rparr>"

definition resampledTrack :: TrackBase where
  "resampledTrack =
     stereoTrack\<lparr>sampleRate := 44100,
       mResampler := Some \<lparr>rsFormat = AUDIO_FORMAT_PCM_FLOAT, rsChannelCount = 2,
         rsDevSampleRate = 48000, rsQuality = DEFAULT_QUALITY, rsInSampleRate = 48000,
         rsVolume = (UNITY_GAIN_FLOAT, UNITY_GAIN_FLOAT), rsInternal = 0\<rparr>\<rparr>"

definition lingerMixer :: AudioMixerBase where
  "lingerMixer =
     projr (setParameter silentExt 7 RESAMPLE SAMPLE_RATE \<lparr>valuePtr = 48000, valueFloat = fzero\<rparr>
       (projr (setParameter silentExt 7 RESAMPLE SAMPLE_RATE
                 \<lparr>valuePtr = 44100, valueFloat = fzero\<rparr> oneTrackMixer)))"

definition playingTrack :: TrackBase where
  \<comment> \<open>\<open>stereoTrack\<close> after \<open>enable\<close>, \<open>setParameter(TRACK, MAIN_BUFFER, 4096)\<close> and
      \<open>setParameter(VOLUME, VOLUME0 + c, 1.0)\<close> for both channels\<close>
  "playingTrack =
     stereoTrack\<lparr>enabled := True, mainBuffer := 4096,
       volume := [4096, 4096], prevVolume := [268435456, 268435456],
       mVolume := [UNITY_GAIN_FLOAT, UNITY_GAIN_FLOAT],
       mPrevVolume := [UNITY_GAIN_FLOAT, UNITY_GAIN_FLOAT]\<rparr>"

definition playingMixer :: AudioMixerBase where
  "playingMixer = invalidate (putTrack 7 playingTrack oneTrackMixer)"

definition selectedMixer :: AudioMixerBase where
  \<comment> \<open>\<open>playingMixer\<close> with the hooks \<open>process__validate\<close> selects\<close>
  "selectedMixer = fst (projr (validateSelect playingMixer))"

definition floatFormat :: param_value where
  "floatFormat = \<lparr>valuePtr = 5, valueFloat = fzero\<rparr>"

definition sameSetup :: "TrackBase \<Rightarrow> TrackBase \<Rightarrow> bool" where
  \<comment> \<open>the second track differs from the first at most in the state of its volume ramps and
      in the cursor \<open>mIn\<close>\<close>
  "sameSetup t t' =
     (t'\<lparr>prevVolume := prevVolume t, volumeInc := volumeInc t, mPrevVolume := mPrevVolume t,
         mVolumeInc := mVolumeInc t, prevAuxLevel := prevAuxLevel t, auxInc := auxInc t,
         mPrevAuxLevel := mPrevAuxLevel t, mAuxInc := mAuxInc t, mIn := mIn t\<rparr> = t)"

definition noResampleHook :: "hook_t \<Rightarrow> bool" where
  \<comment> \<open>the hooks of a track that does not resample\<close>
  "noResampleHook h =
     (case h of Track_nop \<Rightarrow> True | Track_NoResample MIXTYPE TO TI \<Rightarrow> True | _ \<Rightarrow> False)"

definition noData :: "provider \<Rightarrow> bool" where
  \<comment> \<open>the next \<open>getNextBuffer\<close> returns a null buffer\<close>
  "noData p = (case p of [] \<Rightarrow> True | NoBuffer # _ \<Rightarrow> True | _ \<Rightarrow> False)"

definition sameConfig :: "TrackBase \<Rightarrow> TrackBase \<Rightarrow> bool" where
  \<comment> \<open>the second track differs from the first at most in the state of its volume ramps and
      in what it holds of its input: \<open>mIn\<close>, \<open>buffer\<close>, \<open>frameCount\<close> and the answers the
      provider has left\<close>
  "sameConfig t t' =
     (t'\<lparr>prevVolume := prevVolume t, volumeInc := volumeInc t, mPrevVolume := mPrevVolume t,
         mVolumeInc := mVolumeInc t, prevAuxLevel := prevAuxLevel t, auxInc := auxInc t,
         mPrevAuxLevel := mPrevAuxLevel t, mAuxInc := mAuxInc t, mIn := mIn t,
         bufferProvider := bufferProvider t, buffer := buffer t,
         t_frameCount := t_frameCount t\<rparr> = t
      \<and> (bufferProvider t' = None) = (bufferProvider t = None))"

definition wfTrack :: "TrackBase \<Rightarrow> bool" where
  \<comment> \<open>a track as \<open>process__genericNoResampling\<close> meets it: it has a hook that does not
      resample, a provider, a mixer channel count within \<open>MAX_NUM_CHANNELS\<close>, and the formats
      \<open>convertMixerFormat\<close> accepts\<close>
  "wfTrack t =
     (noResampleHook (hook t) \<and> bufferProvider t \<noteq> None
      \<and> mMixerChannelCount t \<le> MAX_NUM_CHANNELS
      \<and> mMixerInFormat t = AUDIO_FORMAT_PCM_FLOAT
      \<and> (mMixerFormat t = AUDIO_FORMAT_PCM_FLOAT \<or> mMixerFormat t = AUDIO_FORMAT_PCM_16_BIT))"

definition groupOk :: "AudioMixerBase \<Rightarrow> int list \<Rightarrow> bool" where
  "groupOk m g = (\<forall>name \<in> set g. \<exists>t. map_of (mTracks m) name = Some t \<and> wfTrack t)"

definition wfMixer :: "AudioMixerBase \<Rightarrow> bool" where
  \<comment> \<open>every group has a main buffer that is not null and a name, and its names are those of
      registered tracks\<close>
  "wfMixer m =
     (\<forall>pair \<in> set (mGroups m). fst pair \<noteq> 0 \<and> snd pair \<noteq> [] \<and> groupOk m (snd pair))"

definition sameTracks :: "AudioMixerBase \<Rightarrow> AudioMixerBase \<Rightarrow> bool" where
  \<comment> \<open>the second mixer differs from the first at most in the memory, in \<open>mResampleTemp\<close>
      and, within \<open>sameConfig\<close>, in its tracks\<close>
  "sameTracks m m' =
     (m'\<lparr>mTracks := mTracks m, memory := memory m, mResampleTemp := mResampleTemp m\<rparr> = m
      \<and> (\<forall>name. rel_option sameConfig (map_of (mTracks m) name) (map_of (mTracks m') name)))"

definition idle :: "TrackBase \<Rightarrow> bool" where
  \<comment> \<open>a track that adds nothing to the accumulator: its hook is \<open>track__nop\<close>, or \<open>mIn\<close> is
      null\<close>
  "idle t = (hook t = Track_nop \<or> mIn t = None)"

definition silent :: "TrackBase \<Rightarrow> bool" where
  \<comment> \<open>a track that will be idle once its buffer is acquired: its hook is \<open>track__nop\<close>, or
      its provider has no buffer to give\<close>
  "silent t =
     (hook t = Track_nop \<or> (case bufferProvider t of None \<Rightarrow> False | Some p \<Rightarrow> noData p))"

definition groupIdle :: "AudioMixerBase \<Rightarrow> int list \<Rightarrow> bool" where
  "groupIdle m g = (\<forall>name \<in> set g. \<exists>t. map_of (mTracks m) name = Some t \<and> idle t)"

definition keepsIdle :: "AudioMixerBase \<Rightarrow> AudioMixerBase \<Rightarrow> bool" where
  "keepsIdle m m' =
     (sameTracks m m'
      \<and> (\<forall>name t t'. map_of (mTracks m) name = Some t \<longrightarrow> map_of (mTracks m') name = Some t'
            \<longrightarrow> (idle t \<longrightarrow> idle t') \<and> (mIn t = None \<longrightarrow> t' = t)))"

definition zeroed :: "nat \<Rightarrow> nat \<Rightarrow> (nat \<Rightarrow> byte) \<Rightarrow> (nat \<Rightarrow> byte)" where
  \<comment> \<open>the memory with zero bytes in \<open>[a, a + n)\<close>\<close>
  "zeroed a n mem = (\<lambda>i. if a \<le> i \<and> i < a + n then 0 else mem i)"

definition zeroConversion :: "ext \<Rightarrow> audio_format_t \<Rightarrow> bool" where
  \<comment> \<open>the conversion of float zeros to the mixer format gives zero bytes: \<open>memcpy\<close> does, and
      for 16 bits this is a condition on \<open>memcpy_to_i16_from_float\<close>\<close>
  "zeroConversion x format =
     (format = AUDIO_FORMAT_PCM_FLOAT
      \<or> (\<forall>n. memcpy_to_i16_from_float x (replicate (n * 4) 0) n = replicate (n * 2) 0))"

definition starved :: "provider \<Rightarrow> TrackBase \<Rightarrow> TrackBase" where
  \<comment> \<open>the track after a \<open>getNextBuffer\<close> that returned a null buffer, \<open>p\<close> being the
      provider before the call\<close>
  "starved p t =
     t\<lparr>bufferProvider := Some (tl p), buffer := \<lparr>raw = None, frameCount = 0, aligned = True\<rparr>,
       t_frameCount := 0, mIn := None\<rparr>"

definition oneTrackReady :: "AudioMixerBase \<Rightarrow> bool" where
  \<comment> \<open>\<open>mHook\<close> is \<open>process__noResampleOneTrack\<close>, and the one enabled track has a provider
      and a main buffer\<close>
  "oneTrackReady m =
     ((case mHook m of Process_noResampleOneTrack MIXTYPE TO TI \<Rightarrow> True | _ \<Rightarrow> False)
      \<and> length (mEnabled m) = 1
      \<and> (case map_of (mTracks m) (mEnabled m ! 0) of
            None \<Rightarrow> False
          | Some t \<Rightarrow> bufferProvider t \<noteq> None \<and> mainBuffer t \<noteq> 0))"

definition genericReady :: "AudioMixerBase \<Rightarrow> bool" where
  "genericReady m = (mHook m = Process_genericNoResampling \<and> wfMixer m)"

definition ready :: "AudioMixerBase \<Rightarrow> bool" where
  "ready m = (oneTrackReady m \<or> genericReady m)"

definition feedMixer :: "provider \<Rightarrow> AudioMixerBase" where
  \<comment> \<open>\<open>playingMixer\<close> whose track has the provider \<open>p\<close>\<close>
  "feedMixer p =
     invalidate (putTrack 7 (playingTrack\<lparr>bufferProvider := Some p\<rparr>) oneTrackMixer)"

definition feedSelected :: "provider \<Rightarrow> AudioMixerBase" where
  \<comment> \<open>\<open>feedMixer p\<close> with the hooks \<open>process__validate\<close> selects\<close>
  "feedSelected p = fst (projr (validateSelect (feedMixer p)))"

definition pairMixer :: "provider \<Rightarrow> provider \<Rightarrow> AudioMixerBase" where
  \<comment> \<open>two tracks set up as \<open>playingTrack\<close> is, of names 7 and 8 and providers \<open>p\<close> and
      \<open>q\<close>, that play into the same main buffer\<close>
  "pairMixer p q =
     invalidate (putTrack 8 (playingTrack\<lparr>bufferProvider := Some q\<rparr>)
       (putTrack 7 (playingTrack\<lparr>bufferProvider := Some p\<rparr>) oneTrackMixer))"

definition pairSelected :: "provider \<Rightarrow> provider \<Rightarrow> AudioMixerBase" where
  "pairSelected p q = fst (projr (validateSelect (pairMixer p q)))"

definition pairAcquired :: AudioMixerBase where
  \<comment> \<open>a cycle of \<open>process__genericNoResampling\<close> after "acquire buffer": the provider of
      track 7 had 10 frames for the 64 of the cycle, that of track 8 had them all\<close>
  "pairAcquired =
     projr (foldE (\<lambda>name. withTrack name (acquire_track 64)) [7, 8]
              (pairSelected [Frames 10 (replicate 80 1)] [Frames 64 (replicate 512 1)]))"

definition pairStarved :: AudioMixerBase where
  \<comment> \<open>the same cycle after the turn of track 7 in the first block\<close>
  "pairStarved =
     fst (projr (mixTrack silentExt 0 16 7
                   (pairAcquired, replicate (BLOCKSIZE * MAX_NUM_CHANNELS * 4) 0)))"

definition selectedTrack :: "provider \<Rightarrow> TrackBase" where
  \<comment> \<open>\<open>playingTrack\<close> with the provider \<open>p\<close> and the hook \<open>process__validate\<close> selects\<close>
  "selectedTrack p =
     playingTrack\<lparr>bufferProvider := Some p, needs := 1,
       hook := Track_NoResample MIXTYPE_MULTI_STEREOVOL T_float T_float\<rparr>"

definition acquiredTrack :: TrackBase where
  \<comment> \<open>track 7 of \<open>pairAcquired\<close>: it holds a buffer of 10 frames, and its provider has
      nothing more\<close>
  "acquiredTrack =
     (selectedTrack [])\<lparr>buffer := \<lparr>raw = Some (replicate 80 1), frameCount = 10, aligned = True\<rparr>,
       t_frameCount := 10, mIn := Some (replicate 80 1)\<rparr>"

section \<open>Properties\<close>

subsection \<open>The track registry\<close>

lemma map_of_map_insert: "map_of (map_insert k v xs) = (map_of xs)(k \<mapsto> v)"
  by (induction xs) (auto simp: fun_eq_iff)

lemma map_of_map_erase: "map_of (map_erase k xs) = (map_of xs)(k := None)"
  by (induction xs) (auto simp: map_erase_def fun_eq_iff)

lemma stereo_count: "audio_channel_count_from_out_mask AUDIO_CHANNEL_OUT_STEREO = 2"
  by (simp add: audio_channel_count_from_out_mask_def audio_channel_mask_get_bits_def
      audio_channel_mask_get_representation_def popcount.simps)

lemma create_oneTrackMixer:
  "create 7 AUDIO_CHANNEL_OUT_STEREO AUDIO_FORMAT_PCM_16_BIT 0 (newMixer 64 48000)
     = Inr (OK, oneTrackMixer)"
  by (simp add: create_def exists_def newMixer_def oneTrackMixer_def stereoTrack_def
      isValidChannelMask_def isValidFormat_def stereo_count MAX_NUM_CHANNELS_def FCC_LIMIT_def)

subsection \<open>Volume sanitization\<close>

lemma limitVolume_range: "volume_in_range (limitVolume x)"
  by (cases x)
    (auto simp: limitVolume_def volume_in_range_def fzero_def UNITY_GAIN_FLOAT_def fle_def
      fval_def pow2_def split: if_splits)

lemma setVolumeRampVariables_unchanged:
  "fst (setVolumeRampVariables x R p) = False \<Longrightarrow> snd (setVolumeRampVariables x R p) = p"
  by (auto simp: setVolumeRampVariables_def Let_def split: if_splits)

lemma setVolumeRampVariables_set:
  "\<not> feq x (pSetVolume p) \<Longrightarrow> pSetVolume (snd (setVolumeRampVariables x R p)) = limitVolume x"
  by (auto simp: setVolumeRampVariables_def Let_def split: if_splits)

lemma feq_in_range_class:
  assumes "feq x y" "volume_in_range y" "float_valid x"
  shows "fpclassify x \<noteq> FP_NAN" "fpclassify x \<noteq> FP_SUBNORMAL" "\<not> flt x fzero"
    "x \<noteq> FInf False" "\<not> flt UNITY_GAIN_FLOAT x"
  using assms
  by (cases x; cases y;
      auto simp: volume_in_range_def fzero_def UNITY_GAIN_FLOAT_def fle_def
        fval_def pow2_def float_valid_def split: if_splits)+

lemma limitVolume_cases:
  assumes "float_valid x"
  shows "fpclassify x = FP_NAN \<or> fpclassify x = FP_SUBNORMAL \<or> flt x fzero
          \<Longrightarrow> limitVolume x = fzero"
    "x = FInf False \<Longrightarrow> limitVolume x = UNITY_GAIN_FLOAT"
    "flt UNITY_GAIN_FLOAT x \<Longrightarrow> limitVolume x = UNITY_GAIN_FLOAT"
  using assms
  by (cases x;
      auto simp: limitVolume_def fzero_def UNITY_GAIN_FLOAT_def fle_def
        fval_def pow2_def float_valid_def split: if_splits)+

lemma stored_volume_sanitized:
  assumes "volume_in_range (pSetVolume p)" and "float_valid x"
  shows "volume_in_range (pSetVolume (snd (setVolumeRampVariables x R p)))"
    and "fpclassify x = FP_NAN \<or> fpclassify x = FP_SUBNORMAL \<or> flt x fzero
          \<Longrightarrow> pSetVolume (snd (setVolumeRampVariables x R p)) = fzero"
    and "x = FInf False \<Longrightarrow> pSetVolume (snd (setVolumeRampVariables x R p)) = UNITY_GAIN_FLOAT"
    and "flt UNITY_GAIN_FLOAT x
          \<Longrightarrow> pSetVolume (snd (setVolumeRampVariables x R p)) = UNITY_GAIN_FLOAT"
proof -
  show "volume_in_range (pSetVolume (snd (setVolumeRampVariables x R p)))"
  proof (cases "feq x (pSetVolume p)")
    case True
    then show ?thesis using assms(1) by (simp add: setVolumeRampVariables_def)
  next
    case False
    then show ?thesis by (simp add: setVolumeRampVariables_set limitVolume_range)
  qed
next
  assume a: "fpclassify x = FP_NAN \<or> fpclassify x = FP_SUBNORMAL \<or> flt x fzero"
  then have "\<not> feq x (pSetVolume p)" using feq_in_range_class[OF _ assms] by blast
  then show "pSetVolume (snd (setVolumeRampVariables x R p)) = fzero"
    using a limitVolume_cases(1)[OF assms(2)] by (simp add: setVolumeRampVariables_set)
next
  assume a: "x = FInf False"
  then have "\<not> feq x (pSetVolume p)" using feq_in_range_class[OF _ assms] by blast
  then show "pSetVolume (snd (setVolumeRampVariables x R p)) = UNITY_GAIN_FLOAT"
    using a limitVolume_cases(2)[OF assms(2)] by (simp add: setVolumeRampVariables_set)
next
  assume a: "flt UNITY_GAIN_FLOAT x"
  then have "\<not> feq x (pSetVolume p)" using feq_in_range_class[OF _ assms] by blast
  then show "pSetVolume (snd (setVolumeRampVariables x R p)) = UNITY_GAIN_FLOAT"
    using a limitVolume_cases(3)[OF assms(2)] by (simp add: setVolumeRampVariables_set)
qed

lemma u32_volume_param: "c < 2 \<Longrightarrow> u32 (16896 + int c) = 16896 + int c"
  by (simp add: u32_def)

text \<open>
  Claim C4. A \<open>setParameter\<close> call with target \<open>VOLUME\<close> or \<open>RAMP_VOLUME\<close> and parameter
  \<open>VOLUME0 + c\<close> succeeds on an existing track and leaves a sanitized value in
  \<open>mVolume[c]\<close>: zero when the input is a NaN, subnormal or negative, 1.0 when the input is
  plus infinity or above 1.0; and every channel volume stays within \<open>[0, 1.0]\<close>, as all of
  them were before the call (they are 0 at creation).
\<close>

theorem setParameter_volume_sanitized:
  assumes tr: "map_of (mTracks m) name = Some t"
    and tg: "target = VOLUME \<or> target = RAMP_VOLUME"
    and c: "c < 2"
    and len: "length (mVolume t) = 2"
    and inv: "\<forall>i<2. volume_in_range (mVolume t ! i)"
    and val: "float_valid (valueFloat v)"
  shows "\<exists>m' t'. setParameter x name target (VOLUME0 + int c) v m = Inr m'
           \<and> map_of (mTracks m') name = Some t'
           \<and> length (mVolume t') = 2
           \<and> (\<forall>i<2. volume_in_range (mVolume t' ! i))
           \<and> (fpclassify (valueFloat v) = FP_NAN \<or> fpclassify (valueFloat v) = FP_SUBNORMAL
                \<or> flt (valueFloat v) fzero \<longrightarrow> mVolume t' ! c = fzero)
           \<and> (valueFloat v = FInf False \<longrightarrow> mVolume t' ! c = UNITY_GAIN_FLOAT)
           \<and> (flt UNITY_GAIN_FLOAT (valueFloat v) \<longrightarrow> mVolume t' ! c = UNITY_GAIN_FLOAT)"
proof -
  define R where "R = (if target = RAMP_VOLUME then s32 (int (mFrameCount m)) else 0)"
  define r where "r = setVolumeRampVariables (valueFloat v) R (volumeVars c t)"
  have old: "volume_in_range (pSetVolume (volumeVars c t))"
    using inv c by (simp add: volumeVars_def)
  note san = stored_volume_sanitized[OF old val, of R, folded r_def]
  have sp: "setParameter x name target (VOLUME0 + int c) v m =
      (if fst r then Inr (invalidate (putTrack name (setVolumeVars c (snd r) t) m)) else Inr m)"
    using tr tg c
    by (auto simp: setParameter_def u32_volume_param MAX_NUM_VOLUMES_def r_def R_def Let_def
        split: prod.splits)
  show ?thesis
  proof (cases "fst r")
    case True
    let ?t = "setVolumeVars c (snd r) t"
    have v: "mVolume ?t = (mVolume t)[c := pSetVolume (snd r)]"
      by (simp add: setVolumeVars_def)
    have rng: "\<forall>i<2. volume_in_range (mVolume ?t ! i)"
      using inv san(1) len c by (auto simp: v nth_list_update)
    have "map_of (mTracks (invalidate (putTrack name ?t m))) name = Some ?t"
      by (simp add: invalidate_def putTrack_def map_of_map_insert)
    moreover have "mVolume ?t ! c = pSetVolume (snd r)"
      using len c by (simp add: v)
    ultimately show ?thesis
      using sp True rng san(2-4) len by (auto simp: v)
  next
    case False
    then have "snd r = volumeVars c t"
      unfolding r_def by (simp add: setVolumeRampVariables_unchanged)
    then have "pSetVolume (snd r) = mVolume t ! c" by (simp add: volumeVars_def)
    then show ?thesis
      using sp False tr inv san(2-4) len by auto
  qed
qed

theorem setParameter_volume_sanitized_witness:
  "\<exists>m' t'. setParameter silentExt 7 VOLUME VOLUME0
              \<lparr>valuePtr = 4096, valueFloat = FFin False (3 / 2)\<rparr> oneTrackMixer = Inr m'
     \<and> map_of (mTracks m') 7 = Some t' \<and> mVolume t' ! 0 = UNITY_GAIN_FLOAT
     \<and> (\<forall>i<2. volume_in_range (mVolume t' ! i))"
proof -
  have tr: "map_of (mTracks oneTrackMixer) 7 = Some stereoTrack"
    by (simp add: oneTrackMixer_def)
  have len: "length (mVolume stereoTrack) = 2"
    by (simp add: stereoTrack_def newTrack_def)
  have inv: "\<forall>i<2. volume_in_range (mVolume stereoTrack ! i)"
    by (simp add: stereoTrack_def newTrack_def volume_in_range_def fzero_def fle_def fval_def
        UNITY_GAIN_FLOAT_def nth_Cons split: nat.splits)
  have val: "float_valid (valueFloat \<lparr>valuePtr = 4096, valueFloat = FFin False (3 / 2)\<rparr>)"
    by code_simp
  have gt: "flt UNITY_GAIN_FLOAT (valueFloat \<lparr>valuePtr = 4096, valueFloat = FFin False (3 / 2)\<rparr>)"
    by (simp add: UNITY_GAIN_FLOAT_def fval_def)
  show ?thesis
    using setParameter_volume_sanitized[OF tr _ _ len inv val, of VOLUME 0 silentExt] gt
    by auto
qed

subsection \<open>Ramp admissibility\<close>

text \<open>
  Claim C5. When \<open>setVolumeRampVariables\<close> sees a change of volume, the ramp of length
  \<open>R\<close> is used only if \<open>R\<close> is not 0, the float increment \<open>(v' - prev) / R\<close> is a normal
  number with \<open>max(v', prev) + inc \<noteq> max(v', prev)\<close>, and the U4.28 integer increment is
  not 0: then both increments are stored and the previous volumes are kept. In every other
  case both increments are cleared and both previous volumes are set to the sanitized
  target. The committed float and integer volumes are set to the target in both cases.
\<close>

theorem ramp_admissible_or_immediate:
  assumes "\<not> feq x (pSetVolume p)"
  shows "setVolumeRampVariables x R p =
    (True,
     if R \<noteq> 0 \<and> floatRampAllowed (limitVolume x) R (pPrevVolume p)
        \<and> intRampInc (intVolumeOf (limitVolume x)) R (pIntPrevVolume p) \<noteq> 0
     then p\<lparr>pIntSetVolume := s16 (intVolumeOf (limitVolume x)),
            pIntVolumeInc := intRampInc (intVolumeOf (limitVolume x)) R (pIntPrevVolume p),
            pSetVolume := limitVolume x,
            pVolumeInc := floatRampInc (limitVolume x) R (pPrevVolume p)\<rparr>
     else p\<lparr>pIntSetVolume := s16 (intVolumeOf (limitVolume x)),
            pIntPrevVolume := s32 (intVolumeOf (limitVolume x) * 65536),
            pIntVolumeInc := 0,
            pSetVolume := limitVolume x,
            pPrevVolume := limitVolume x,
            pVolumeInc := fzero\<rparr>)"
  using assms by (simp add: setVolumeRampVariables_def Let_def)

theorem ramp_admissible_or_immediate_witness:
  "setVolumeRampVariables (FFin False (1 / 2)) 64 zeroVars =
     (True, \<lparr>pIntSetVolume = 2048, pIntPrevVolume = 0, pIntVolumeInc = 2097152,
             pSetVolume = FFin False (1 / 2), pPrevVolume = fzero,
             pVolumeInc = FFin False (1 / 128)\<rparr>)
   \<and> setVolumeRampVariables (FFin False (1 / 8192)) 64 zeroVars =
     (True, \<lparr>pIntSetVolume = 0, pIntPrevVolume = 0, pIntVolumeInc = 0,
             pSetVolume = FFin False (1 / 8192), pPrevVolume = FFin False (1 / 8192),
             pVolumeInc = fzero\<rparr>)"
proof -
  have a: "\<not> feq (FFin False (1 / 2)) (pSetVolume zeroVars)"
    and b: "\<not> feq (FFin False (1 / 8192)) (pSetVolume zeroVars)"
    by (simp_all add: zeroVars_def fzero_def fval_def)
  have l1: "limitVolume (FFin False (1 / 2)) = FFin False (1 / 2)"
    and l2: "limitVolume (FFin False (1 / 8192)) = FFin False (1 / 8192)"
    by code_simp+
  have f1: "floatRampAllowed (FFin False (1 / 2)) 64 fzero"
    and f2: "floatRampInc (FFin False (1 / 2)) 64 fzero = FFin False (1 / 128)"
    by code_simp+
  have i1: "intVolumeOf (FFin False (1 / 2)) = 2048"
    and i2: "intVolumeOf (FFin False (1 / 8192)) = 0"
    by code_simp+
  have r1: "intRampInc 2048 64 0 = 2097152" and r2: "intRampInc 0 64 0 = 0"
    by code_simp+
  show ?thesis
    using ramp_admissible_or_immediate[OF a, of 64] ramp_admissible_or_immediate[OF b, of 64]
    by (simp add: l1 l2 f1 f2 i1 i2 r1 r2 zeroVars_def s16_def s32_def)
qed

subsection \<open>Unreleased frames\<close>

text \<open>
  Claim C10. \<open>getUnreleasedFrames\<close> is total: for a name that is not in the registry it
  returns 0, and for a track without a resampler it returns 0, whereas \<open>destroy\<close>,
  \<open>enable\<close>, \<open>disable\<close> and \<open>setParameter\<close> abort on a name that is not in the registry.
\<close>

theorem getUnreleasedFrames_never_fails:
  "(map_of (mTracks m) name = None \<longrightarrow>
      getUnreleasedFrames x name m = 0
      \<and> destroy name m = Inl Fatal \<and> enable name m = Inl Fatal \<and> disable name m = Inl Fatal
      \<and> setParameter x name target param v m = Inl Fatal)
   \<and> (\<forall>t. map_of (mTracks m) name = Some t \<and> mResampler t = None \<longrightarrow>
      getUnreleasedFrames x name m = 0)"
  by (simp add: getUnreleasedFrames_def track_getUnreleasedFrames_def destroy_def enable_def
      disable_def setParameter_def)

theorem getUnreleasedFrames_never_fails_witness:
  "getUnreleasedFrames silentExt 3 oneTrackMixer = 0
   \<and> destroy 3 oneTrackMixer = Inl Fatal \<and> enable 3 oneTrackMixer = Inl Fatal
   \<and> disable 3 oneTrackMixer = Inl Fatal
   \<and> setParameter silentExt 3 VOLUME VOLUME0 \<lparr>valuePtr = 0, valueFloat = fzero\<rparr> oneTrackMixer
       = Inl Fatal
   \<and> getUnreleasedFrames silentExt 7 oneTrackMixer = 0"
proof -
  have a: "map_of (mTracks oneTrackMixer) 3 = None"
    and b: "map_of (mTracks oneTrackMixer) 7 = Some stereoTrack"
    and c: "mResampler stereoTrack = None"
    by (simp_all add: oneTrackMixer_def stereoTrack_def newTrack_def)
  show ?thesis
    using getUnreleasedFrames_never_fails[of oneTrackMixer 3 silentExt VOLUME VOLUME0
        "\<lparr>valuePtr = 0, valueFloat = fzero\<rparr>"]
      getUnreleasedFrames_never_fails[of oneTrackMixer 7 silentExt] a b c
    by simp
qed

subsection \<open>The integer volume ramp\<close>

























lemma adjustVolumeRamp_volume_lists:
  "volume (adjustVolumeRamp aux useFloat t) = volume t"
  "mVolume (adjustVolumeRamp aux useFloat t) = mVolume t"
  by (simp_all add: adjustVolumeRamp_def adjustVolumeRamp_channel_def rampCommit_def
      auxCommit_def Let_def)

lemma adjustVolumeRamp_channel_effect:
  assumes len: "length (volume t) = 2" "length (prevVolume t) = 2" "length (volumeInc t) = 2"
      "length (mVolume t) = 2" "length (mPrevVolume t) = 2" "length (mVolumeInc t) = 2"
    and c: "c < 2"
  shows "(if useFloat then rampDone_float (mVolumeInc t ! c) (mPrevVolume t ! c) (mVolume t ! c)
          else rampDone_int (volumeInc t ! c) (prevVolume t ! c) (volume t ! c)) \<Longrightarrow>
         prevVolume (adjustVolumeRamp aux useFloat t) ! c = s32 (volume t ! c * 65536)
         \<and> volumeInc (adjustVolumeRamp aux useFloat t) ! c = 0
         \<and> mPrevVolume (adjustVolumeRamp aux useFloat t) ! c = mVolume t ! c
         \<and> mVolumeInc (adjustVolumeRamp aux useFloat t) ! c = fzero"
    and "\<not> (if useFloat then rampDone_float (mVolumeInc t ! c) (mPrevVolume t ! c) (mVolume t ! c)
          else rampDone_int (volumeInc t ! c) (prevVolume t ! c) (volume t ! c)) \<Longrightarrow>
         prevVolume (adjustVolumeRamp aux useFloat t) ! c
           = (if useFloat then s32 (u4_28_from_float (mPrevVolume t ! c)) else prevVolume t ! c)
         \<and> mPrevVolume (adjustVolumeRamp aux useFloat t) ! c
           = (if useFloat then mPrevVolume t ! c else float_from_u4_28 (prevVolume t ! c))
         \<and> volumeInc (adjustVolumeRamp aux useFloat t) ! c = volumeInc t ! c
         \<and> mVolumeInc (adjustVolumeRamp aux useFloat t) ! c = mVolumeInc t ! c"
proof -
  have c01: "c = 0 \<or> c = 1" using c by auto
  {
    assume "(if useFloat then rampDone_float (mVolumeInc t ! c) (mPrevVolume t ! c) (mVolume t ! c)
          else rampDone_int (volumeInc t ! c) (prevVolume t ! c) (volume t ! c))"
    then show "prevVolume (adjustVolumeRamp aux useFloat t) ! c = s32 (volume t ! c * 65536)
         \<and> volumeInc (adjustVolumeRamp aux useFloat t) ! c = 0
         \<and> mPrevVolume (adjustVolumeRamp aux useFloat t) ! c = mVolume t ! c
         \<and> mVolumeInc (adjustVolumeRamp aux useFloat t) ! c = fzero"
      using c01 len
      by (auto simp: adjustVolumeRamp_def adjustVolumeRamp_channel_def rampCommit_def
          auxCommit_def Let_def)
  }
  {
    assume "\<not> (if useFloat then rampDone_float (mVolumeInc t ! c) (mPrevVolume t ! c) (mVolume t ! c)
          else rampDone_int (volumeInc t ! c) (prevVolume t ! c) (volume t ! c))"
    then show "prevVolume (adjustVolumeRamp aux useFloat t) ! c
           = (if useFloat then s32 (u4_28_from_float (mPrevVolume t ! c)) else prevVolume t ! c)
         \<and> mPrevVolume (adjustVolumeRamp aux useFloat t) ! c
           = (if useFloat then mPrevVolume t ! c else float_from_u4_28 (prevVolume t ! c))
         \<and> volumeInc (adjustVolumeRamp aux useFloat t) ! c = volumeInc t ! c
         \<and> mVolumeInc (adjustVolumeRamp aux useFloat t) ! c = mVolumeInc t ! c"
      using c01 len
      by (auto simp: adjustVolumeRamp_def adjustVolumeRamp_channel_def rampCommit_def
          auxCommit_def Let_def)
  }
qed





lemma rampTrack64_lists:
  "volume rampTrack64 = [2048, 0]" "prevVolume rampTrack64 = [0, 0]"
  "volumeInc rampTrack64 = [2097152, 0]"
  "mVolume rampTrack64 = [FFin False (1 / 2), fzero]"
  "mPrevVolume rampTrack64 = [fzero, fzero]"
  "mVolumeInc rampTrack64 = [FFin False (1 / 128), fzero]"
  by (simp_all add: rampTrack64_def stereoTrack_def newTrack_def)




subsection \<open>Coherence of the two representations\<close>

lemma rampDone_float_zero: "feq inc fzero \<Longrightarrow> \<not> rampDone_float inc prev target"
  by (cases inc) (auto simp: rampDone_float_def fzero_def)

lemma rampDone_int_zero: "\<not> rampDone_int 0 prev target"
  by (simp add: rampDone_int_def)

text \<open>
  Claim C6, as amended. \<open>adjustVolumeRamp\<close> tests each channel \<open>c\<close> on entry: the increment
  of the mode in use is not 0 and the previous volume plus the increment has reached or
  passed the target. When the test holds the channel is committed:
  \<open>prevVolume[c] == volume[c] << 16\<close>, \<open>mPrevVolume[c] == mVolume[c]\<close> and both increments
  are 0. When it does not hold, which is the case of a ramp still running and also of a
  channel with no ramp at all (an increment 0 never passes the test), the increments and the
  previous volume of the mode in use are left as they are and the other representation is
  made from it: in float mode \<open>prevVolume[c]\<close> is exactly
  \<open>u4_28_from_float(mPrevVolume[c])\<close>, and in integer mode \<open>mPrevVolume[c]\<close> is exactly
  \<open>float_from_u4_28(prevVolume[c])\<close>.
\<close>

theorem adjustVolumeRamp_coherent:
  assumes "length (volume t) = 2" and "length (prevVolume t) = 2" and "length (volumeInc t) = 2"
    and "length (mVolume t) = 2" and "length (mPrevVolume t) = 2"
    and "length (mVolumeInc t) = 2"
    and "c < 2"
  shows "((if useFloat then rampDone_float (mVolumeInc t ! c) (mPrevVolume t ! c) (mVolume t ! c)
          else rampDone_int (volumeInc t ! c) (prevVolume t ! c) (volume t ! c)) \<longrightarrow>
         prevVolume (adjustVolumeRamp aux useFloat t) ! c
           = s32 (volume (adjustVolumeRamp aux useFloat t) ! c * 65536)
         \<and> mPrevVolume (adjustVolumeRamp aux useFloat t) ! c
           = mVolume (adjustVolumeRamp aux useFloat t) ! c
         \<and> volumeInc (adjustVolumeRamp aux useFloat t) ! c = 0
         \<and> mVolumeInc (adjustVolumeRamp aux useFloat t) ! c = fzero)
    \<and> (useFloat \<and> \<not> rampDone_float (mVolumeInc t ! c) (mPrevVolume t ! c) (mVolume t ! c) \<longrightarrow>
         prevVolume (adjustVolumeRamp aux useFloat t) ! c
           = s32 (u4_28_from_float (mPrevVolume (adjustVolumeRamp aux useFloat t) ! c))
         \<and> mPrevVolume (adjustVolumeRamp aux useFloat t) ! c = mPrevVolume t ! c
         \<and> volumeInc (adjustVolumeRamp aux useFloat t) ! c = volumeInc t ! c
         \<and> mVolumeInc (adjustVolumeRamp aux useFloat t) ! c = mVolumeInc t ! c)
    \<and> (\<not> useFloat \<and> \<not> rampDone_int (volumeInc t ! c) (prevVolume t ! c) (volume t ! c) \<longrightarrow>
         mPrevVolume (adjustVolumeRamp aux useFloat t) ! c
           = float_from_u4_28 (prevVolume (adjustVolumeRamp aux useFloat t) ! c)
         \<and> prevVolume (adjustVolumeRamp aux useFloat t) ! c = prevVolume t ! c
         \<and> volumeInc (adjustVolumeRamp aux useFloat t) ! c = volumeInc t ! c
         \<and> mVolumeInc (adjustVolumeRamp aux useFloat t) ! c = mVolumeInc t ! c)
    \<and> (feq (mVolumeInc t ! c) fzero \<longrightarrow>
         \<not> rampDone_float (mVolumeInc t ! c) (mPrevVolume t ! c) (mVolume t ! c))
    \<and> (volumeInc t ! c = 0 \<longrightarrow>
         \<not> rampDone_int (volumeInc t ! c) (prevVolume t ! c) (volume t ! c))"
  using adjustVolumeRamp_channel_effect[OF assms, of useFloat aux]
  by (auto simp: adjustVolumeRamp_volume_lists rampDone_float_zero rampDone_int_zero)

lemma steadyTrack_lists:
  "volume steadyTrack = [1228, 0]" "prevVolume steadyTrack = [80478208, 0]"
  "volumeInc steadyTrack = [0, 0]"
  "mVolume steadyTrack = [FFin False (5033165 / 16777216), fzero]"
  "mPrevVolume steadyTrack = [FFin False (5033165 / 16777216), fzero]"
  "mVolumeInc steadyTrack = [fzero, fzero]"
  by (simp_all add: steadyTrack_def stereoTrack_def newTrack_def)

lemma steady_vars:
  "setVolumeRampVariables (FFin False (5033165 / 16777216)) 0 zeroVars
    = (True, \<lparr>pIntSetVolume = 1228, pIntPrevVolume = 80478208, pIntVolumeInc = 0,
         pSetVolume = FFin False (5033165 / 16777216),
         pPrevVolume = FFin False (5033165 / 16777216), pVolumeInc = fzero\<rparr>)"
  by code_simp

lemma steady_conversion: "u4_28_from_float (FFin False (5033165 / 16777216)) = 80530640"
  by code_simp

lemma reachedTrack_lists:
  "volume reachedTrack = [1228, 0]" "prevVolume reachedTrack = [0, 0]"
  "volumeInc reachedTrack = [1257472, 0]"
  "mVolume reachedTrack = [FFin False (5033165 / 16777216), fzero]"
  "mPrevVolume reachedTrack = [FFin False (5033165 / 16777216), fzero]"
  "mVolumeInc reachedTrack = [FFin False (5033165 / 1073741824), fzero]"
  by (simp_all add: reachedTrack_def stereoTrack_def newTrack_def)

lemma reached_done:
  "rampDone_float (FFin False (5033165 / 1073741824)) (FFin False (5033165 / 16777216))
     (FFin False (5033165 / 16777216))"
  by code_simp

lemma running_not_done: "\<not> rampDone_float (FFin False (1 / 128)) fzero (FFin False (1 / 2))"
  by code_simp

theorem adjustVolumeRamp_coherent_witness:
  "prevVolume (adjustVolumeRamp False True reachedTrack) ! 0 = 80478208
   \<and> mPrevVolume (adjustVolumeRamp False True reachedTrack) ! 0 = FFin False (5033165 / 16777216)
   \<and> volumeInc (adjustVolumeRamp False True reachedTrack) ! 0 = 0
   \<and> prevVolume (adjustVolumeRamp False True rampTrack64) ! 0
       = s32 (u4_28_from_float (mPrevVolume (adjustVolumeRamp False True rampTrack64) ! 0))
   \<and> prevVolume (adjustVolumeRamp False True steadyTrack) ! 0 = 80530640
   \<and> mPrevVolume (adjustVolumeRamp False True steadyTrack) ! 0
       = FFin False (5033165 / 16777216)
   \<and> volumeInc (adjustVolumeRamp False True steadyTrack) ! 0 = 0
   \<and> mVolumeInc (adjustVolumeRamp False True steadyTrack) ! 0 = fzero"
  using adjustVolumeRamp_coherent[of reachedTrack 0 True False]
    adjustVolumeRamp_coherent[of rampTrack64 0 True False]
    adjustVolumeRamp_coherent[of steadyTrack 0 True False]
    reached_done running_not_done steady_conversion
  by (simp add: reachedTrack_lists rampTrack64_lists steadyTrack_lists
      adjustVolumeRamp_volume_lists s32_def fzero_def)

text \<open>
  The claim as stated fails in both branches: when the float ramp to \<open>0.3f\<close> completes,
  \<open>prevVolume\<close> becomes \<open>1228 << 16\<close>, 52432 least significant bits away from
  \<open>u4_28_from_float(0.3f)\<close>; and the float made from the U4.28 value \<open>0x0FFFFFF7\<close>
  converts back to a value 7 least significant bits away.
\<close>

theorem coherence_counterexample:
  "prevVolume (adjustVolumeRamp False True reachedTrack) ! 0 = 80478208
   \<and> u4_28_from_float (mPrevVolume (adjustVolumeRamp False True reachedTrack) ! 0) = 80530640
   \<and> u4_28_from_float (float_from_u4_28 268435447) = 268435440"
proof -
  have l: "length (volume reachedTrack) = 2" "length (prevVolume reachedTrack) = 2"
    "length (volumeInc reachedTrack) = 2" "length (mVolume reachedTrack) = 2"
    "length (mPrevVolume reachedTrack) = 2" "length (mVolumeInc reachedTrack) = 2"
    by (simp_all add: reachedTrack_lists)
  have c: "(0::nat) < 2" by simp
  have a: "prevVolume (adjustVolumeRamp False True reachedTrack) ! 0 = 80478208
      \<and> mPrevVolume (adjustVolumeRamp False True reachedTrack) ! 0
          = FFin False (5033165 / 16777216)"
    using adjustVolumeRamp_channel_effect(1)[OF l c, of True False] reached_done
    by (simp add: reachedTrack_lists s32_def)
  have b: "u4_28_from_float (FFin False (5033165 / 16777216)) = 80530640"
    by code_simp
  have d: "u4_28_from_float (float_from_u4_28 268435447) = 268435440"
    by code_simp
  show ?thesis using a b d by simp
qed

subsection \<open>Resamplers and sample rates\<close>

lemma resamplerInv_alt: "resamplerInv m = (\<forall>e \<in> set (mTracks m). trackInv (mSampleRate m) (snd e))"
  by (simp add: resamplerInv_def trackInv_def)

lemma set_map_insert: "set (map_insert k v xs) \<subseteq> insert (k, v) (set xs)"
  by (induction xs) (auto split: if_splits)

lemma set_map_erase: "set (map_erase k xs) \<subseteq> set xs"
  by (auto simp: map_erase_def)

lemma resamplerInv_putTrack:
  "resamplerInv m \<Longrightarrow> trackInv (mSampleRate m) t \<Longrightarrow> resamplerInv (putTrack name t m)"
  using set_map_insert[of name t "mTracks m"]
  by (auto simp: resamplerInv_alt putTrack_def)

lemma resamplerInv_lookup:
  "resamplerInv m \<Longrightarrow> map_of (mTracks m) name = Some t \<Longrightarrow> trackInv (mSampleRate m) t"
  by (metis map_of_SomeD resamplerInv_alt snd_conv)

lemma resamplerInv_invalidate: "resamplerInv (invalidate m) = resamplerInv m"
  by (simp add: resamplerInv_def invalidate_def)

lemma putTrack_rate: "mSampleRate (putTrack name t m) = mSampleRate m"
  by (simp add: putTrack_def)

lemma trackInv_setResampler: "trackInv dev t \<Longrightarrow> trackInv dev (snd (setResampler x r dev t))"
  by (auto simp: trackInv_def setResampler_def Let_def)

lemma trackInv_recreateResampler: "trackInv dev t \<Longrightarrow> trackInv dev (recreateResampler x dev t)"
  by (auto simp: trackInv_def recreateResampler_def setResampler_def Let_def)

lemma trackInv_cong:
  "sampleRate t' = sampleRate t \<Longrightarrow> (mResampler t' = None) = (mResampler t = None)
    \<Longrightarrow> trackInv dev t \<Longrightarrow> trackInv dev t'"
  by (auto simp: trackInv_def)

lemma resamplerInv_setChannelMasks:
  assumes "resamplerInv m" "setChannelMasks x name a b m = Inr (ch, m')"
  shows "resamplerInv m'"
proof (cases "map_of (mTracks m) name")
  case None
  then show ?thesis using assms by (simp add: setChannelMasks_def)
next
  case (Some t)
  note ti = resamplerInv_lookup[OF assms(1) Some]
  show ?thesis
  proof (cases "a = channelMask t \<and> b = mMixerChannelMask t")
    case True
    then show ?thesis using assms Some by (simp add: setChannelMasks_def)
  next
    case False
    let ?t2 = "t\<lparr>channelMask := a, channelCount := audio_channel_count_from_out_mask a mod 256,
        mMixerChannelMask := b, mMixerChannelCount := audio_channel_count_from_out_mask b,
        mInputFrameSize := audio_bytes_per_frame (audio_channel_count_from_out_mask a mod 256) (mFormat t)\<rparr>"
    have "trackInv (mSampleRate m) ?t2" using ti by (simp add: trackInv_def)
    then have "trackInv (mSampleRate m) (recreateResampler x (mSampleRate m) ?t2)"
      by (rule trackInv_recreateResampler)
    moreover have "m' = m\<lparr>mTracks := map_insert name (recreateResampler x (mSampleRate m) ?t2) (mTracks m)\<rparr>"
      using assms(2) Some False by (auto simp: setChannelMasks_def Let_def)
    ultimately show ?thesis
      using resamplerInv_putTrack[OF assms(1), of "recreateResampler x (mSampleRate m) ?t2" name]
      by (simp add: putTrack_def)
  qed
qed

lemma setChannelMasks_rate:
  "setChannelMasks x name a b m = Inr (ch, m') \<Longrightarrow> mSampleRate m' = mSampleRate m"
  by (auto simp: setChannelMasks_def Let_def split: option.splits if_splits)

lemma resamplerInv_setParameter:
  assumes inv: "resamplerInv m" and sp: "setParameter x name target param v m = Inr m'"
  shows "resamplerInv m'"
proof (cases "map_of (mTracks m) name")
  case None
  then show ?thesis using sp by (simp add: setParameter_def)
next
  case (Some t)
  note ti = resamplerInv_lookup[OF inv Some]
  have put: "\<And>t'. trackInv (mSampleRate m) t' \<Longrightarrow> resamplerInv (putTrack name t' m)"
    "\<And>t'. trackInv (mSampleRate m) t' \<Longrightarrow> resamplerInv (invalidate (putTrack name t' m))"
    using inv by (simp_all add: resamplerInv_putTrack resamplerInv_invalidate)
  have upd: "trackInv (mSampleRate m) (t\<lparr>mainBuffer := valueBuf v\<rparr>)"
    "trackInv (mSampleRate m) (t\<lparr>auxBuffer := valueBuf v\<rparr>)"
    "trackInv (mSampleRate m) (t\<lparr>mFormat := valueInt v\<rparr>)"
    "trackInv (mSampleRate m) (t\<lparr>mMixerFormat := valueInt v\<rparr>)"
    "trackInv (mSampleRate m) (t\<lparr>teeBuffer := valueBuf v\<rparr>)"
    "trackInv (mSampleRate m) (t\<lparr>mTeeBufferFrameCount := valueInt v\<rparr>)"
    "trackInv (mSampleRate m) (resetResampler x t)"
    "trackInv (mSampleRate m) (t\<lparr>mResampler := None, sampleRate := mSampleRate m\<rparr>)"
    "\<And>p. trackInv (mSampleRate m) (setAuxVars p t)"
    "\<And>i p. trackInv (mSampleRate m) (setVolumeVars i p t)"
    using ti
    by (auto simp: trackInv_def resetResampler_def setAuxVars_def setVolumeVars_def
        split: option.splits)
  have sr: "\<And>r c t'. setResampler x r (mSampleRate m) t = (c, t') \<Longrightarrow> trackInv (mSampleRate m) t'"
    using trackInv_setResampler[OF ti] by (metis snd_conv)
  show ?thesis
    using sp Some inv put upd sr
    by (auto simp: setParameter_def Let_def resamplerInv_invalidate
        split: if_splits sum.splits prod.splits
        dest: resamplerInv_setChannelMasks[OF inv])
qed

lemma and_4096: "((n::int) AND 4096 \<noteq> 0) = bit n 12"
  using and_exp_eq_0_iff_not_bit[of n 12] by simp

lemma small_not_bit12: "0 \<le> (k::int) \<Longrightarrow> k < 256 \<Longrightarrow> \<not> bit k 12"
  by (simp add: bit_iff_odd)

lemma bit12_consts: "bit (4096::int) 12" "\<not> bit (65536::int) 12" "\<not> bit (256::int) 12"
  by (simp_all add: bit_iff_odd)

lemma trackNeeds_resample:
  assumes "1 \<le> channelCount t" "channelCount t \<le> 255"
  shows "(trackNeeds t AND NEEDS_RESAMPLE \<noteq> 0) = doesResample t"
proof -
  have u: "u32 (int (channelCount t) - 1) = int (channelCount t) - 1"
    using assms by (simp add: u32_def)
  have nb: "\<not> bit (int (channelCount t) - 1) 12"
    using assms by (intro small_not_bit12) simp_all
  show ?thesis
    using nb by (simp add: and_4096 trackNeeds_def u Let_def bit_or_iff bit12_consts doesResample_def)
qed

lemma validateTrack_needs:
  "validateTrack t st = Inr (t', st') \<Longrightarrow>
     needs t' = trackNeeds t \<and> t' = t\<lparr>needs := trackNeeds t, hook := hook t'\<rparr>"
  by (auto simp: validateTrack_def Let_def split: sum.splits)

lemma trackNeeds_cong: "trackNeeds (t\<lparr>needs := a, hook := b\<rparr>) = trackNeeds t"
  by (simp add: trackNeeds_def doesResample_def isVolumeMuted_def Let_def)

lemma validateTracks_needs:
  "validateTracks xs st = Inr (ts, st') \<Longrightarrow>
     \<forall>e \<in> set ts. enabled (snd e) \<longrightarrow> needs (snd e) = trackNeeds (snd e)"
proof (induction xs arbitrary: st ts st')
  case Nil
  then show ?case by simp
next
  case (Cons a xs)
  obtain name t where a: "a = (name, t)" by (cases a)
  show ?case
  proof (cases "enabled t")
    case False
    then obtain ts0 where r: "validateTracks xs st = Inr (ts0, st')" and ts: "ts = (name, t) # ts0"
      using Cons.prems a by (auto split: sum.splits prod.splits)
    show ?thesis using Cons.IH[OF r] False ts by simp
  next
    case True
    then obtain t' st1 ts0 where
      v: "validateTrack t (st\<lparr>v_enabled := v_enabled st @ [name],
                    v_groups := groups_add (mainBuffer t) name (v_groups st)\<rparr>) = Inr (t', st1)"
      and r: "validateTracks xs st1 = Inr (ts0, st')" and ts: "ts = (name, t') # ts0"
      using Cons.prems a by (auto split: sum.splits prod.splits)
    from validateTrack_needs[OF v] obtain h where t': "t' = t\<lparr>needs := trackNeeds t, hook := h\<rparr>"
      by blast
    have "needs t' = trackNeeds t'" unfolding t' by (simp add: trackNeeds_cong)
    then show ?thesis using Cons.IH[OF r] ts by simp
  qed
qed

lemma validateSelect_tracks:
  "validateSelect m = Inr (m', st) \<Longrightarrow>
     validateTracks (mTracks m)
       \<lparr>all16BitsStereoNoResample = True, resampling = False, volumeRamp = False,
        v_enabled = [], v_groups = []\<rparr> = Inr (mTracks m', st)
     \<and> mEnabled m' = v_enabled st \<and> mGroups m' = v_groups st"
  by (auto simp: validateSelect_def selectProcessHook_def Let_def
      split: sum.splits if_splits option.splits prod.splits)

lemma validateTrack_same:
  "validateTrack t st = Inr (t', st') \<Longrightarrow> \<exists>n h. t' = t\<lparr>needs := n, hook := h\<rparr>"
  by (auto simp: validateTrack_def Let_def split: sum.splits)

lemma validateTracks_same:
  "validateTracks xs st = Inr (ts, st') \<Longrightarrow>
     list_all2 (\<lambda>a b. fst b = fst a \<and> (\<exists>n h. snd b = (snd a)\<lparr>needs := n, hook := h\<rparr>)) xs ts"
proof (induction xs arbitrary: st ts st')
  case Nil
  then show ?case by simp
next
  case (Cons a xs)
  obtain name t where a: "a = (name, t)" by (cases a)
  show ?case
  proof (cases "enabled t")
    case False
    then obtain ts0 where r: "validateTracks xs st = Inr (ts0, st')" and ts: "ts = (name, t) # ts0"
      using Cons.prems a by (auto split: sum.splits prod.splits)
    have "t = t\<lparr>needs := needs t, hook := hook t\<rparr>" by simp
    then show ?thesis using Cons.IH[OF r] ts a by (simp, blast)
  next
    case True
    then obtain t' st1 ts0 where
      v: "validateTrack t (st\<lparr>v_enabled := v_enabled st @ [name],
                    v_groups := groups_add (mainBuffer t) name (v_groups st)\<rparr>) = Inr (t', st1)"
      and r: "validateTracks xs st1 = Inr (ts0, st')" and ts: "ts = (name, t') # ts0"
      using Cons.prems a by (auto split: sum.splits prod.splits)
    show ?thesis using Cons.IH[OF r] ts a validateTrack_same[OF v] by simp
  qed
qed

lemma validateSelect_rate:
  "validateSelect m = Inr (m', st) \<Longrightarrow> mSampleRate m' = mSampleRate m"
  by (auto simp: validateSelect_def selectProcessHook_def Let_def
      split: sum.splits if_splits option.splits prod.splits)

lemma list_all2_setD:
  "list_all2 P xs ys \<Longrightarrow> b \<in> set ys \<Longrightarrow> \<exists>a \<in> set xs. P a b"
  by (induction rule: list_all2_induct) auto

lemma resamplerInv_validateSelect:
  assumes "resamplerInv m" "validateSelect m = Inr (m', st)"
  shows "resamplerInv m'"
proof -
  from validateSelect_tracks[OF assms(2)]
  have l: "list_all2 (\<lambda>a b. fst b = fst a \<and> (\<exists>n h. snd b = (snd a)\<lparr>needs := n, hook := h\<rparr>))
      (mTracks m) (mTracks m')"
    by (auto dest: validateTracks_same)
  show ?thesis
    unfolding resamplerInv_def
  proof (intro ballI impI)
    fix b assume b: "b \<in> set (mTracks m')" and r: "sampleRate (snd b) \<noteq> mSampleRate m'"
    from list_all2_setD[OF l b] obtain a n h where a: "a \<in> set (mTracks m)"
      and e: "snd b = (snd a)\<lparr>needs := n, hook := h\<rparr>" by blast
    have "sampleRate (snd a) \<noteq> mSampleRate m"
      using r e validateSelect_rate[OF assms(2)] by simp
    then have "mResampler (snd a) \<noteq> None" using assms(1) a by (simp add: resamplerInv_def)
    then show "mResampler (snd b) \<noteq> None" using e by simp
  qed
qed

lemma resamplerInv_create:
  assumes "resamplerInv m" "create name cm fmt sid m = Inr (s, m')"
  shows "resamplerInv m'"
proof -
  have "trackInv (mSampleRate m) (newTrack m cm fmt sid)"
    by (simp add: trackInv_def newTrack_def)
  from resamplerInv_putTrack[OF assms(1) this, of name] show ?thesis
    using assms by (auto simp: create_def putTrack_def split: if_splits)
qed

lemma resamplerInv_destroy:
  assumes "resamplerInv m" "destroy name m = Inr m'"
  shows "resamplerInv m'"
proof -
  have m': "mTracks m' = map_erase name (mTracks m)" "mSampleRate m' = mSampleRate m"
    using assms(2)
    by (auto simp: destroy_def invalidate_def Let_def split: option.splits if_splits)
  show ?thesis
    unfolding resamplerInv_def m'
    using assms(1) set_map_erase[of name "mTracks m"]
    by (auto simp: resamplerInv_def)
qed


lemma resamplerInv_enable:
  assumes "resamplerInv m" "enable name m = Inr m'"
  shows "resamplerInv m'"
proof (cases "map_of (mTracks m) name")
  case None
  then show ?thesis using assms by (simp add: enable_def)
next
  case (Some t)
  have "trackInv (mSampleRate m) (t\<lparr>enabled := True\<rparr>)"
    using resamplerInv_lookup[OF assms(1) Some] by (simp add: trackInv_def)
  from resamplerInv_putTrack[OF assms(1) this, of name]
  have "resamplerInv (invalidate (putTrack name (t\<lparr>enabled := True\<rparr>) m))"
    by (simp add: resamplerInv_invalidate)
  then show ?thesis
    using assms Some by (cases "enabled t") (simp_all add: enable_def putTrack_def)
qed

lemma resamplerInv_disable:
  assumes "resamplerInv m" "disable name m = Inr m'"
  shows "resamplerInv m'"
proof (cases "map_of (mTracks m) name")
  case None
  then show ?thesis using assms by (simp add: disable_def)
next
  case (Some t)
  have "trackInv (mSampleRate m) (t\<lparr>enabled := False\<rparr>)"
    using resamplerInv_lookup[OF assms(1) Some] by (simp add: trackInv_def)
  from resamplerInv_putTrack[OF assms(1) this, of name]
  have "resamplerInv (invalidate (putTrack name (t\<lparr>enabled := False\<rparr>) m))"
    by (simp add: resamplerInv_invalidate)
  then show ?thesis
    using assms Some by (cases "enabled t") (simp_all add: disable_def putTrack_def)
qed

lemma sample_rate_value:
  "r < 2147483648 \<Longrightarrow> nat (u32 (valueInt \<lparr>valuePtr = r, valueFloat = f\<rparr>)) = r"
  by (simp add: valueInt_def s32_def u32_def)

lemma linger:
  assumes "map_of (mTracks m) name = Some t" "mResampler t \<noteq> None" "mSampleRate m < 2147483648"
  shows "\<exists>m' t'. setParameter x name RESAMPLE SAMPLE_RATE
                    \<lparr>valuePtr = mSampleRate m, valueFloat = f\<rparr> m = Inr m'
          \<and> map_of (mTracks m') name = Some t' \<and> mResampler t' \<noteq> None
          \<and> sampleRate t' = mSampleRate m"
proof -
  let ?v = "\<lparr>valuePtr = mSampleRate m, valueFloat = f\<rparr>"
  have sp: "setParameter x name RESAMPLE SAMPLE_RATE ?v m =
      (case setResampler x (mSampleRate m) (mSampleRate m) t of
         (changed, t') \<Rightarrow> if changed then Inr (invalidate (putTrack name t' m)) else Inr m)"
    using assms by (simp add: setParameter_def sample_rate_value)
  show ?thesis
  proof (cases "sampleRate t = mSampleRate m")
    case True
    then have "setResampler x (mSampleRate m) (mSampleRate m) t = (False, t)"
      using assms(2) by (simp add: setResampler_def)
    then show ?thesis using sp assms True by simp
  next
    case False
    then have "setResampler x (mSampleRate m) (mSampleRate m) t
        = (True, t\<lparr>sampleRate := mSampleRate m\<rparr>)"
      using assms(2) by (auto simp: setResampler_def Let_def)
    then show ?thesis
      using sp assms by (simp add: invalidate_def putTrack_def map_of_map_insert)
  qed
qed

lemma resamplerInv_newMixer: "resamplerInv (newMixer fc sr)"
  by (simp add: resamplerInv_def newMixer_def)

lemma validateSelect_needs:
  assumes "validateSelect m = Inr (m', st)"
  shows "\<forall>e \<in> set (mTracks m'). enabled (snd e) \<and> 1 \<le> channelCount (snd e)
            \<and> channelCount (snd e) \<le> 255 \<longrightarrow>
          ((needs (snd e) AND NEEDS_RESAMPLE \<noteq> 0) = (mResampler (snd e) \<noteq> None))"
proof -
  have "validateTracks (mTracks m)
             \<lparr>all16BitsStereoNoResample = True, resampling = False, volumeRamp = False,
              v_enabled = [], v_groups = []\<rparr> = Inr (mTracks m', st)"
    using validateSelect_tracks[OF assms] by simp
  from validateTracks_needs[OF this] show ?thesis
    using trackNeeds_resample by (auto simp: doesResample_def)
qed

text \<open>
  Claim C7, as amended. At every point of a configuration (the constructor, then any
  \<open>create\<close>, \<open>destroy\<close>, \<open>enable\<close>, \<open>disable\<close>, \<open>setParameter\<close> and hook selection), a
  track whose sample rate differs from the device rate owns a resampler; the hook selection
  of the validate pass stores \<open>NEEDS_RESAMPLE\<close> in \<open>needs\<close> of an enabled track (of 1 to 255
  channels) exactly when the track owns a resampler; and
  \<open>setParameter(RESAMPLE, SAMPLE_RATE, r)\<close> with \<open>r\<close> the device rate on a track that owns a
  resampler leaves the resampler in place, with the track at the device rate.
\<close>

theorem resampler_present_when_rate_differs:
  assumes "resamplerInv m"
  shows "resamplerInv (newMixer fc sr)
    \<and> (\<forall>s m'. create name cm fmt sid m = Inr (s, m') \<longrightarrow> resamplerInv m')
    \<and> (\<forall>m'. destroy name m = Inr m' \<longrightarrow> resamplerInv m')
    \<and> (\<forall>m'. enable name m = Inr m' \<longrightarrow> resamplerInv m')
    \<and> (\<forall>m'. disable name m = Inr m' \<longrightarrow> resamplerInv m')
    \<and> (\<forall>m'. setParameter x name target param v m = Inr m' \<longrightarrow> resamplerInv m')
    \<and> (\<forall>m' st. validateSelect m = Inr (m', st) \<longrightarrow>
          resamplerInv m'
          \<and> (\<forall>e \<in> set (mTracks m'). enabled (snd e) \<and> 1 \<le> channelCount (snd e)
                \<and> channelCount (snd e) \<le> 255 \<longrightarrow>
              ((needs (snd e) AND NEEDS_RESAMPLE \<noteq> 0) = (mResampler (snd e) \<noteq> None))))
    \<and> (\<forall>t. map_of (mTracks m) name = Some t \<and> mResampler t \<noteq> None
            \<and> mSampleRate m < 2147483648 \<longrightarrow>
          (\<exists>m' t'. setParameter x name RESAMPLE SAMPLE_RATE
                      \<lparr>valuePtr = mSampleRate m, valueFloat = f\<rparr> m = Inr m'
              \<and> map_of (mTracks m') name = Some t' \<and> mResampler t' \<noteq> None
              \<and> sampleRate t' = mSampleRate m))"
proof (intro conjI allI impI)
  show "resamplerInv (newMixer fc sr)" by (rule resamplerInv_newMixer)
next
  fix s m' assume "create name cm fmt sid m = Inr (s, m')"
  then show "resamplerInv m'" by (rule resamplerInv_create[OF assms])
next
  fix m' assume "destroy name m = Inr m'"
  then show "resamplerInv m'" by (rule resamplerInv_destroy[OF assms])
next
  fix m' assume "enable name m = Inr m'"
  then show "resamplerInv m'" by (rule resamplerInv_enable[OF assms])
next
  fix m' assume "disable name m = Inr m'"
  then show "resamplerInv m'" by (rule resamplerInv_disable[OF assms])
next
  fix m' assume "setParameter x name target param v m = Inr m'"
  then show "resamplerInv m'" by (rule resamplerInv_setParameter[OF assms])
next
  fix m' st assume "validateSelect m = Inr (m', st)"
  then show "resamplerInv m'" by (rule resamplerInv_validateSelect[OF assms])
next
  fix m' st assume "validateSelect m = Inr (m', st)"
  then show "\<forall>e \<in> set (mTracks m'). enabled (snd e) \<and> 1 \<le> channelCount (snd e)
                \<and> channelCount (snd e) \<le> 255 \<longrightarrow>
              ((needs (snd e) AND NEEDS_RESAMPLE \<noteq> 0) = (mResampler (snd e) \<noteq> None))"
    by (rule validateSelect_needs)
next
  fix t assume "map_of (mTracks m) name = Some t \<and> mResampler t \<noteq> None
            \<and> mSampleRate m < 2147483648"
  then show "\<exists>m' t'. setParameter x name RESAMPLE SAMPLE_RATE
                      \<lparr>valuePtr = mSampleRate m, valueFloat = f\<rparr> m = Inr m'
              \<and> map_of (mTracks m') name = Some t' \<and> mResampler t' \<noteq> None
              \<and> sampleRate t' = mSampleRate m"
    using linger by blast
qed

lemma stereo_channels: "channelCount stereoTrack = 2" "mMixerChannelCount stereoTrack = 2"
  by (simp_all add: stereoTrack_def newTrack_def stereo_count)

lemma set_rate_44100:
  "setParameter silentExt 7 RESAMPLE SAMPLE_RATE \<lparr>valuePtr = 44100, valueFloat = fzero\<rparr>
     oneTrackMixer
   = Inr (invalidate (putTrack 7 resampledTrack oneTrackMixer))"
proof -
  have t: "map_of (mTracks oneTrackMixer) 7 = Some stereoTrack"
    by (simp add: oneTrackMixer_def)
  have r: "mSampleRate oneTrackMixer = 48000" by (simp add: oneTrackMixer_def newMixer_def)
  have f: "sampleRate stereoTrack = 48000" "mResampler stereoTrack = None"
    "mMixerInFormat stereoTrack = AUDIO_FORMAT_PCM_FLOAT"
    by (simp_all add: stereoTrack_def newTrack_def newMixer_def)
  have "setResampler silentExt 44100 48000 stereoTrack = (True, resampledTrack)"
    by (simp add: setResampler_def f Let_def silentExt_def resampledTrack_def
        getOutputChannelCount_def stereo_channels)
  then show ?thesis
    by (simp add: setParameter_def t r sample_rate_value)
qed

lemma lingerMixer_eq:
  "lingerMixer = invalidate (putTrack 7 (resampledTrack\<lparr>sampleRate := 48000\<rparr>)
                   (invalidate (putTrack 7 resampledTrack oneTrackMixer)))"
proof -
  let ?m = "invalidate (putTrack 7 resampledTrack oneTrackMixer)"
  have t: "map_of (mTracks ?m) 7 = Some resampledTrack"
    by (simp add: invalidate_def putTrack_def map_of_map_insert)
  have r: "mSampleRate ?m = 48000"
    by (simp add: invalidate_def putTrack_def oneTrackMixer_def newMixer_def)
  have "setResampler silentExt 48000 48000 resampledTrack
      = (True, resampledTrack\<lparr>sampleRate := 48000\<rparr>)"
    by (simp add: setResampler_def resampledTrack_def Let_def)
  then have "setParameter silentExt 7 RESAMPLE SAMPLE_RATE
      \<lparr>valuePtr = 48000, valueFloat = fzero\<rparr> ?m
      = Inr (invalidate (putTrack 7 (resampledTrack\<lparr>sampleRate := 48000\<rparr>) ?m))"
    by (simp add: setParameter_def t r sample_rate_value)
  then show ?thesis by (simp add: lingerMixer_def set_rate_44100)
qed

text \<open>
  The claim as stated fails after \<open>SAMPLE_RATE\<close> 44100 and then \<open>SAMPLE_RATE\<close> 48000 on a
  track of a 48 kHz mixer: the track is at the device rate and still owns its resampler.
\<close>

theorem resampler_lingers_counterexample:
  "map_of (mTracks lingerMixer) 7 = Some (resampledTrack\<lparr>sampleRate := 48000\<rparr>)
   \<and> sampleRate (resampledTrack\<lparr>sampleRate := 48000\<rparr>) = mSampleRate lingerMixer
   \<and> mResampler (resampledTrack\<lparr>sampleRate := 48000\<rparr>) \<noteq> None"
  by (simp add: lingerMixer_eq invalidate_def putTrack_def map_of_map_insert
      oneTrackMixer_def newMixer_def resampledTrack_def)

theorem resampler_present_when_rate_differs_witness:
  "resamplerInv oneTrackMixer
   \<and> resamplerInv (invalidate (putTrack 7 resampledTrack oneTrackMixer))
   \<and> map_of (mTracks (invalidate (putTrack 7 resampledTrack oneTrackMixer))) 7
       = Some resampledTrack
   \<and> mResampler resampledTrack \<noteq> None"
proof -
  have a: "resamplerInv oneTrackMixer"
    by (simp add: resamplerInv_def oneTrackMixer_def newMixer_def stereoTrack_def newTrack_def)
  have b: "resamplerInv (invalidate (putTrack 7 resampledTrack oneTrackMixer))"
    using resampler_present_when_rate_differs[OF a, of _ _ 7 _ _ _ silentExt RESAMPLE
        SAMPLE_RATE "\<lparr>valuePtr = 44100, valueFloat = fzero\<rparr>"] set_rate_44100
    by blast
  show ?thesis
    using a b
    by (simp add: invalidate_def putTrack_def map_of_map_insert resampledTrack_def)
qed

subsection \<open>Parameter changes and hook selection\<close>

lemma stereo_selected:
  "validateSelect playingMixer = Inr (selectedMixer, snd (projr (validateSelect playingMixer)))
   \<and> mHook selectedMixer
       = Process_noResampleOneTrack MIXTYPE_MULTI_SAVEONLY_STEREOVOL T_int16 T_float
   \<and> map_of (mTracks selectedMixer) 7
      = Some (playingTrack\<lparr>needs := 1,
                hook := Track_NoResample MIXTYPE_MULTI_STEREOVOL T_float T_float\<rparr>)"
  apply (simp add: selectedMixer_def validateSelect_def playingMixer_def invalidate_def
      putTrack_def oneTrackMixer_def newMixer_def)
  apply (simp add: validateTrack_def trackNeeds_def playingTrack_def stereo_channels
      doesResample_def stereoTrack_def newTrack_def stereo_count u32_def isVolumeMuted_def
      UNITY_GAIN_FLOAT_def fzero_def fval_def selectTrackHook_def getTrackHook_def
      trackHookFor_def useStereoVolume_def isAudioChannelPositionMask_def
      audio_channel_mask_get_representation_def MAX_NUM_CHANNELS_def FCC_LIMIT_def
      selectProcessHook_def getProcessHook_def Let_def)
  done

lemma format_value: "valueInt floatFormat = AUDIO_FORMAT_PCM_FLOAT"
  by (simp add: floatFormat_def valueInt_def s32_def)

text \<open>
  Claim C8. A \<open>setParameter\<close> call that changes state on which the selected hooks depend
  sets the validate flag. The code does not do so for \<open>MIXER_FORMAT\<close>: on a mixer whose one
  enabled stereo track has the 16-bit mixer format and whose process hook is the one-track
  hook that writes \<open>int16_t\<close>, \<open>setParameter(7, TRACK, MIXER_FORMAT, AUDIO_FORMAT_PCM_FLOAT)\<close>
  stores the new format and leaves \<open>mHook\<close> as it is, although \<open>getProcessHook\<close> returns
  the hook that writes \<open>float\<close> for the new format. The sibling case \<open>FORMAT\<close> with the same
  value invalidates.
\<close>

theorem mixer_format_not_invalidated:
  "setParameter silentExt 7 TRACK MIXER_FORMAT floatFormat selectedMixer
     = Inr (putTrack 7
              (playingTrack\<lparr>needs := 1,
                 hook := Track_NoResample MIXTYPE_MULTI_STEREOVOL T_float T_float,
                 mMixerFormat := AUDIO_FORMAT_PCM_FLOAT\<rparr>) selectedMixer)
   \<and> mMixerFormat playingTrack = AUDIO_FORMAT_PCM_16_BIT
   \<and> mHook (putTrack 7
              (playingTrack\<lparr>needs := 1,
                 hook := Track_NoResample MIXTYPE_MULTI_STEREOVOL T_float T_float,
                 mMixerFormat := AUDIO_FORMAT_PCM_FLOAT\<rparr>) selectedMixer)
       = Process_noResampleOneTrack MIXTYPE_MULTI_SAVEONLY_STEREOVOL T_int16 T_float
   \<and> getProcessHook PROCESSTYPE_NORESAMPLEONETRACK (mMixerChannelCount playingTrack)
         (mMixerInFormat playingTrack) AUDIO_FORMAT_PCM_FLOAT (useStereoVolume playingTrack)
       = Inr (Process_noResampleOneTrack MIXTYPE_MULTI_SAVEONLY_STEREOVOL T_float T_float)
   \<and> setParameter silentExt 7 TRACK FORMAT floatFormat selectedMixer
       = Inr (invalidate (putTrack 7
              (playingTrack\<lparr>needs := 1,
                 hook := Track_NoResample MIXTYPE_MULTI_STEREOVOL T_float T_float,
                 mFormat := AUDIO_FORMAT_PCM_FLOAT\<rparr>) selectedMixer))"
  using stereo_selected
  by (simp add: setParameter_def format_value putTrack_def playingTrack_def stereoTrack_def
      newTrack_def stereo_count getProcessHook_def useStereoVolume_def
      isAudioChannelPositionMask_def audio_channel_mask_get_representation_def
      MAX_NUM_CHANNELS_def FCC_LIMIT_def)

subsection \<open>Null buffers\<close>

lemma sameSetup_refl: "sameSetup t t"
  by (simp add: sameSetup_def)

lemma sameSetup_trans: "sameSetup t t' \<Longrightarrow> sameSetup t' t'' \<Longrightarrow> sameSetup t t''"
  unfolding sameSetup_def
  by (cases t, cases t', cases t'') simp

lemma sameSetup_fields:
  assumes "sameSetup t t'"
  shows "hook t' = hook t" "needs t' = needs t" "bufferProvider t' = bufferProvider t"
    "buffer t' = buffer t" "t_frameCount t' = t_frameCount t"
    "mMixerChannelCount t' = mMixerChannelCount t" "mMixerFormat t' = mMixerFormat t"
    "mMixerInFormat t' = mMixerInFormat t" "mainBuffer t' = mainBuffer t"
    "auxBuffer t' = auxBuffer t" "enabled t' = enabled t" "mResampler t' = mResampler t"
    "mVolume t' = mVolume t" "volume t' = volume t" "channelCount t' = channelCount t"
    "channelMask t' = channelMask t" "mMixerChannelMask t' = mMixerChannelMask t"
    "auxLevel t' = auxLevel t"
  using assms unfolding sameSetup_def
  by (cases t, cases t', simp)+

lemma sameConfig_refl: "sameConfig t t"
  by (simp add: sameConfig_def)

lemma sameConfig_trans: "sameConfig t t' \<Longrightarrow> sameConfig t' t'' \<Longrightarrow> sameConfig t t''"
  unfolding sameConfig_def
  by (cases t, cases t', cases t'') simp

lemma sameSetup_sameConfig: "sameSetup t t' \<Longrightarrow> sameConfig t t'"
  unfolding sameSetup_def sameConfig_def
  by (cases t, cases t') auto

lemma sameConfig_fields:
  assumes "sameConfig t t'"
  shows "hook t' = hook t" "needs t' = needs t"
    "mMixerChannelCount t' = mMixerChannelCount t" "mMixerFormat t' = mMixerFormat t"
    "mMixerInFormat t' = mMixerInFormat t" "mainBuffer t' = mainBuffer t"
    "auxBuffer t' = auxBuffer t" "enabled t' = enabled t" "mResampler t' = mResampler t"
    "mVolume t' = mVolume t" "(bufferProvider t' = None) = (bufferProvider t = None)"
  using assms unfolding sameConfig_def
  by (cases t, cases t', simp)+

lemma sameConfig_stream:
  "sameConfig t (t\<lparr>bufferProvider := Some p, buffer := b, t_frameCount := c, mIn := i\<rparr>)
    = (bufferProvider t \<noteq> None)"
  "sameConfig t (t\<lparr>bufferProvider := Some p, buffer := b, mIn := i\<rparr>)
    = (bufferProvider t \<noteq> None)"
  "sameConfig t (t\<lparr>bufferProvider := Some p, buffer := b\<rparr>) = (bufferProvider t \<noteq> None)"
  "sameConfig t (t\<lparr>t_frameCount := c\<rparr>)"
  by (auto simp: sameConfig_def)

lemma wfTrack_sameConfig: "sameConfig t t' \<Longrightarrow> wfTrack t \<Longrightarrow> wfTrack t'"
  using sameConfig_fields[of t t'] by (simp add: wfTrack_def)

lemma sameTracks_refl: "sameTracks m m"
  by (simp add: sameTracks_def option.rel_refl sameConfig_refl)

lemma sameTracks_trans: "sameTracks m m' \<Longrightarrow> sameTracks m' m'' \<Longrightarrow> sameTracks m m''"
proof -
  assume a: "sameTracks m m'" and b: "sameTracks m' m''"
  have r: "rel_option sameConfig (map_of (mTracks m) name) (map_of (mTracks m'') name)" for name
  proof -
    have 1: "rel_option sameConfig (map_of (mTracks m) name) (map_of (mTracks m') name)"
      using a by (simp add: sameTracks_def)
    have 2: "rel_option sameConfig (map_of (mTracks m') name) (map_of (mTracks m'') name)"
      using b by (simp add: sameTracks_def)
    show ?thesis
      using 1 2 sameConfig_trans
      by (cases "map_of (mTracks m) name"; cases "map_of (mTracks m') name";
          cases "map_of (mTracks m'') name") auto
  qed
  have "m''\<lparr>mTracks := mTracks m, memory := memory m, mResampleTemp := mResampleTemp m\<rparr> = m"
    using a b unfolding sameTracks_def
    by (cases m, cases m', cases m'') simp
  then show ?thesis using r by (simp add: sameTracks_def)
qed

lemma sameTracks_fields:
  assumes "sameTracks m m'"
  shows "mGroups m' = mGroups m" "mEnabled m' = mEnabled m" "mFrameCount m' = mFrameCount m"
    "mHook m' = mHook m" "mSampleRate m' = mSampleRate m" "mOutputTemp m' = mOutputTemp m"
  using assms unfolding sameTracks_def
  by (cases m, cases m', simp)+

lemma sameTracks_lookup:
  assumes "sameTracks m m'" "map_of (mTracks m) name = Some t"
  shows "\<exists>t'. map_of (mTracks m') name = Some t' \<and> sameConfig t t'"
proof -
  have "rel_option sameConfig (map_of (mTracks m) name) (map_of (mTracks m') name)"
    using assms(1) by (simp add: sameTracks_def)
  then show ?thesis
    using assms(2) by (cases "map_of (mTracks m') name") auto
qed

lemma groupOk_sameTracks:
  assumes "sameTracks m m'" "groupOk m g"
  shows "groupOk m' g"
  unfolding groupOk_def
proof
  fix name assume "name \<in> set g"
  then obtain t where t: "map_of (mTracks m) name = Some t" "wfTrack t"
    using assms(2) by (auto simp: groupOk_def)
  from sameTracks_lookup[OF assms(1) t(1)]
  obtain t' where "map_of (mTracks m') name = Some t'" "sameConfig t t'" by auto
  then show "\<exists>t. map_of (mTracks m') name = Some t \<and> wfTrack t"
    using wfTrack_sameConfig t(2) by auto
qed

lemma wfMixer_sameTracks:
  assumes "sameTracks m m'" "wfMixer m"
  shows "wfMixer m'"
  using assms(2) groupOk_sameTracks[OF assms(1)]
  by (simp add: wfMixer_def sameTracks_fields(1)[OF assms(1)])

lemma sameTracks_putTrack:
  assumes "map_of (mTracks m) name = Some t" "sameConfig t t'"
  shows "sameTracks m ((putTrack name t' m)\<lparr>mResampleTemp := r, memory := mem\<rparr>)"
    "sameTracks m (putTrack name t' m)"
  using assms
  by (auto simp: sameTracks_def putTrack_def map_of_map_insert option.rel_refl sameConfig_refl)

lemma sameTracks_memory: "sameTracks m (m\<lparr>memory := mem\<rparr>)"
  by (simp add: sameTracks_def option.rel_refl sameConfig_refl)

lemma foldE_rel:
  assumes step: "\<And>a s. a \<in> set xs \<Longrightarrow> I s \<Longrightarrow> \<exists>s'. f a s = Inr s' \<and> R s s'"
    and refl: "\<And>s. R s s"
    and trans: "\<And>s s' s''. R s s' \<Longrightarrow> R s' s'' \<Longrightarrow> R s s''"
    and pres: "\<And>s s'. I s \<Longrightarrow> R s s' \<Longrightarrow> I s'"
    and I: "I s"
  shows "\<exists>s'. foldE f xs s = Inr s' \<and> R s s'"
  using step I
proof (induction xs arbitrary: s)
  case Nil
  then show ?case by (simp add: refl)
next
  case (Cons a xs)
  from Cons.prems(1)[of a s] Cons.prems(2)
  obtain s1 where s1: "f a s = Inr s1" "R s s1" by auto
  have "I s1" using pres Cons.prems(2) s1(2) by blast
  from Cons.IH[OF _ this] Cons.prems(1)
  obtain s2 where "foldE f xs s1 = Inr s2" "R s1 s2" by auto
  then show ?case using s1 trans by auto
qed

lemma adjustVolumeRamp_sameSetup: "sameSetup t (adjustVolumeRamp a f t)"
  by (simp add: sameSetup_def adjustVolumeRamp_def adjustVolumeRamp_channel_def rampCommit_def
      auxCommit_def Let_def)

lemma fit_length: "length (fit n bs) = n"
  by (simp add: fit_def)

lemma volumeMix_sameSetup:
  assumes "volumeMix x mt uf av to ti t out n inp ab rmp = (t1, out1, ab1)"
  shows "sameSetup t t1 \<and> length out1 = length out"
proof -
  have c: "sameSetup t (t\<lparr>mPrevVolume := pv, mPrevAuxLevel := pa\<rparr>)"
    "sameSetup t (t\<lparr>prevVolume := pw, prevAuxLevel := pb\<rparr>)" for pv pa pw pb
    by (simp_all add: sameSetup_def)
  have a: "sameSetup t (adjustVolumeRamp a f (t\<lparr>mPrevVolume := pv, mPrevAuxLevel := pa\<rparr>))"
    for a f pv pa
    by (rule sameSetup_trans[OF c(1) adjustVolumeRamp_sameSetup])
  have b: "sameSetup t (adjustVolumeRamp a f (t\<lparr>prevVolume := pv, prevAuxLevel := pa\<rparr>))"
    for a f pv pa
    by (rule sameSetup_trans[OF c(2) adjustVolumeRamp_sameSetup])
  show ?thesis
    using assms
    by (auto simp: volumeMix_def Let_def fit_length a b c sameSetup_refl
        adjustVolumeRamp_sameSetup split: prod.splits if_splits)
qed

lemma track_NoResample_ok:
  assumes "mIn t = Some inp"
  shows "\<exists>t1 out1 ab1. track_NoResample x mt to ti t out n ab = Inr (t1, out1, ab1)
           \<and> sameSetup t t1 \<and> length out1 = length out \<and> mIn t1 \<noteq> None"
proof -
  obtain t1 out1 ab1 where
    v: "volumeMix x mt (ti = T_float) True to ti t out n inp ab (needsRamp t) = (t1, out1, ab1)"
    by (metis prod_cases3)
  from volumeMix_sameSetup[OF v] have "sameSetup t t1" "length out1 = length out" by simp_all
  moreover have "sameSetup t1 (t1\<lparr>mIn := a\<rparr>)" for a by (simp add: sameSetup_def)
  ultimately show ?thesis
    using assms v sameSetup_trans by (fastforce simp: track_NoResample_def)
qed

lemma splice_length:
  "off + length new \<le> length old \<Longrightarrow> length (splice off new old) = length old"
  by (simp add: splice_def)

lemma splice_outside:
  "off + length new \<le> length old \<Longrightarrow> i < off \<or> off + length new \<le> i
    \<Longrightarrow> splice off new old ! i = old ! i"
  by (auto simp: splice_def nth_append)

lemma callHook_noResample:
  assumes h: "noResampleHook (hook (ms_track s))"
    and i: "mIn (ms_track s) \<noteq> None"
    and b: "off + n * mMixerChannelCount (ms_track s) * 4 \<le> length (ms_outTemp s)"
  shows "\<exists>s1. callHook x off n a s = Inr s1
           \<and> sameSetup (ms_track s) (ms_track s1)
           \<and> mIn (ms_track s1) \<noteq> None
           \<and> length (ms_outTemp s1) = length (ms_outTemp s)
           \<and> (\<forall>i. i < off \<or> off + n * mMixerChannelCount (ms_track s) * 4 \<le> i
                 \<longrightarrow> ms_outTemp s1 ! i = ms_outTemp s ! i)
           \<and> ms_aux s1 = ms_aux s \<and> ms_temp s1 = ms_temp s
           \<and> (a = 0 \<longrightarrow> ms_memory s1 = ms_memory s)
           \<and> (hook (ms_track s) = Track_nop \<longrightarrow> s1 = s)"
proof (cases "hook (ms_track s)")
  case Hook_NULL
  then show ?thesis using h by (simp add: noResampleHook_def)
next
  case Track_nop
  then show ?thesis using i by (simp add: callHook_def sameSetup_refl)
next
  case (Track_Resample mt to ti)
  then show ?thesis using h by (simp add: noResampleHook_def)
next
  case (Track_NoResample mt to ti)
  let ?len = "n * mMixerChannelCount (ms_track s) * 4"
  let ?out = "take ?len (drop off (ms_outTemp s))"
  let ?ab = "if a = 0 then None else Some (mem_read (ms_memory s) a (4 * n))"
  from i obtain inp where inp: "mIn (ms_track s) = Some inp" by auto
  from track_NoResample_ok[OF inp, of x mt to ti ?out n ?ab]
  obtain t1 out1 ab1 where
    r: "track_NoResample x mt to ti (ms_track s) ?out n ?ab = Inr (t1, out1, ab1)"
    and s1: "sameSetup (ms_track s) t1" and l: "length out1 = length ?out"
    and m: "mIn t1 \<noteq> None"
    by blast
  have l': "length out1 = ?len" using l b by simp
  have ab: "a = 0 \<Longrightarrow> ab1 = None"
    using r inp
    by (auto simp: track_NoResample_def volumeMix_def Let_def fitAux_def
        split: prod.splits if_splits)
  have "callHook x off n a s
      = Inr (s\<lparr>ms_track := t1, ms_outTemp := splice off out1 (ms_outTemp s),
               ms_memory := (case ab1 of None \<Rightarrow> ms_memory s
                             | Some a' \<Rightarrow> mem_write a a' (ms_memory s))\<rparr>)"
    using Track_NoResample r b by (simp add: callHook_def Let_def)
  then show ?thesis
    using s1 m l' b ab Track_NoResample by (auto simp: splice_length splice_outside)
qed

lemma refill_ok:
  assumes p: "bufferProvider (ms_track s) \<noteq> None"
  shows "\<exists>s' r. refill remaining fc n s = Inr (s', r)
           \<and> sameConfig (ms_track s) (ms_track s')
           \<and> ms_outTemp s' = ms_outTemp s \<and> ms_memory s' = ms_memory s
           \<and> ms_aux s' = ms_aux s \<and> ms_temp s' = ms_temp s
           \<and> (\<forall>n'. r = Some n' \<longrightarrow> n' = n)"
proof -
  from p obtain q where q: "bufferProvider (ms_track s) = Some q" by auto
  obtain p2 b2 where g: "getNextBuffer q
      (\<lparr>raw = None, frameCount = 0, aligned = True\<rparr>\<lparr>frameCount := remaining - (fc - n)\<rparr>)
      = (p2, b2)"
    by (metis surj_pair)
  have c: "sameConfig (ms_track s)
       ((ms_track s)\<lparr>bufferProvider := Some p2, buffer := b2, mIn := i', t_frameCount := c'\<rparr>)"
    "sameConfig (ms_track s)
       ((ms_track s)\<lparr>bufferProvider := Some p2, buffer := b2, mIn := i'\<rparr>)" for i' c'
    using q by (auto simp: sameConfig_def)
  show ?thesis
    using q g c by (simp add: refill_def Let_def releaseBuffer_def sameConfig_refl)
qed

lemma mixStep_ok:
  assumes h: "noResampleHook (hook (ms_track s))"
    and p: "bufferProvider (ms_track s) \<noteq> None"
    and b: "fc * mMixerChannelCount (ms_track s) * 4 \<le> length (ms_outTemp s)"
    and n: "n \<le> fc"
  shows "\<exists>s' r. mixStep x remaining fc n s = Inr (s', r)
           \<and> sameConfig (ms_track s) (ms_track s')
           \<and> length (ms_outTemp s') = length (ms_outTemp s)
           \<and> (\<forall>n'. r = Some n' \<longrightarrow> n' \<le> n)
           \<and> (ms_aux s = 0 \<longrightarrow> ms_aux s' = 0 \<and> ms_memory s' = ms_memory s)
           \<and> (hook (ms_track s) = Track_nop \<longrightarrow>
                 ms_outTemp s' = ms_outTemp s \<and> ms_memory s' = ms_memory s)"
proof (cases "mIn (ms_track s)")
  case None
  then show ?thesis by (simp add: mixStep_def sameConfig_refl)
next
  case (Some inp)
  define k where "k = (if t_frameCount (ms_track s) > n then n else t_frameCount (ms_track s))"
  let ?c = "mMixerChannelCount (ms_track s)"
  let ?off = "(fc - n) * ?c * 4"
  have E: "mixStep x remaining fc n s =
      (if k > 0 then
         (case callHook x ?off k (ms_aux s) s of
            Inl e \<Rightarrow> Inl e
          | Inr s1 \<Rightarrow>
              refill remaining fc (n - k)
                (s1\<lparr>ms_track := (ms_track s1)\<lparr>t_frameCount := t_frameCount (ms_track s1) - k\<rparr>,
                    ms_aux := (if ms_aux s1 \<noteq> 0 then ms_aux s1 + 4 * k else ms_aux s1)\<rparr>))
       else refill remaining fc n s)"
    unfolding mixStep_def k_def using Some by (simp add: Let_def)
  show ?thesis
  proof (cases "k > 0")
    case False
    from refill_ok[OF p, of remaining fc n]
    obtain s' r where "refill remaining fc n s = Inr (s', r)"
      "sameConfig (ms_track s) (ms_track s')" "ms_outTemp s' = ms_outTemp s"
      "ms_memory s' = ms_memory s" "ms_aux s' = ms_aux s" "\<forall>n'. r = Some n' \<longrightarrow> n' = n"
      by auto
    then show ?thesis using E False by auto
  next
    case True
    have kn: "k \<le> n" by (simp add: k_def)
    then have "fc - n + k \<le> fc" using n by linarith
    then have "(fc - n + k) * ?c \<le> fc * ?c" by (rule mult_le_mono1)
    then have bb: "?off + k * ?c * 4 \<le> length (ms_outTemp s)"
      using b by (simp add: algebra_simps)
    have i: "mIn (ms_track s) \<noteq> None" using Some by simp
    from callHook_noResample[OF h i bb, of x "ms_aux s"]
    obtain s0 where s0: "callHook x ?off k (ms_aux s) s = Inr s0"
      "sameSetup (ms_track s) (ms_track s0)" "length (ms_outTemp s0) = length (ms_outTemp s)"
      "ms_aux s0 = ms_aux s" "ms_aux s = 0 \<longrightarrow> ms_memory s0 = ms_memory s"
      "hook (ms_track s) = Track_nop \<longrightarrow> s0 = s"
      by auto
    define s1 where "s1 = s0\<lparr>ms_track := (ms_track s0)
                        \<lparr>t_frameCount := t_frameCount (ms_track s0) - k\<rparr>,
                      ms_aux := (if ms_aux s0 \<noteq> 0 then ms_aux s0 + 4 * k else ms_aux s0)\<rparr>"
    have c0: "sameConfig (ms_track s0) (ms_track s1)"
      by (simp add: s1_def sameConfig_stream)
    have c1: "sameConfig (ms_track s) (ms_track s1)"
      using sameSetup_sameConfig[OF s0(2)] c0 sameConfig_trans by blast
    have p1: "bufferProvider (ms_track s1) \<noteq> None"
      using sameSetup_fields(3)[OF s0(2)] p by (simp add: s1_def)
    from refill_ok[OF p1, of remaining fc "n - k"]
    obtain s' r where r: "refill remaining fc (n - k) s1 = Inr (s', r)"
      "sameConfig (ms_track s1) (ms_track s')" "ms_outTemp s' = ms_outTemp s1"
      "ms_memory s' = ms_memory s1" "ms_aux s' = ms_aux s1" "\<forall>n'. r = Some n' \<longrightarrow> n' = n - k"
      by auto
    have "mixStep x remaining fc n s = Inr (s', r)"
      using E True s0(1) r(1) by (simp add: s1_def)
    moreover have "sameConfig (ms_track s) (ms_track s')"
      using c1 r(2) sameConfig_trans by blast
    moreover have "length (ms_outTemp s') = length (ms_outTemp s)"
      using r(3) s0(3) by (simp add: s1_def)
    moreover have "\<forall>n'. r = Some n' \<longrightarrow> n' \<le> n" using r(6) by auto
    moreover have "ms_aux s = 0 \<longrightarrow> ms_aux s' = 0 \<and> ms_memory s' = ms_memory s"
      using r(4,5) s0(4,5) by (simp add: s1_def)
    moreover have "hook (ms_track s) = Track_nop \<longrightarrow>
        ms_outTemp s' = ms_outTemp s \<and> ms_memory s' = ms_memory s"
      using r(3,4) s0(6) by (auto simp: s1_def)
    ultimately show ?thesis
      by - (rule exI[of _ s'], rule exI[of _ r], simp)
  qed
qed

lemma mixLoop_ok:
  "noResampleHook (hook (ms_track s)) \<Longrightarrow> bufferProvider (ms_track s) \<noteq> None
    \<Longrightarrow> fc * mMixerChannelCount (ms_track s) * 4 \<le> length (ms_outTemp s) \<Longrightarrow> n \<le> fc
    \<Longrightarrow> \<exists>s'. mixLoop x remaining fc n s = Inr s'
           \<and> sameConfig (ms_track s) (ms_track s')
           \<and> length (ms_outTemp s') = length (ms_outTemp s)
           \<and> (ms_aux s = 0 \<longrightarrow> ms_memory s' = ms_memory s)
           \<and> (hook (ms_track s) = Track_nop \<longrightarrow>
                 ms_outTemp s' = ms_outTemp s \<and> ms_memory s' = ms_memory s)"
proof (induction x remaining fc n s rule: mixLoop.induct)
  case (1 x remaining fc n s)
  show ?case
  proof (cases "n = 0")
    case True
    then show ?thesis by (subst mixLoop.simps) (simp add: sameConfig_refl)
  next
    case False
    from mixStep_ok[OF "1.prems", of x remaining]
    obtain s1 r where st: "mixStep x remaining fc n s = Inr (s1, r)"
      and c: "sameConfig (ms_track s) (ms_track s1)"
      and l: "length (ms_outTemp s1) = length (ms_outTemp s)"
      and rn: "\<forall>n'. r = Some n' \<longrightarrow> n' \<le> n"
      and a: "ms_aux s = 0 \<longrightarrow> ms_aux s1 = 0 \<and> ms_memory s1 = ms_memory s"
      and q: "hook (ms_track s) = Track_nop \<longrightarrow>
                 ms_outTemp s1 = ms_outTemp s \<and> ms_memory s1 = ms_memory s"
      by auto
    show ?thesis
    proof (cases r)
      case None
      then show ?thesis
        using False st c l a q by (subst mixLoop.simps) simp
    next
      case (Some n1)
      note f = sameConfig_fields[OF c]
      have pre: "noResampleHook (hook (ms_track s1))" "bufferProvider (ms_track s1) \<noteq> None"
        "fc * mMixerChannelCount (ms_track s1) * 4 \<le> length (ms_outTemp s1)" "n1 \<le> fc"
        using "1.prems" f l rn Some by auto
      from "1.IH"[OF False st _ Some pre]
      obtain s' where s': "mixLoop x remaining fc n1 s1 = Inr s'"
        "sameConfig (ms_track s1) (ms_track s')"
        "length (ms_outTemp s') = length (ms_outTemp s1)"
        "ms_aux s1 = 0 \<longrightarrow> ms_memory s' = ms_memory s1"
        "hook (ms_track s1) = Track_nop \<longrightarrow>
           ms_outTemp s' = ms_outTemp s1 \<and> ms_memory s' = ms_memory s1"
        by auto
      have "mixLoop x remaining fc n s = Inr s'"
        using False st Some s'(1) by (subst mixLoop.simps) simp
      moreover have "sameConfig (ms_track s) (ms_track s')"
        using c s'(2) sameConfig_trans by blast
      ultimately show ?thesis
        using l a q s'(3,4,5) f(1) by auto
    qed
  qed
qed

lemma mixLoop_null: "mIn (ms_track s) = None \<Longrightarrow> mixLoop x remaining fc n s = Inr s"
  by (simp add: mixLoop.simps mixStep_def)

lemma mixTrack_ok:
  assumes t: "map_of (mTracks m) name = Some t" "wfTrack t"
    and l: "length ot = BLOCKSIZE * MAX_NUM_CHANNELS * 4" and fc: "fc \<le> BLOCKSIZE"
  shows "\<exists>m' ot'. mixTrack x nf fc name (m, ot) = Inr (m', ot')
           \<and> sameTracks m m' \<and> length ot' = length ot
           \<and> (needs t AND NEEDS_AUX = 0 \<longrightarrow> memory m' = memory m)
           \<and> (hook t = Track_nop \<or> mIn t = None \<longrightarrow> ot' = ot \<and> memory m' = memory m)
           \<and> (\<forall>t'. map_of (mTracks m') name = Some t' \<longrightarrow>
                 (mIn t = None \<longrightarrow> t' = t) \<and> hook t' = hook t)
           \<and> (\<forall>b. b \<noteq> name \<longrightarrow> map_of (mTracks m') b = map_of (mTracks m) b)"
proof -
  let ?aux = "if needs t AND NEEDS_AUX \<noteq> 0 then auxBuffer t + 4 * nf else 0"
  let ?s = "\<lparr>ms_track = t, ms_outTemp = ot, ms_temp = mResampleTemp m,
             ms_memory = memory m, ms_aux = ?aux\<rparr>"
  have "fc * mMixerChannelCount t \<le> BLOCKSIZE * MAX_NUM_CHANNELS"
    using fc t(2) by (simp add: wfTrack_def mult_le_mono)
  then have b: "fc * mMixerChannelCount (ms_track ?s) * 4 \<le> length (ms_outTemp ?s)"
    using l by simp
  have h: "noResampleHook (hook (ms_track ?s))" "bufferProvider (ms_track ?s) \<noteq> None"
    using t(2) by (simp_all add: wfTrack_def)
  from mixLoop_ok[OF h b order_refl, where x = x and remaining = "mFrameCount m - nf"]
  obtain s' where s': "mixLoop x (mFrameCount m - nf) fc fc ?s = Inr s'"
    "sameConfig t (ms_track s')" "length (ms_outTemp s') = length ot"
    "ms_aux ?s = 0 \<longrightarrow> ms_memory s' = memory m"
    "hook t = Track_nop \<longrightarrow> ms_outTemp s' = ot \<and> ms_memory s' = memory m"
    by auto
  have nl: "mIn t = None \<longrightarrow> s' = ?s"
    using s'(1) mixLoop_null[of ?s x "mFrameCount m - nf" fc fc] by auto
  have "mixTrack x nf fc name (m, ot)
      = Inr ((putTrack name (ms_track s') m)
               \<lparr>mResampleTemp := ms_temp s', memory := ms_memory s'\<rparr>, ms_outTemp s')"
    using t(1) s'(1) by (simp add: mixTrack_def)
  then show ?thesis
    using sameTracks_putTrack(1)[OF t(1) s'(2)] s'(3,4,5) nl sameConfig_fields(1)[OF s'(2)]
    by (auto simp: putTrack_def map_of_map_insert)
qed

lemma mixTracks_ok:
  assumes g: "groupOk m g"
    and l: "length ot = BLOCKSIZE * MAX_NUM_CHANNELS * 4" and fc: "fc \<le> BLOCKSIZE"
  shows "\<exists>m' ot'. foldE (mixTrack x nf fc) g (m, ot) = Inr (m', ot')
           \<and> sameTracks m m' \<and> length ot' = length ot"
proof -
  let ?I = "\<lambda>s :: AudioMixerBase \<times> byte list. groupOk (fst s) g \<and> length (snd s) = BLOCKSIZE * MAX_NUM_CHANNELS * 4"
  let ?R = "\<lambda>(s :: AudioMixerBase \<times> byte list) (s' :: AudioMixerBase \<times> byte list).
      sameTracks (fst s) (fst s') \<and> length (snd s') = length (snd s)"
  have "\<exists>s'. foldE (mixTrack x nf fc) g (m, ot) = Inr s' \<and> ?R (m, ot) s'"
  proof (rule foldE_rel[where I = ?I and R = ?R])
    fix a s assume a: "a \<in> set g" and i: "?I s"
    obtain m0 ot0 where s: "s = (m0, ot0)" by (cases s)
    obtain t where t: "map_of (mTracks m0) a = Some t" "wfTrack t"
      using a i by (auto simp: s groupOk_def)
    from mixTrack_ok[OF t _ fc, where ot = ot0 and x = x and nf = nf] i
    show "\<exists>s'. mixTrack x nf fc a s = Inr s' \<and> ?R s s'"
      by (auto simp: s)
  next
    fix s show "?R s s" by (simp add: sameTracks_refl)
  next
    fix s s' s'' assume "?R s s'" "?R s' s''"
    then show "?R s s''" using sameTracks_trans by auto
  next
    fix s s' assume "?I s" "?R s s'"
    then show "?I s'" using groupOk_sameTracks by auto
  next
    show "?I (m, ot)" using g l by simp
  qed
  then show ?thesis by auto
qed

lemma convertMixerFormat_ok:
  assumes "mMixerInFormat t = AUDIO_FORMAT_PCM_FLOAT"
    "mMixerFormat t = AUDIO_FORMAT_PCM_FLOAT \<or> mMixerFormat t = AUDIO_FORMAT_PCM_16_BIT"
    "out \<noteq> 0" "n * 4 \<le> length inp"
  shows "\<exists>mem'. convertMixerFormat x out (mMixerFormat t) inp (mMixerInFormat t) n mem = Inr mem'"
  using assms by (auto simp: convertMixerFormat_def store_def)

lemma blockLoop_ok:
  "groupOk m g \<Longrightarrow> g \<noteq> [] \<Longrightarrow> out \<noteq> 0
    \<Longrightarrow> \<exists>m'. blockLoop x mfc g out nf m = Inr m' \<and> sameTracks m m'"
proof (induction x mfc g out nf m rule: blockLoop.induct)
  case (1 x mfc g out nf m)
  define fc where "fc = min BLOCKSIZE (mfc - nf)"
  define ot where "ot = replicate (BLOCKSIZE * MAX_NUM_CHANNELS * 4) (0::byte)"
  have fcb: "fc \<le> BLOCKSIZE" by (simp add: fc_def)
  have lot: "length ot = BLOCKSIZE * MAX_NUM_CHANNELS * 4" by (simp add: ot_def)
  from mixTracks_ok[OF "1.prems"(1) lot fcb, where x = x and nf = nf]
  obtain m1 ot1 where f: "foldE (mixTrack x nf fc) g (m, ot) = Inr (m1, ot1)"
    and r1: "sameTracks m m1" and l1: "length ot1 = BLOCKSIZE * MAX_NUM_CHANNELS * 4"
    using lot by auto
  obtain name0 rest where g: "g = name0 # rest" using "1.prems"(2) by (cases g) auto
  have ok1: "groupOk m1 g" using groupOk_sameTracks[OF r1 "1.prems"(1)] .
  then obtain t1 where t1: "map_of (mTracks m1) name0 = Some t1" "wfTrack t1"
    by (auto simp: groupOk_def g)
  have "fc * mMixerChannelCount t1 \<le> BLOCKSIZE * MAX_NUM_CHANNELS"
    using t1(2) fcb by (simp add: wfTrack_def mult_le_mono)
  then have b: "fc * mMixerChannelCount t1 * 4 \<le> length ot1" using l1 by simp
  have fmt: "mMixerInFormat t1 = AUDIO_FORMAT_PCM_FLOAT"
    "mMixerFormat t1 = AUDIO_FORMAT_PCM_FLOAT \<or> mMixerFormat t1 = AUDIO_FORMAT_PCM_16_BIT"
    using t1(2) by (simp_all add: wfTrack_def)
  from convertMixerFormat_ok[OF fmt "1.prems"(3) b, where x = x and mem = "memory m1"]
  obtain mem where c: "convertMixerFormat x out (mMixerFormat t1) ot1 (mMixerInFormat t1)
      (fc * mMixerChannelCount t1) (memory m1) = Inr mem"
    by auto
  have r2: "sameTracks m (m1\<lparr>memory := mem\<rparr>)"
    using r1 sameTracks_memory sameTracks_trans by blast
  let ?out1 = "out + fc * mMixerChannelCount t1 * audio_bytes_per_sample (mMixerFormat t1)"
  have E: "blockLoop x mfc g out nf m =
      (if nf + fc < mfc then blockLoop x mfc g ?out1 (nf + fc) (m1\<lparr>memory := mem\<rparr>)
       else Inr (m1\<lparr>memory := mem\<rparr>))"
    apply (subst blockLoop.simps)
    apply (simp only: Let_def fc_def[symmetric] ot_def[symmetric] f)
    apply (simp add: g t1(1) c)
    done
  show ?case
  proof (cases "nf + fc < mfc")
    case False
    then show ?thesis using E r2 by simp
  next
    case True
    have ok2: "groupOk (m1\<lparr>memory := mem\<rparr>) g"
      using groupOk_sameTracks[OF r2 "1.prems"(1)] .
    have o: "?out1 \<noteq> 0" using "1.prems"(3) by simp
    have f': "foldE (mixTrack x nf fc) g
        (m, replicate (BLOCKSIZE * MAX_NUM_CHANNELS * 4) 0) = Inr (m1, ot1)"
      using f by (simp add: ot_def)
    from "1.IH"[OF fc_def f' refl g t1(1) c True ok2 "1.prems"(2) o]
    obtain m' where m': "blockLoop x mfc g ?out1 (nf + fc) (m1\<lparr>memory := mem\<rparr>) = Inr m'"
      "sameTracks (m1\<lparr>memory := mem\<rparr>) m'"
      by auto
    then show ?thesis using E True r2 sameTracks_trans by auto
  qed
qed

lemma acquire_track_ok:
  assumes "bufferProvider t \<noteq> None"
  shows "\<exists>t'. acquire_track n t = Inr t' \<and> sameConfig t t'"
proof -
  from assms obtain p where p: "bufferProvider t = Some p" by auto
  obtain p1 b1 where g: "getNextBuffer p ((buffer t)\<lparr>frameCount := n\<rparr>) = (p1, b1)"
    by (metis surj_pair)
  have "sameConfig t (t\<lparr>bufferProvider := Some p1, buffer := b1,
      t_frameCount := frameCount b1 mod 65536, mIn := raw b1\<rparr>)"
    using p by (simp add: sameConfig_stream)
  then show ?thesis using p g by (simp add: acquire_track_def)
qed

lemma release_track_ok:
  assumes "bufferProvider t \<noteq> None"
  shows "\<exists>t'. release_track t = Inr t' \<and> sameConfig t t'"
proof -
  from assms obtain p where p: "bufferProvider t = Some p" by auto
  have "sameConfig t (t\<lparr>bufferProvider := Some p,
      buffer := \<lparr>raw = None, frameCount = 0, aligned = True\<rparr>\<rparr>)"
    using p by (simp add: sameConfig_stream)
  then show ?thesis using p by (simp add: release_track_def releaseBuffer_def)
qed

lemma withTracks_ok:
  assumes f: "\<And>t. bufferProvider t \<noteq> None \<Longrightarrow> \<exists>t'. f t = Inr t' \<and> sameConfig t t'"
    and g: "groupOk m g"
  shows "\<exists>m'. foldE (\<lambda>name. withTrack name f) g m = Inr m' \<and> sameTracks m m'"
proof (rule foldE_rel[where I = "\<lambda>m. groupOk m g" and R = sameTracks])
  fix a s assume a: "a \<in> set g" and i: "groupOk s g"
  then obtain t where t: "map_of (mTracks s) a = Some t" "wfTrack t"
    by (auto simp: groupOk_def)
  then have "bufferProvider t \<noteq> None" by (simp add: wfTrack_def)
  from f[OF this] obtain t' where t': "f t = Inr t'" "sameConfig t t'" by auto
  show "\<exists>s'. withTrack a f s = Inr s' \<and> sameTracks s s'"
    using t(1) t' sameTracks_putTrack(2)[OF t(1) t'(2)] by (simp add: withTrack_def)
next
  fix s show "sameTracks s s" by (rule sameTracks_refl)
next
  fix s s' s'' assume "sameTracks s s'" "sameTracks s' s''"
  then show "sameTracks s s''" by (rule sameTracks_trans)
next
  fix s s' assume "groupOk s g" "sameTracks s s'"
  then show "groupOk s' g" using groupOk_sameTracks by blast
next
  show "groupOk m g" by (rule g)
qed

lemma genericNoResampling_group_ok:
  assumes "fst pair \<noteq> 0" "snd pair \<noteq> []" "groupOk m (snd pair)"
  shows "\<exists>m'. genericNoResampling_group x pair m = Inr m' \<and> sameTracks m m'"
proof -
  have acq: "\<And>t. bufferProvider t \<noteq> None
      \<Longrightarrow> \<exists>t'. acquire_track (mFrameCount m) t = Inr t' \<and> sameConfig t t'"
    by (rule acquire_track_ok)
  from withTracks_ok[OF acq assms(3)]
  obtain m1 where m1:
    "foldE (\<lambda>name. withTrack name (acquire_track (mFrameCount m))) (snd pair) m = Inr m1"
    "sameTracks m m1"
    by auto
  have ok1: "groupOk m1 (snd pair)" using groupOk_sameTracks[OF m1(2) assms(3)] .
  from blockLoop_ok[OF ok1 assms(2,1), where x = x and mfc = "mFrameCount m1" and nf = 0]
  obtain m2 where m2: "blockLoop x (mFrameCount m1) (snd pair) (fst pair) 0 m1 = Inr m2"
    "sameTracks m1 m2"
    by auto
  have ok2: "groupOk m2 (snd pair)" using groupOk_sameTracks[OF m2(2) ok1] .
  from withTracks_ok[OF release_track_ok ok2]
  obtain m3 where m3: "foldE (\<lambda>name. withTrack name release_track) (snd pair) m2 = Inr m3"
    "sameTracks m2 m3"
    by auto
  have "genericNoResampling_group x pair m = Inr m3"
    using m1(1) m2(1) m3(1) by (simp add: genericNoResampling_group_def)
  then show ?thesis using m1(2) m2(2) m3(2) sameTracks_trans by blast
qed

lemma process_genericNoResampling_ok:
  assumes "wfMixer m"
  shows "\<exists>m'. process_genericNoResampling x m = Inr m' \<and> sameTracks m m'"
  unfolding process_genericNoResampling_def
proof (rule foldE_rel[where I = "\<lambda>s. sameTracks m s" and R = sameTracks])
  fix a s assume a: "a \<in> set (mGroups m)" and i: "sameTracks m s"
  have "fst a \<noteq> 0" "snd a \<noteq> []" "groupOk m (snd a)"
    using assms a by (auto simp: wfMixer_def)
  then show "\<exists>s'. genericNoResampling_group x a s = Inr s' \<and> sameTracks s s'"
    using genericNoResampling_group_ok groupOk_sameTracks[OF i] by blast
next
  fix s show "sameTracks s s" by (rule sameTracks_refl)
next
  fix s s' s'' assume "sameTracks s s'" "sameTracks s' s''"
  then show "sameTracks s s''" by (rule sameTracks_trans)
next
  fix s s' assume "sameTracks m s" "sameTracks s s'"
  then show "sameTracks m s'" by (rule sameTracks_trans)
next
  show "sameTracks m m" by (rule sameTracks_refl)
qed

lemma keepsIdle_refl: "keepsIdle m m"
  by (simp add: keepsIdle_def sameTracks_refl)

lemma keepsIdle_trans:
  assumes "keepsIdle m m'" "keepsIdle m' m''"
  shows "keepsIdle m m''"
proof -
  have s: "sameTracks m m''" using assms sameTracks_trans by (auto simp: keepsIdle_def)
  have "(idle t \<longrightarrow> idle t'') \<and> (mIn t = None \<longrightarrow> t'' = t)"
    if a: "map_of (mTracks m) name = Some t" "map_of (mTracks m'') name = Some t''"
    for name t t''
  proof -
    have s1: "sameTracks m m'" using assms(1) by (simp add: keepsIdle_def)
    obtain t' where t': "map_of (mTracks m') name = Some t'"
      using sameTracks_lookup[OF s1 a(1)] by auto
    have 1: "(idle t \<longrightarrow> idle t') \<and> (mIn t = None \<longrightarrow> t' = t)"
      using assms(1) a(1) t' by (simp add: keepsIdle_def)
    have 2: "(idle t' \<longrightarrow> idle t'') \<and> (mIn t' = None \<longrightarrow> t'' = t')"
      using assms(2) a(2) t' by (simp add: keepsIdle_def)
    show ?thesis using 1 2 by auto
  qed
  then show ?thesis using s by (simp add: keepsIdle_def)
qed

lemma groupIdle_keepsIdle:
  assumes "keepsIdle m m'" "groupIdle m g"
  shows "groupIdle m' g"
  unfolding groupIdle_def
proof
  fix name assume "name \<in> set g"
  then obtain t where t: "map_of (mTracks m) name = Some t" "idle t"
    using assms(2) by (auto simp: groupIdle_def)
  have s1: "sameTracks m m'" using assms(1) by (simp add: keepsIdle_def)
  obtain t' where t': "map_of (mTracks m') name = Some t'"
    using sameTracks_lookup[OF s1 t(1)] by auto
  then have "idle t'" using assms(1) t by (simp add: keepsIdle_def)
  then show "\<exists>t. map_of (mTracks m') name = Some t \<and> idle t" using t' by auto
qed

lemma mixTrack_idle:
  assumes t: "map_of (mTracks m) name = Some t" "wfTrack t" "idle t"
    and l: "length ot = BLOCKSIZE * MAX_NUM_CHANNELS * 4" and fc: "fc \<le> BLOCKSIZE"
  shows "\<exists>m'. mixTrack x nf fc name (m, ot) = Inr (m', ot)
           \<and> keepsIdle m m' \<and> memory m' = memory m"
proof -
  from mixTrack_ok[OF t(1,2) l fc, where x = x and nf = nf]
  obtain m' ot' where r: "mixTrack x nf fc name (m, ot) = Inr (m', ot')"
    "sameTracks m m'"
    "hook t = Track_nop \<or> mIn t = None \<longrightarrow> ot' = ot \<and> memory m' = memory m"
    "\<forall>t'. map_of (mTracks m') name = Some t' \<longrightarrow>
        (mIn t = None \<longrightarrow> t' = t) \<and> hook t' = hook t"
    "\<forall>b. b \<noteq> name \<longrightarrow> map_of (mTracks m') b = map_of (mTracks m) b"
    by auto
  have "(idle u \<longrightarrow> idle u') \<and> (mIn u = None \<longrightarrow> u' = u)"
    if a: "map_of (mTracks m) b = Some u" "map_of (mTracks m') b = Some u'" for b u u'
  proof (cases "b = name")
    case True
    then show ?thesis using a t r(4) by (auto simp: idle_def)
  next
    case False
    then show ?thesis using a r(5) by auto
  qed
  then have "keepsIdle m m'" using r(2) by (simp add: keepsIdle_def)
  then show ?thesis using r(1,3) t(3) by (auto simp: idle_def)
qed

lemma mixTracks_idle:
  assumes g: "groupOk m g" "groupIdle m g"
    and l: "length ot = BLOCKSIZE * MAX_NUM_CHANNELS * 4" and fc: "fc \<le> BLOCKSIZE"
  shows "\<exists>m'. foldE (mixTrack x nf fc) g (m, ot) = Inr (m', ot)
           \<and> keepsIdle m m' \<and> memory m' = memory m"
proof -
  let ?I = "\<lambda>s :: AudioMixerBase \<times> byte list.
      groupOk (fst s) g \<and> groupIdle (fst s) g \<and> snd s = ot"
  let ?R = "\<lambda>(s :: AudioMixerBase \<times> byte list) (s' :: AudioMixerBase \<times> byte list).
      keepsIdle (fst s) (fst s') \<and> snd s' = snd s \<and> memory (fst s') = memory (fst s)"
  have "\<exists>s'. foldE (mixTrack x nf fc) g (m, ot) = Inr s' \<and> ?R (m, ot) s'"
  proof (rule foldE_rel[where I = ?I and R = ?R])
    fix a s assume a: "a \<in> set g" and i: "?I s"
    obtain m0 where s: "s = (m0, ot)" using i by (cases s) auto
    obtain t where t1: "map_of (mTracks m0) a = Some t" "wfTrack t"
      using a i by (auto simp: s groupOk_def)
    obtain u where "map_of (mTracks m0) a = Some u" "idle u"
      using a i by (auto simp: s groupIdle_def)
    then have "idle t" using t1(1) by simp
    note t = t1 this
    from mixTrack_idle[OF t l fc, where x = x and nf = nf]
    show "\<exists>s'. mixTrack x nf fc a s = Inr s' \<and> ?R s s'"
      by (auto simp: s)
  next
    fix s show "?R s s" by (simp add: keepsIdle_refl)
  next
    fix s s' s'' assume "?R s s'" "?R s' s''"
    then show "?R s s''" using keepsIdle_trans by auto
  next
    fix s s' assume "?I s" "?R s s'"
    then show "?I s'"
      using groupOk_sameTracks groupIdle_keepsIdle by (auto simp: keepsIdle_def)
  next
    show "?I (m, ot)" using g by simp
  qed
  then show ?thesis by auto
qed

lemma zeroed_zeroed: "zeroed (a + n) k (zeroed a n mem) = zeroed a (n + k) mem"
  by (auto simp: zeroed_def fun_eq_iff)

lemma zeroed_0: "zeroed a 0 mem = mem"
  by (auto simp: zeroed_def fun_eq_iff)

lemma mem_write_zeros: "mem_write a (replicate n 0) mem = zeroed a n mem"
  by (auto simp: mem_write_def zeroed_def fun_eq_iff)

lemma convert_zeros:
  assumes "mMixerInFormat t = AUDIO_FORMAT_PCM_FLOAT"
    "mMixerFormat t = AUDIO_FORMAT_PCM_FLOAT \<or> mMixerFormat t = AUDIO_FORMAT_PCM_16_BIT"
    "zeroConversion x (mMixerFormat t)"
    "out \<noteq> 0" "n * 4 \<le> k"
  shows "convertMixerFormat x out (mMixerFormat t) (replicate k 0) (mMixerInFormat t) n mem
     = Inr (zeroed out (n * audio_bytes_per_sample (mMixerFormat t)) mem)"
proof -
  have tk: "take (n * 4) (replicate k (0::byte)) = replicate (n * 4) 0"
    using assms(5) by (simp add: min_def)
  show ?thesis
    using assms(1-4) tk
    by (auto simp: convertMixerFormat_def store_def mem_write_zeros audio_bytes_per_sample_def
        zeroConversion_def fit_def)
qed

lemma blockLoop_idle:
  "groupOk m g \<Longrightarrow> groupIdle m g \<Longrightarrow> g = name0 # rest \<Longrightarrow> out \<noteq> 0
    \<Longrightarrow> map_of (mTracks m) name0 = Some t0 \<Longrightarrow> zeroConversion x (mMixerFormat t0)
    \<Longrightarrow> \<exists>m'. blockLoop x mfc g out nf m = Inr m' \<and> keepsIdle m m'
          \<and> memory m' = zeroed out ((mfc - nf) * mMixerChannelCount t0
                                      * audio_bytes_per_sample (mMixerFormat t0)) (memory m)"
proof (induction x mfc g out nf m arbitrary: t0 rule: blockLoop.induct)
  case (1 x mfc g out nf m)
  define fc where "fc = min BLOCKSIZE (mfc - nf)"
  define ot where "ot = replicate (BLOCKSIZE * MAX_NUM_CHANNELS * 4) (0::byte)"
  have fcb: "fc \<le> BLOCKSIZE" by (simp add: fc_def)
  have lot: "length ot = BLOCKSIZE * MAX_NUM_CHANNELS * 4" by (simp add: ot_def)
  from mixTracks_idle[OF "1.prems"(1,2) lot fcb, where x = x and nf = nf]
  obtain m1 where f: "foldE (mixTrack x nf fc) g (m, ot) = Inr (m1, ot)"
    and r1: "keepsIdle m m1" and me1: "memory m1 = memory m"
    by auto
  have s1: "sameTracks m m1" using r1 by (simp add: keepsIdle_def)
  note g = "1.prems"(3)
  from sameTracks_lookup[OF s1 "1.prems"(5)]
  obtain t1 where t1: "map_of (mTracks m1) name0 = Some t1" "sameConfig t0 t1" by auto
  note c1 = sameConfig_fields[OF t1(2)]
  have w0: "wfTrack t0" using "1.prems"(1,5) by (auto simp: groupOk_def g)
  have w1: "wfTrack t1" using wfTrack_sameConfig[OF t1(2) w0] .
  have "fc * mMixerChannelCount t1 \<le> BLOCKSIZE * MAX_NUM_CHANNELS"
    using w1 fcb by (simp add: wfTrack_def mult_le_mono)
  then have b: "fc * mMixerChannelCount t1 * 4 \<le> BLOCKSIZE * MAX_NUM_CHANNELS * 4" by simp
  have fmt: "mMixerInFormat t1 = AUDIO_FORMAT_PCM_FLOAT"
    "mMixerFormat t1 = AUDIO_FORMAT_PCM_FLOAT \<or> mMixerFormat t1 = AUDIO_FORMAT_PCM_16_BIT"
    using w1 by (simp_all add: wfTrack_def)
  have z1: "zeroConversion x (mMixerFormat t1)" using "1.prems"(6) c1(4) by simp
  let ?bpf = "mMixerChannelCount t0 * audio_bytes_per_sample (mMixerFormat t0)"
  define mem where "mem = zeroed out (fc * ?bpf) (memory m)"
  have c: "convertMixerFormat x out (mMixerFormat t1) ot (mMixerInFormat t1)
      (fc * mMixerChannelCount t1) (memory m1) = Inr mem"
    using convert_zeros[OF fmt z1 "1.prems"(4) b, where mem = "memory m1"]
    by (simp add: ot_def mem_def me1 c1 mult.assoc)
  have r2: "keepsIdle m (m1\<lparr>memory := mem\<rparr>)"
  proof -
    have "keepsIdle m1 (m1\<lparr>memory := mem\<rparr>)"
      by (simp add: keepsIdle_def sameTracks_memory)
    then show ?thesis using r1 keepsIdle_trans by blast
  qed
  let ?out1 = "out + fc * mMixerChannelCount t1 * audio_bytes_per_sample (mMixerFormat t1)"
  have E: "blockLoop x mfc g out nf m =
      (if nf + fc < mfc then blockLoop x mfc g ?out1 (nf + fc) (m1\<lparr>memory := mem\<rparr>)
       else Inr (m1\<lparr>memory := mem\<rparr>))"
    apply (subst blockLoop.simps)
    apply (simp only: Let_def fc_def[symmetric] ot_def[symmetric] f)
    apply (simp add: g t1(1) c)
    done
  show ?case
  proof (cases "nf + fc < mfc")
    case False
    then have "fc = mfc - nf" by (auto simp: fc_def min_def)
    then show ?thesis using E False r2 by (simp add: mem_def mult.assoc)
  next
    case True
    have ok2: "groupOk (m1\<lparr>memory := mem\<rparr>) g"
      using groupOk_sameTracks[OF _ "1.prems"(1)] r2 by (simp add: keepsIdle_def)
    have id2: "groupIdle (m1\<lparr>memory := mem\<rparr>) g"
      using groupIdle_keepsIdle[OF r2 "1.prems"(2)] .
    have o: "?out1 \<noteq> 0" using "1.prems"(4) by simp
    have f': "foldE (mixTrack x nf fc) g
        (m, replicate (BLOCKSIZE * MAX_NUM_CHANNELS * 4) 0) = Inr (m1, ot)"
      using f by (simp add: ot_def)
    have l2: "map_of (mTracks (m1\<lparr>memory := mem\<rparr>)) name0 = Some t1" using t1(1) by simp
    from "1.IH"[OF fc_def f' refl g t1(1) c True ok2 id2 g o l2 z1]
    obtain m' where m': "blockLoop x mfc g ?out1 (nf + fc) (m1\<lparr>memory := mem\<rparr>) = Inr m'"
      "keepsIdle (m1\<lparr>memory := mem\<rparr>) m'"
      "memory m' = zeroed ?out1 ((mfc - (nf + fc)) * mMixerChannelCount t1
                                  * audio_bytes_per_sample (mMixerFormat t1)) mem"
      by auto
    have fcle: "fc \<le> mfc - nf" by (simp add: fc_def)
    have "memory m' = zeroed out ((mfc - nf) * ?bpf) (memory m)"
    proof -
      have "memory m' = zeroed (out + fc * ?bpf) ((mfc - (nf + fc)) * ?bpf)
          (zeroed out (fc * ?bpf) (memory m))"
        using m'(3) by (simp add: mem_def c1 mult.assoc)
      also have "\<dots> = zeroed out (fc * ?bpf + (mfc - (nf + fc)) * ?bpf) (memory m)"
        by (rule zeroed_zeroed)
      also have "fc * ?bpf + (mfc - (nf + fc)) * ?bpf = (mfc - nf) * ?bpf"
      proof -
        have "fc + (mfc - (nf + fc)) = mfc - nf" using fcle by arith
        then show ?thesis by (simp add: add_mult_distrib[symmetric])
      qed
      finally show ?thesis .
    qed
    moreover have "keepsIdle m m'" using keepsIdle_trans[OF r2 m'(2)] .
    ultimately show ?thesis using E True m'(1) by (simp add: mult.assoc)
  qed
qed

lemma noData_next:
  "noData p \<Longrightarrow> getNextBuffer p b = (tl p, \<lparr>raw = None, frameCount = 0, aligned = True\<rparr>)"
  by (auto simp: noData_def getNextBuffer_def split: list.splits response.splits)

lemma acquire_starved:
  assumes "bufferProvider t = Some p" "noData p"
  shows "acquire_track n t = Inr (starved p t)"
  using assms by (simp add: acquire_track_def noData_next starved_def)

lemma release_starved:
  assumes "bufferProvider t = Some p"
  shows "release_track (starved p t) = Inr (starved p t)"
  by (simp add: release_track_def releaseBuffer_def starved_def)

lemma acquire_silent:
  assumes "silent t" "bufferProvider t \<noteq> None"
  shows "\<exists>t'. acquire_track n t = Inr t' \<and> sameConfig t t' \<and> idle t'
           \<and> (\<forall>p. bufferProvider t = Some p \<longrightarrow> noData p \<longrightarrow> t' = starved p t)"
proof -
  from acquire_track_ok[OF assms(2), of n]
  obtain t' where t': "acquire_track n t = Inr t'" "sameConfig t t'" by auto
  have s: "\<forall>p. bufferProvider t = Some p \<longrightarrow> noData p \<longrightarrow> t' = starved p t"
    using t'(1) acquire_starved[of t _ n] by auto
  have "idle t'"
  proof (cases "hook t = Track_nop")
    case True
    then show ?thesis using sameConfig_fields(1)[OF t'(2)] by (simp add: idle_def)
  next
    case False
    then obtain p where "bufferProvider t = Some p" "noData p"
      using assms(1) by (auto simp: silent_def split: option.splits)
    then have "t' = starved p t" using s by simp
    then show ?thesis by (simp add: idle_def starved_def)
  qed
  then show ?thesis using t' s by auto
qed

lemma withTracks_frame:
  "foldE (\<lambda>name. withTrack name f) g m = Inr m'
    \<Longrightarrow> memory m' = memory m \<and> (\<forall>b. b \<notin> set g \<longrightarrow> map_of (mTracks m') b = map_of (mTracks m) b)"
proof (induction g arbitrary: m)
  case Nil
  then show ?case by simp
next
  case (Cons a g)
  from Cons.prems obtain m0 where m0: "withTrack a f m = Inr m0"
    "foldE (\<lambda>name. withTrack name f) g m0 = Inr m'"
    by (auto split: sum.splits)
  have f0: "memory m0 = memory m" "\<forall>b. b \<noteq> a \<longrightarrow> map_of (mTracks m0) b = map_of (mTracks m) b"
    using m0(1)
    by (auto simp: withTrack_def putTrack_def map_of_map_insert split: option.splits sum.splits)
  show ?case using Cons.IH[OF m0(2)] f0 by auto
qed

lemma acquire_fold_silent:
  "groupOk m g \<Longrightarrow> distinct g
    \<Longrightarrow> \<forall>name \<in> set g. \<exists>t. map_of (mTracks m) name = Some t \<and> silent t
    \<Longrightarrow> \<exists>m1. foldE (\<lambda>name. withTrack name (acquire_track n)) g m = Inr m1
          \<and> sameTracks m m1 \<and> memory m1 = memory m \<and> groupIdle m1 g
          \<and> (\<forall>name \<in> set g. \<forall>t p. map_of (mTracks m) name = Some t
                \<longrightarrow> bufferProvider t = Some p \<longrightarrow> noData p
                \<longrightarrow> map_of (mTracks m1) name = Some (starved p t))"
proof (induction g arbitrary: m)
  case Nil
  then show ?case by (simp add: sameTracks_refl groupIdle_def)
next
  case (Cons a g)
  obtain t where t: "map_of (mTracks m) a = Some t" "wfTrack t"
    using Cons.prems(1) by (auto simp: groupOk_def)
  obtain u where "map_of (mTracks m) a = Some u" "silent u"
    using Cons.prems(3) by auto
  then have si: "silent t" using t(1) by simp
  have bp: "bufferProvider t \<noteq> None" using t(2) by (simp add: wfTrack_def)
  from acquire_silent[OF si bp, of n]
  obtain t' where t': "acquire_track n t = Inr t'" "sameConfig t t'" "idle t'"
    "\<forall>p. bufferProvider t = Some p \<longrightarrow> noData p \<longrightarrow> t' = starved p t"
    by auto
  define m0 where "m0 = putTrack a t' m"
  have w: "withTrack a (acquire_track n) m = Inr m0"
    using t(1) t'(1) by (simp add: withTrack_def m0_def)
  have s0: "sameTracks m m0" unfolding m0_def by (rule sameTracks_putTrack(2)[OF t(1) t'(2)])
  have me0: "memory m0 = memory m" by (simp add: m0_def putTrack_def)
  have la: "map_of (mTracks m0) a = Some t'" by (simp add: m0_def putTrack_def map_of_map_insert)
  have lo: "map_of (mTracks m0) b = map_of (mTracks m) b" if "b \<noteq> a" for b
    using that by (simp add: m0_def putTrack_def map_of_map_insert)
  have ag: "a \<notin> set g" and dg: "distinct g" using Cons.prems(2) by auto
  have ok0: "groupOk m0 g"
    using groupOk_sameTracks[OF s0 Cons.prems(1)] by (simp add: groupOk_def)
  have si0: "\<forall>name \<in> set g. \<exists>t. map_of (mTracks m0) name = Some t \<and> silent t"
  proof
    fix name assume n: "name \<in> set g"
    then have "name \<noteq> a" using ag by auto
    then show "\<exists>t. map_of (mTracks m0) name = Some t \<and> silent t"
      using lo Cons.prems(3) n by auto
  qed
  from Cons.IH[OF ok0 dg si0]
  obtain m1 where m1: "foldE (\<lambda>name. withTrack name (acquire_track n)) g m0 = Inr m1"
    "sameTracks m0 m1" "memory m1 = memory m0" "groupIdle m1 g"
    "\<forall>name \<in> set g. \<forall>t p. map_of (mTracks m0) name = Some t
        \<longrightarrow> bufferProvider t = Some p \<longrightarrow> noData p
        \<longrightarrow> map_of (mTracks m1) name = Some (starved p t)"
    by auto
  have la1: "map_of (mTracks m1) a = Some t'"
    using withTracks_frame[OF m1(1)] ag la by simp
  have r: "foldE (\<lambda>name. withTrack name (acquire_track n)) (a # g) m = Inr m1"
    using w m1(1) by simp
  have gi: "groupIdle m1 (a # g)"
    using m1(4) la1 t'(3) by (simp add: groupIdle_def)
  have st: "\<forall>name \<in> set (a # g). \<forall>t p. map_of (mTracks m) name = Some t
        \<longrightarrow> bufferProvider t = Some p \<longrightarrow> noData p
        \<longrightarrow> map_of (mTracks m1) name = Some (starved p t)"
  proof (intro ballI allI impI)
    fix name u p
    assume n: "name \<in> set (a # g)" and u: "map_of (mTracks m) name = Some u"
      "bufferProvider u = Some p" "noData p"
    show "map_of (mTracks m1) name = Some (starved p u)"
    proof (cases "name = a")
      case True
      then have "u = t" using u(1) t(1) by simp
      then show ?thesis using True la1 t'(4) u(2,3) by simp
    next
      case False
      then have "name \<in> set g" using n by simp
      moreover have "map_of (mTracks m0) name = Some u" using lo[OF False] u(1) by simp
      ultimately show ?thesis using m1(5) u(2,3) by blast
    qed
  qed
  show ?case
    using r sameTracks_trans[OF s0 m1(2)] m1(3) me0 gi st
    by - (rule exI[of _ m1], simp)
qed

lemma release_fold:
  assumes g: "groupOk m g"
  shows "\<exists>m'. foldE (\<lambda>name. withTrack name release_track) g m = Inr m'
          \<and> sameTracks m m' \<and> memory m' = memory m
          \<and> (\<forall>name t. map_of (mTracks m) name = Some t \<longrightarrow> release_track t = Inr t
                \<longrightarrow> map_of (mTracks m') name = Some t)"
proof -
  let ?R = "\<lambda>(s :: AudioMixerBase) (s' :: AudioMixerBase).
      sameTracks s s' \<and> memory s' = memory s
      \<and> (\<forall>name t. map_of (mTracks s) name = Some t \<longrightarrow> release_track t = Inr t
            \<longrightarrow> map_of (mTracks s') name = Some t)"
  show ?thesis
  proof (rule foldE_rel[where I = "\<lambda>s. groupOk s g" and R = ?R])
    fix a s assume a: "a \<in> set g" and i: "groupOk s g"
    then obtain t where t: "map_of (mTracks s) a = Some t" "wfTrack t"
      by (auto simp: groupOk_def)
    then have "bufferProvider t \<noteq> None" by (simp add: wfTrack_def)
    from release_track_ok[OF this] obtain t' where t': "release_track t = Inr t'" "sameConfig t t'"
      by auto
    have w: "withTrack a release_track s = Inr (putTrack a t' s)"
      using t(1) t'(1) by (simp add: withTrack_def)
    have "?R s (putTrack a t' s)"
      using sameTracks_putTrack(2)[OF t(1) t'(2)] t(1) t'(1)
      by (auto simp: putTrack_def map_of_map_insert)
    then show "\<exists>s'. withTrack a release_track s = Inr s' \<and> ?R s s'" using w by simp
  next
    fix s show "?R s s" by (simp add: sameTracks_refl)
  next
    fix s s' s'' assume "?R s s'" "?R s' s''"
    then show "?R s s''" using sameTracks_trans by auto
  next
    fix s s' assume "groupOk s g" "?R s s'"
    then show "groupOk s' g" using groupOk_sameTracks by blast
  next
    show "groupOk m g" by (rule g)
  qed
qed

lemma genericNoResampling_group_silent:
  assumes k: "key \<noteq> 0" and g: "g = name0 # rest" "groupOk m g" "distinct g"
    and si: "\<forall>name \<in> set g. \<exists>t. map_of (mTracks m) name = Some t \<and> silent t"
    and t0: "map_of (mTracks m) name0 = Some t0" "zeroConversion x (mMixerFormat t0)"
  shows "\<exists>m'. genericNoResampling_group x (key, g) m = Inr m' \<and> sameTracks m m'
          \<and> memory m' = zeroed key (mFrameCount m * mMixerChannelCount t0
                                      * audio_bytes_per_sample (mMixerFormat t0)) (memory m)
          \<and> (\<forall>name \<in> set g. \<forall>t p. map_of (mTracks m) name = Some t
                \<longrightarrow> bufferProvider t = Some p \<longrightarrow> noData p
                \<longrightarrow> map_of (mTracks m') name = Some (starved p t))"
proof -
  from acquire_fold_silent[OF g(2,3) si, of "mFrameCount m"]
  obtain m1 where m1:
    "foldE (\<lambda>name. withTrack name (acquire_track (mFrameCount m))) g m = Inr m1"
    "sameTracks m m1" "memory m1 = memory m" "groupIdle m1 g"
    "\<forall>name \<in> set g. \<forall>t p. map_of (mTracks m) name = Some t
        \<longrightarrow> bufferProvider t = Some p \<longrightarrow> noData p
        \<longrightarrow> map_of (mTracks m1) name = Some (starved p t)"
    by auto
  have ok1: "groupOk m1 g" using groupOk_sameTracks[OF m1(2) g(2)] .
  from sameTracks_lookup[OF m1(2) t0(1)]
  obtain t1 where t1: "map_of (mTracks m1) name0 = Some t1" "sameConfig t0 t1" by auto
  note c1 = sameConfig_fields[OF t1(2)]
  have z1: "zeroConversion x (mMixerFormat t1)" using t0(2) c1(4) by simp
  from blockLoop_idle[OF ok1 m1(4) g(1) k t1(1) z1, of "mFrameCount m1" 0]
  obtain m2 where m2: "blockLoop x (mFrameCount m1) g key 0 m1 = Inr m2" "keepsIdle m1 m2"
    "memory m2 = zeroed key (mFrameCount m1 * mMixerChannelCount t1
                              * audio_bytes_per_sample (mMixerFormat t1)) (memory m1)"
    by auto
  have s2: "sameTracks m1 m2" using m2(2) by (simp add: keepsIdle_def)
  have ok2: "groupOk m2 g" using groupOk_sameTracks[OF s2 ok1] .
  from release_fold[OF ok2]
  obtain m3 where m3: "foldE (\<lambda>name. withTrack name release_track) g m2 = Inr m3"
    "sameTracks m2 m3" "memory m3 = memory m2"
    "\<forall>name t. map_of (mTracks m2) name = Some t \<longrightarrow> release_track t = Inr t
        \<longrightarrow> map_of (mTracks m3) name = Some t"
    by auto
  have r: "genericNoResampling_group x (key, g) m = Inr m3"
    using m1(1) m2(1) m3(1) by (simp add: genericNoResampling_group_def)
  have s: "sameTracks m m3" using sameTracks_trans[OF sameTracks_trans[OF m1(2) s2] m3(2)] .
  have me: "memory m3 = zeroed key (mFrameCount m * mMixerChannelCount t0
                                      * audio_bytes_per_sample (mMixerFormat t0)) (memory m)"
    using m3(3) m2(3) m1(3) c1(3,4) sameTracks_fields(3)[OF m1(2)] by simp
  have st: "\<forall>name \<in> set g. \<forall>t p. map_of (mTracks m) name = Some t
        \<longrightarrow> bufferProvider t = Some p \<longrightarrow> noData p
        \<longrightarrow> map_of (mTracks m3) name = Some (starved p t)"
  proof (intro ballI allI impI)
    fix name u p
    assume n: "name \<in> set g" and u: "map_of (mTracks m) name = Some u"
      "bufferProvider u = Some p" "noData p"
    have l1: "map_of (mTracks m1) name = Some (starved p u)" using m1(5) n u by blast
    obtain u2 where u2: "map_of (mTracks m2) name = Some u2"
      using sameTracks_lookup[OF s2 l1] by auto
    have "mIn (starved p u) = None" by (simp add: starved_def)
    then have "u2 = starved p u" using m2(2) l1 u2 by (simp add: keepsIdle_def)
    then show "map_of (mTracks m3) name = Some (starved p u)"
      using m3(4) u2 release_starved[OF u(2)] by blast
  qed
  show ?thesis using r s me st by - (rule exI[of _ m3], simp)
qed

lemma mixLoop_partial:
  assumes i: "mIn (ms_track s) \<noteq> None"
    and k: "t_frameCount (ms_track s) = k" "k < n" "n \<le> fc"
    and h: "noResampleHook (hook (ms_track s))"
    and p: "bufferProvider (ms_track s) = Some p" "noData p"
    and b: "fc * mMixerChannelCount (ms_track s) * 4 \<le> length (ms_outTemp s)"
  shows "\<exists>s1. (if k = 0 then s1 = s
               else callHook x ((fc - n) * mMixerChannelCount (ms_track s) * 4) k (ms_aux s) s
                      = Inr s1)
          \<and> mixLoop x remaining fc n s
              = Inr (s1\<lparr>ms_track := starved p (ms_track s1),
                       ms_aux := (if ms_aux s \<noteq> 0 then ms_aux s + 4 * k else ms_aux s)\<rparr>)
          \<and> sameSetup (ms_track s) (ms_track s1)
          \<and> length (ms_outTemp s1) = length (ms_outTemp s)
          \<and> (\<forall>i. i < (fc - n) * mMixerChannelCount (ms_track s) * 4
                   \<or> (fc - n + k) * mMixerChannelCount (ms_track s) * 4 \<le> i
                 \<longrightarrow> ms_outTemp s1 ! i = ms_outTemp s ! i)"
proof -
  let ?c = "mMixerChannelCount (ms_track s)"
  let ?off = "(fc - n) * ?c * 4"
  from i obtain inp where inp: "mIn (ms_track s) = Some inp" by auto
  have n0: "n \<noteq> 0" using k by simp
  show ?thesis
  proof (cases "k = 0")
    case True
    have r: "refill remaining fc n s = Inr (s\<lparr>ms_track := starved p (ms_track s)\<rparr>, None)"
      using k(1) True n0 p
      by (simp add: refill_def Let_def releaseBuffer_def noData_next starved_def)
    have step: "mixStep x remaining fc n s = Inr (s\<lparr>ms_track := starved p (ms_track s)\<rparr>, None)"
      using inp k(1) True r by (simp add: mixStep_def Let_def)
    have "mixLoop x remaining fc n s = Inr (s\<lparr>ms_track := starved p (ms_track s)\<rparr>)"
      using n0 by (subst mixLoop.simps) (simp add: step)
    then show ?thesis using True by (simp add: sameSetup_refl)
  next
    case False
    have "fc - n + k \<le> fc" using k by linarith
    then have "(fc - n + k) * ?c \<le> fc * ?c" by (rule mult_le_mono1)
    then have "(fc - n + k) * ?c * 4 \<le> fc * ?c * 4" by simp
    then have bb: "?off + k * ?c * 4 \<le> length (ms_outTemp s)"
      using b by (simp add: algebra_simps)
    from callHook_noResample[OF h i bb, of x "ms_aux s"]
    obtain s1 where c: "callHook x ?off k (ms_aux s) s = Inr s1"
      and ss: "sameSetup (ms_track s) (ms_track s1)"
      and l: "length (ms_outTemp s1) = length (ms_outTemp s)"
      and w: "\<forall>i. i < ?off \<or> ?off + k * ?c * 4 \<le> i \<longrightarrow> ms_outTemp s1 ! i = ms_outTemp s ! i"
      and a: "ms_aux s1 = ms_aux s"
      by blast
    note f = sameSetup_fields[OF ss]
    let ?s2 = "s1\<lparr>ms_track := (ms_track s1)\<lparr>t_frameCount := t_frameCount (ms_track s1) - k\<rparr>,
                  ms_aux := (if ms_aux s1 \<noteq> 0 then ms_aux s1 + 4 * k else ms_aux s1)\<rparr>"
    have r: "refill remaining fc (n - k) ?s2
        = Inr (s1\<lparr>ms_track := starved p (ms_track s1),
                 ms_aux := (if ms_aux s \<noteq> 0 then ms_aux s + 4 * k else ms_aux s)\<rparr>, None)"
      using k f(3,5) p a
      by (simp add: refill_def Let_def releaseBuffer_def noData_next starved_def)
    have step: "mixStep x remaining fc n s
        = Inr (s1\<lparr>ms_track := starved p (ms_track s1),
                 ms_aux := (if ms_aux s \<noteq> 0 then ms_aux s + 4 * k else ms_aux s)\<rparr>, None)"
      using inp k False c r by (simp add: mixStep_def Let_def)
    have "mixLoop x remaining fc n s
        = Inr (s1\<lparr>ms_track := starved p (ms_track s1),
                 ms_aux := (if ms_aux s \<noteq> 0 then ms_aux s + 4 * k else ms_aux s)\<rparr>)"
      using n0 by (subst mixLoop.simps) (simp add: step)
    moreover have "\<forall>i. i < ?off \<or> (fc - n + k) * ?c * 4 \<le> i
        \<longrightarrow> ms_outTemp s1 ! i = ms_outTemp s ! i"
      using w by (simp add: algebra_simps)
    ultimately show ?thesis using c l ss False by - (rule exI[of _ s1], simp)
  qed
qed

lemma mixTrack_partial:
  assumes t: "map_of (mTracks m) name = Some t" "wfTrack t"
    and i: "mIn t \<noteq> None" and k: "t_frameCount t = k" "k < fc" "fc \<le> BLOCKSIZE"
    and p: "bufferProvider t = Some p" "noData p"
    and l: "length ot = BLOCKSIZE * MAX_NUM_CHANNELS * 4"
  shows "\<exists>s1. (if k = 0
               then s1 = \<lparr>ms_track = t, ms_outTemp = ot, ms_temp = mResampleTemp m,
                          ms_memory = memory m,
                          ms_aux = (if needs t AND NEEDS_AUX \<noteq> 0 then auxBuffer t + 4 * nf
                                    else 0)\<rparr>
               else callHook x 0 k (if needs t AND NEEDS_AUX \<noteq> 0 then auxBuffer t + 4 * nf else 0)
                      \<lparr>ms_track = t, ms_outTemp = ot, ms_temp = mResampleTemp m,
                       ms_memory = memory m,
                       ms_aux = (if needs t AND NEEDS_AUX \<noteq> 0 then auxBuffer t + 4 * nf
                                 else 0)\<rparr> = Inr s1)
          \<and> mixTrack x nf fc name (m, ot)
              = Inr ((putTrack name (starved p (ms_track s1)) m)
                       \<lparr>mResampleTemp := ms_temp s1, memory := ms_memory s1\<rparr>, ms_outTemp s1)
          \<and> sameSetup t (ms_track s1)
          \<and> length (ms_outTemp s1) = length ot
          \<and> (\<forall>i. k * mMixerChannelCount t * 4 \<le> i \<longrightarrow> ms_outTemp s1 ! i = ot ! i)"
proof -
  define aux where "aux = (if needs t AND NEEDS_AUX \<noteq> 0 then auxBuffer t + 4 * nf else 0)"
  define s where "s = \<lparr>ms_track = t, ms_outTemp = ot, ms_temp = mResampleTemp m,
      ms_memory = memory m, ms_aux = aux\<rparr>"
  have sf: "ms_track s = t" "ms_outTemp s = ot" "ms_aux s = aux" by (simp_all add: s_def)
  have "fc * mMixerChannelCount t \<le> BLOCKSIZE * MAX_NUM_CHANNELS"
    using k(3) t(2) by (simp add: wfTrack_def mult_le_mono)
  then have b: "fc * mMixerChannelCount (ms_track s) * 4 \<le> length (ms_outTemp s)"
    using l by (simp add: sf)
  have h: "noResampleHook (hook (ms_track s))" using t(2) by (simp add: wfTrack_def sf)
  have i': "mIn (ms_track s) \<noteq> None" using i by (simp add: sf)
  have k': "t_frameCount (ms_track s) = k" using k(1) by (simp add: sf)
  have p': "bufferProvider (ms_track s) = Some p" using p(1) by (simp add: sf)
  have z: "(fc - fc) * mMixerChannelCount t * 4 = 0" "fc - fc + k = k" by simp_all
  note P = mixLoop_partial[OF i' k' k(2) order_refl h p' p(2) b,
      where x = x and remaining = "mFrameCount m - nf", unfolded sf z]
  from P obtain s1 where s1: "if k = 0 then s1 = s else callHook x 0 k aux s = Inr s1"
    "mixLoop x (mFrameCount m - nf) fc fc s
       = Inr (s1\<lparr>ms_track := starved p (ms_track s1),
                ms_aux := (if aux \<noteq> 0 then aux + 4 * k else aux)\<rparr>)"
    "sameSetup t (ms_track s1)" "length (ms_outTemp s1) = length ot"
    and w: "\<forall>i. i < 0 \<or> k * mMixerChannelCount t * 4 \<le> i \<longrightarrow> ms_outTemp s1 ! i = ot ! i"
    by blast
  have s15: "\<forall>i. k * mMixerChannelCount t * 4 \<le> i \<longrightarrow> ms_outTemp s1 ! i = ot ! i"
    using w by simp
  have "mixTrack x nf fc name (m, ot)
      = Inr ((putTrack name (starved p (ms_track s1)) m)
               \<lparr>mResampleTemp := ms_temp s1, memory := ms_memory s1\<rparr>, ms_outTemp s1)"
    using t(1) s1(2) by (simp add: mixTrack_def s_def[symmetric] aux_def[symmetric])
  then show ?thesis
    using s1(1,3,4) s15 unfolding s_def aux_def by - (rule exI[of _ s1], simp)
qed

lemma mixTrack_null:
  assumes "map_of (mTracks m) name = Some t" "mIn t = None"
  shows "\<exists>m'. mixTrack x nf fc name (m, ot) = Inr (m', ot) \<and> memory m' = memory m
           \<and> map_of (mTracks m') = map_of (mTracks m)"
  using assms
  by (auto simp: mixTrack_def mixLoop_null putTrack_def map_of_map_insert fun_eq_iff)

lemma process_generic_silent:
  assumes h: "mHook m = Process_genericNoResampling"
    and g: "mGroups m = [(key, name0 # rest)]" "key \<noteq> 0" "groupOk m (name0 # rest)"
      "distinct (name0 # rest)"
    and si: "\<forall>name \<in> set (name0 # rest). \<exists>t. map_of (mTracks m) name = Some t \<and> silent t"
    and t0: "map_of (mTracks m) name0 = Some t0" "zeroConversion x (mMixerFormat t0)"
  shows "\<exists>m'. process x m = Inr m' \<and> sameTracks m m'
          \<and> memory m' = zeroed key (mFrameCount m * mMixerChannelCount t0
                                      * audio_bytes_per_sample (mMixerFormat t0)) (memory m)
          \<and> (\<forall>name \<in> set (name0 # rest). \<forall>t p. map_of (mTracks m) name = Some t
                \<longrightarrow> bufferProvider t = Some p \<longrightarrow> noData p
                \<longrightarrow> map_of (mTracks m') name = Some (starved p t))"
proof -
  from genericNoResampling_group_silent[OF g(2) refl g(3,4) si t0]
  obtain m' where m': "genericNoResampling_group x (key, name0 # rest) m = Inr m'"
    "sameTracks m m'"
    "memory m' = zeroed key (mFrameCount m * mMixerChannelCount t0
                              * audio_bytes_per_sample (mMixerFormat t0)) (memory m)"
    "\<forall>name \<in> set (name0 # rest). \<forall>t p. map_of (mTracks m) name = Some t
        \<longrightarrow> bufferProvider t = Some p \<longrightarrow> noData p
        \<longrightarrow> map_of (mTracks m') name = Some (starved p t)"
    by blast
  have "process x m = Inr m'"
    using h g(1) m'(1) by (simp add: process_def processHook_def process_genericNoResampling_def)
  then show ?thesis using m'(2,3,4) by - (rule exI[of _ m'], simp)
qed

lemma oneTrackLoop_null:
  assumes p: "bufferProvider (os_track s) = Some p" "noData p"
    and o: "os_out s \<noteq> 0" and n: "0 < n"
  shows "oneTrackLoop x mt to ti ramp channels n s
     = Inr (s\<lparr>os_track := (os_track s)
                \<lparr>bufferProvider := Some (tl p),
                 buffer := \<lparr>raw = None, frameCount = 0, aligned = True\<rparr>\<rparr>,
              os_memory := zeroed (os_out s)
                 (n * channels * audio_bytes_per_sample (mMixerFormat (os_track s)))
                 (os_memory s)\<rparr>, False)"
proof -
  have "oneTrackStep x mt to ti ramp channels n s
     = Inr (s\<lparr>os_track := (os_track s)
                \<lparr>bufferProvider := Some (tl p),
                 buffer := \<lparr>raw = None, frameCount = 0, aligned = True\<rparr>\<rparr>,
              os_memory := zeroed (os_out s)
                 (n * channels * audio_bytes_per_sample (mMixerFormat (os_track s)))
                 (os_memory s)\<rparr>, None)"
    using p o
    by (simp add: oneTrackStep_def noData_next memset0_def store_def mem_write_zeros Let_def)
  then show ?thesis
    using n by (subst oneTrackLoop.simps) simp
qed

lemma oneTrackLoop_partial:
  assumes p: "bufferProvider (os_track s) = Some (Frames k d # q)" "noData q"
    and k: "k < n" and o: "os_out s \<noteq> 0"
    and v: "volumeMix x mt (ti = T_float) False to ti
              ((os_track s)\<lparr>bufferProvider := Some q,
                 buffer := \<lparr>raw = Some d, frameCount = k, aligned = True\<rparr>\<rparr>)
              (mem_read (os_memory s) (os_out s) (k * channels * sizeof to)) k d
              (if os_aux s = 0 then None else Some (mem_read (os_memory s) (os_aux s) (4 * k)))
              ramp = (t2, out', aux')"
  shows "oneTrackLoop x mt to ti ramp channels n s
     = Inr (s\<lparr>os_track := t2\<lparr>bufferProvider := Some (tl q),
                              buffer := \<lparr>raw = None, frameCount = 0, aligned = True\<rparr>\<rparr>,
              os_memory := zeroed (os_out s + k * channels * sizeof to)
                 ((n - k) * channels * audio_bytes_per_sample (mMixerFormat (os_track s)))
                 (case aux' of None \<Rightarrow> mem_write (os_out s) out' (os_memory s)
                  | Some a \<Rightarrow> mem_write (os_aux s) a (mem_write (os_out s) out' (os_memory s))),
              os_out := os_out s + k * channels * sizeof to,
              os_aux := (if os_aux s \<noteq> 0 then os_aux s + 4 * k else os_aux s)\<rparr>, False)"
proof -
  note ss = volumeMix_sameSetup[OF v]
  note f = sameSetup_fields[OF conjunct1[OF ss]]
  define s1 where "s1 = s\<lparr>os_track := t2\<lparr>bufferProvider := Some q,
                                buffer := \<lparr>raw = None, frameCount = 0, aligned = True\<rparr>\<rparr>,
      os_memory := (case aux' of None \<Rightarrow> mem_write (os_out s) out' (os_memory s)
                    | Some a \<Rightarrow> mem_write (os_aux s) a (mem_write (os_out s) out' (os_memory s))),
      os_out := os_out s + k * channels * sizeof to,
      os_aux := (if os_aux s \<noteq> 0 then os_aux s + 4 * k else os_aux s)\<rparr>"
  have g: "getNextBuffer (Frames k d # q) ((buffer (os_track s))\<lparr>frameCount := n\<rparr>)
      = (q, \<lparr>raw = Some d, frameCount = k, aligned = True\<rparr>)"
    using k by (simp add: getNextBuffer_def min_def)
  have step: "oneTrackStep x mt to ti ramp channels n s = Inr (s1, Some (n - k))"
    using p(1) g v o f(3,4)
    by (simp add: oneTrackStep_def Let_def store_def release_track_def releaseBuffer_def s1_def)
  have p1: "bufferProvider (os_track s1) = Some q" by (simp add: s1_def)
  have o1: "os_out s1 \<noteq> 0" using o by (simp add: s1_def)
  have n1: "0 < n - k" using k by simp
  have "oneTrackLoop x mt to ti ramp channels n s
      = oneTrackLoop x mt to ti ramp channels (n - k) s1"
    using k by (subst oneTrackLoop.simps) (simp add: step)
  also note oneTrackLoop_null[OF p1 p(2) o1 n1, of x mt to ti ramp channels]
  finally show ?thesis using f(7) by (simp add: s1_def)
qed

lemma process_oneTrack_partial:
  assumes h: "mHook m = Process_noResampleOneTrack mt to ti"
    and e: "mEnabled m = [name]" "map_of (mTracks m) name = Some t"
    and p: "bufferProvider t = Some (Frames k d # q)" "noData q"
    and k: "k < mFrameCount m" and o: "mainBuffer t \<noteq> 0"
    and v: "volumeMix x mt (ti = T_float) False to ti
              (t\<lparr>bufferProvider := Some q,
                 buffer := \<lparr>raw = Some d, frameCount = k, aligned = True\<rparr>\<rparr>)
              (mem_read (memory m) (mainBuffer t) (k * mMixerChannelCount t * sizeof to)) k d
              (if auxBuffer t = 0 then None else Some (mem_read (memory m) (auxBuffer t) (4 * k)))
              (needsRamp t) = (t2, out', aux')"
  shows "process x m
     = Inr ((putTrack name
               (t2\<lparr>bufferProvider := Some (tl q),
                   buffer := \<lparr>raw = None, frameCount = 0, aligned = True\<rparr>\<rparr>) m)
            \<lparr>memory := zeroed (mainBuffer t + k * mMixerChannelCount t * sizeof to)
                 ((mFrameCount m - k) * mMixerChannelCount t
                    * audio_bytes_per_sample (mMixerFormat t))
                 (case aux' of None \<Rightarrow> mem_write (mainBuffer t) out' (memory m)
                  | Some a \<Rightarrow> mem_write (auxBuffer t) a
                                (mem_write (mainBuffer t) out' (memory m)))\<rparr>)"
proof -
  define s where "s = \<lparr>os_track = t, os_memory = memory m, os_out = mainBuffer t,
      os_aux = auxBuffer t\<rparr>"
  have sf: "os_track s = t" "os_memory s = memory m" "os_out s = mainBuffer t"
    "os_aux s = auxBuffer t"
    by (simp_all add: s_def)
  have p': "bufferProvider (os_track s) = Some (Frames k d # q)" using p(1) by (simp add: sf)
  have o': "os_out s \<noteq> 0" using o by (simp add: sf)
  have v': "volumeMix x mt (ti = T_float) False to ti
              ((os_track s)\<lparr>bufferProvider := Some q,
                 buffer := \<lparr>raw = Some d, frameCount = k, aligned = True\<rparr>\<rparr>)
              (mem_read (os_memory s) (os_out s) (k * mMixerChannelCount t * sizeof to)) k d
              (if os_aux s = 0 then None else Some (mem_read (os_memory s) (os_aux s) (4 * k)))
              (needsRamp t) = (t2, out', aux')"
    using v unfolding sf .
  note L = oneTrackLoop_partial[OF p' p(2) k o' v', unfolded sf]
  have "process x m = process_noResampleOneTrack x mt to ti m"
    using h by (simp add: process_def processHook_def)
  also have "\<dots> = Inr ((putTrack name
               (t2\<lparr>bufferProvider := Some (tl q),
                   buffer := \<lparr>raw = None, frameCount = 0, aligned = True\<rparr>\<rparr>) m)
            \<lparr>memory := zeroed (mainBuffer t + k * mMixerChannelCount t * sizeof to)
                 ((mFrameCount m - k) * mMixerChannelCount t
                    * audio_bytes_per_sample (mMixerFormat t))
                 (case aux' of None \<Rightarrow> mem_write (mainBuffer t) out' (memory m)
                  | Some a \<Rightarrow> mem_write (auxBuffer t) a
                                (mem_write (mainBuffer t) out' (memory m)))\<rparr>)"
    using e L by (simp add: process_noResampleOneTrack_def s_def[symmetric])
  finally show ?thesis .
qed

lemma process_oneTrack_null:
  assumes h: "mHook m = Process_noResampleOneTrack mt to ti"
    and e: "mEnabled m = [name]" "map_of (mTracks m) name = Some t"
    and p: "bufferProvider t = Some p" "noData p"
    and k: "0 < mFrameCount m" and o: "mainBuffer t \<noteq> 0"
  shows "process x m
     = Inr ((putTrack name
               (t\<lparr>bufferProvider := Some (tl p),
                  buffer := \<lparr>raw = None, frameCount = 0, aligned = True\<rparr>\<rparr>) m)
            \<lparr>memory := zeroed (mainBuffer t)
                 (mFrameCount m * mMixerChannelCount t * audio_bytes_per_sample (mMixerFormat t))
                 (memory m)\<rparr>)"
proof -
  define s where "s = \<lparr>os_track = t, os_memory = memory m, os_out = mainBuffer t,
      os_aux = auxBuffer t\<rparr>"
  have sf: "os_track s = t" "os_memory s = memory m" "os_out s = mainBuffer t"
    "os_aux s = auxBuffer t"
    by (simp_all add: s_def)
  have p': "bufferProvider (os_track s) = Some p" using p(1) by (simp add: sf)
  have o': "os_out s \<noteq> 0" using o by (simp add: sf)
  note L = oneTrackLoop_null[OF p' p(2) o' k, unfolded sf]
  have "process x m = process_noResampleOneTrack x mt to ti m"
    using h by (simp add: process_def processHook_def)
  also have "\<dots> = Inr ((putTrack name
               (t\<lparr>bufferProvider := Some (tl p),
                  buffer := \<lparr>raw = None, frameCount = 0, aligned = True\<rparr>\<rparr>) m)
            \<lparr>memory := zeroed (mainBuffer t)
                 (mFrameCount m * mMixerChannelCount t * audio_bytes_per_sample (mMixerFormat t))
                 (memory m)\<rparr>)"
    using e L by (simp add: process_noResampleOneTrack_def s_def[symmetric])
  finally show ?thesis .
qed

lemma oneTrackLoop_ok:
  "bufferProvider (os_track s) \<noteq> None \<Longrightarrow> os_out s \<noteq> 0
    \<Longrightarrow> \<exists>s' fin. oneTrackLoop x mt to ti ramp channels n s = Inr (s', fin)
          \<and> sameConfig (os_track s) (os_track s')"
proof (induction x mt to ti ramp channels n s rule: oneTrackLoop.induct)
  case (1 x mt to ti ramp channels n s)
  show ?case
  proof (cases "n = 0")
    case True
    then show ?thesis by (subst oneTrackLoop.simps) (auto simp: sameConfig_refl)
  next
    case False
    from "1.prems"(1) obtain p where p: "bufferProvider (os_track s) = Some p" by auto
    obtain p1 b1 where g: "getNextBuffer p ((buffer (os_track s))\<lparr>frameCount := n\<rparr>) = (p1, b1)"
      by (metis surj_pair)
    define t1 where "t1 = (os_track s)\<lparr>bufferProvider := Some p1, buffer := b1\<rparr>"
    have c1: "sameConfig (os_track s) t1"
      using p by (simp add: t1_def sameConfig_stream)
    show ?thesis
    proof (cases "raw b1 = None \<or> \<not> aligned b1")
      case True
      have "\<exists>mem. oneTrackStep x mt to ti ramp channels n s
          = Inr (s\<lparr>os_track := t1, os_memory := mem\<rparr>, None)"
        using p g True "1.prems"(2)
        by (auto simp: oneTrackStep_def Let_def memset0_def store_def t1_def)
      then obtain mem where "oneTrackStep x mt to ti ramp channels n s
          = Inr (s\<lparr>os_track := t1, os_memory := mem\<rparr>, None)"
        by auto
      then have "oneTrackLoop x mt to ti ramp channels n s
          = Inr (s\<lparr>os_track := t1, os_memory := mem\<rparr>, False)"
        using False by (subst oneTrackLoop.simps) simp
      then show ?thesis using c1 by auto
    next
      case al: False
      define len where "len = frameCount b1 * channels * sizeof to"
      define auxb where "auxb = (if os_aux s = 0 then None
           else Some (mem_read (os_memory s) (os_aux s) (4 * frameCount b1)))"
      obtain t2 out' aux' where v: "volumeMix x mt (ti = T_float) False to ti t1
          (mem_read (os_memory s) (os_out s) len) (frameCount b1) (the (raw b1)) auxb ramp
          = (t2, out', aux')"
        by (metis prod_cases3)
      note ss = volumeMix_sameSetup[OF v]
      note f = sameSetup_fields[OF conjunct1[OF ss]]
      define t3 where "t3 = t2\<lparr>bufferProvider := Some p1,
          buffer := \<lparr>raw = None, frameCount = 0, aligned = True\<rparr>\<rparr>"
      define s1 where "s1 = s\<lparr>os_track := t3,
          os_memory := (case aux' of None \<Rightarrow> mem_write (os_out s) out' (os_memory s)
                        | Some a \<Rightarrow> mem_write (os_aux s) a
                                      (mem_write (os_out s) out' (os_memory s))),
          os_out := os_out s + len,
          os_aux := (if os_aux s \<noteq> 0 then os_aux s + 4 * frameCount b1 else os_aux s)\<rparr>"
      have bp2: "bufferProvider t2 = Some p1" "buffer t2 = b1"
        using f(3,4) by (simp_all add: t1_def)
      from al obtain y where al': "raw b1 = Some y" "aligned b1" by auto
      have step: "oneTrackStep x mt to ti ramp channels n s
          = Inr (s1, Some (n - frameCount b1))"
        using p g al' v "1.prems"(2) bp2
        by (simp add: oneTrackStep_def Let_def store_def release_track_def releaseBuffer_def
            s1_def t3_def t1_def[symmetric] len_def[symmetric] auxb_def[symmetric])
      have c3: "sameConfig (os_track s) (os_track s1)"
      proof -
        have "sameConfig t2 t3" using bp2 by (simp add: t3_def sameConfig_stream)
        then show ?thesis
          using sameConfig_trans[OF c1 sameConfig_trans[OF sameSetup_sameConfig[OF conjunct1[OF ss]]]]
          by (simp add: s1_def)
      qed
      have b1': "bufferProvider (os_track s1) \<noteq> None" by (simp add: s1_def t3_def)
      have o1: "os_out s1 \<noteq> 0" using "1.prems"(2) by (simp add: s1_def)
      from "1.IH"[OF False step refl refl b1' o1]
      obtain s' fin where r: "oneTrackLoop x mt to ti ramp channels (n - frameCount b1) s1
          = Inr (s', fin)" "sameConfig (os_track s1) (os_track s')"
        by auto
      have "oneTrackLoop x mt to ti ramp channels n s = Inr (s', fin)"
        using False r(1) by (subst oneTrackLoop.simps) (simp add: step)
      then show ?thesis using sameConfig_trans[OF c3 r(2)] by simp
    qed
  qed
qed

lemma process_ready:
  assumes "ready m"
  shows "\<exists>m'. process x m = Inr m' \<and> ready m'"
proof (cases "genericReady m")
  case True
  then have h: "mHook m = Process_genericNoResampling" and w: "wfMixer m"
    by (simp_all add: genericReady_def)
  from process_genericNoResampling_ok[OF w, of x]
  obtain m' where m': "process_genericNoResampling x m = Inr m'" "sameTracks m m'" by auto
  have "process x m = Inr m'" using h m'(1) by (simp add: process_def processHook_def)
  moreover have "genericReady m'"
    using wfMixer_sameTracks[OF m'(2) w] sameTracks_fields(4)[OF m'(2)] h
    by (simp add: genericReady_def)
  ultimately show ?thesis by (simp add: ready_def)
next
  case False
  then have r: "oneTrackReady m" using assms by (simp add: ready_def)
  then obtain mt to ti where h: "mHook m = Process_noResampleOneTrack mt to ti"
    by (auto simp: oneTrackReady_def split: process_hook_t.splits)
  from r obtain t where t: "map_of (mTracks m) (mEnabled m ! 0) = Some t"
    "bufferProvider t \<noteq> None" "mainBuffer t \<noteq> 0"
    by (auto simp: oneTrackReady_def split: option.splits)
  have e: "length (mEnabled m) = 1" using r by (simp add: oneTrackReady_def)
  define s where "s = \<lparr>os_track = t, os_memory = memory m, os_out = mainBuffer t,
      os_aux = auxBuffer t\<rparr>"
  have sp: "bufferProvider (os_track s) \<noteq> None" "os_out s \<noteq> 0"
    using t(2,3) by (simp_all add: s_def)
  from oneTrackLoop_ok[OF sp, of x mt to ti "needsRamp t" "mMixerChannelCount t" "mFrameCount m"]
  obtain s' fin where l: "oneTrackLoop x mt to ti (needsRamp t) (mMixerChannelCount t)
      (mFrameCount m) s = Inr (s', fin)" "sameConfig t (os_track s')"
    by (auto simp: s_def)
  define t' where "t' = (if fin \<and> needsRamp t
      then adjustVolumeRamp (os_aux s' \<noteq> 0) (ti = T_float) (os_track s') else os_track s')"
  have c: "sameConfig t t'"
    using l(2) sameConfig_trans[OF l(2) sameSetup_sameConfig[OF adjustVolumeRamp_sameSetup]]
    by (simp add: t'_def)
  define m' where "m' = (putTrack (mEnabled m ! 0) t' m)\<lparr>memory := os_memory s'\<rparr>"
  have "process_noResampleOneTrack x mt to ti m = Inr m'"
    using e t(1) l(1)
    by (simp add: process_noResampleOneTrack_def s_def[symmetric] m'_def t'_def)
  then have p: "process x m = Inr m'" using h by (simp add: process_def processHook_def)
  have "oneTrackReady m'"
    using h e t(2,3) sameConfig_fields(6,11)[OF c]
    by (simp add: oneTrackReady_def m'_def putTrack_def map_of_map_insert)
  then show ?thesis using p by (simp add: ready_def)
qed

lemma feed_selected:
  "mHook (feedSelected p)
       = Process_noResampleOneTrack MIXTYPE_MULTI_SAVEONLY_STEREOVOL T_int16 T_float
   \<and> mEnabled (feedSelected p) = [7]
   \<and> mFrameCount (feedSelected p) = 64
   \<and> map_of (mTracks (feedSelected p)) 7 = Some (selectedTrack p)"
  apply (simp add: feedSelected_def feedMixer_def validateSelect_def invalidate_def
      putTrack_def oneTrackMixer_def newMixer_def selectedTrack_def)
  apply (simp add: validateTrack_def trackNeeds_def playingTrack_def stereo_channels
      doesResample_def stereoTrack_def newTrack_def stereo_count u32_def isVolumeMuted_def
      UNITY_GAIN_FLOAT_def fzero_def fval_def selectTrackHook_def getTrackHook_def
      trackHookFor_def useStereoVolume_def isAudioChannelPositionMask_def
      audio_channel_mask_get_representation_def MAX_NUM_CHANNELS_def FCC_LIMIT_def
      selectProcessHook_def getProcessHook_def Let_def)
  done

lemma pair_selected:
  "mHook (pairSelected p q) = Process_genericNoResampling
   \<and> mGroups (pairSelected p q) = [(4096, [7, 8])]
   \<and> mFrameCount (pairSelected p q) = 64
   \<and> map_of (mTracks (pairSelected p q)) 7 = Some (selectedTrack p)
   \<and> map_of (mTracks (pairSelected p q)) 8 = Some (selectedTrack q)"
  apply (simp add: pairSelected_def pairMixer_def validateSelect_def invalidate_def
      putTrack_def oneTrackMixer_def newMixer_def selectedTrack_def)
  apply (simp add: validateTrack_def trackNeeds_def playingTrack_def stereo_channels
      doesResample_def stereoTrack_def newTrack_def stereo_count u32_def isVolumeMuted_def
      UNITY_GAIN_FLOAT_def fzero_def fval_def selectTrackHook_def getTrackHook_def
      trackHookFor_def useStereoVolume_def isAudioChannelPositionMask_def
      audio_channel_mask_get_representation_def MAX_NUM_CHANNELS_def FCC_LIMIT_def
      selectProcessHook_def getProcessHook_def Let_def)
  done

lemma selectedTrack_fields:
  "wfTrack (selectedTrack p)" "bufferProvider (selectedTrack p) = Some p"
  "mainBuffer (selectedTrack p) = 4096" "auxBuffer (selectedTrack p) = 0"
  "mMixerChannelCount (selectedTrack p) = 2"
  "mMixerFormat (selectedTrack p) = AUDIO_FORMAT_PCM_16_BIT"
  "\<not> needsRamp (selectedTrack p)" "needs (selectedTrack p) = 1"
  "buffer (selectedTrack p) = \<lparr>raw = None, frameCount = 0, aligned = True\<rparr>"
  "mIn (selectedTrack p) = None" "t_frameCount (selectedTrack p) = 0"
  by (simp_all add: selectedTrack_def wfTrack_def noResampleHook_def playingTrack_def
      stereoTrack_def newTrack_def stereo_count MAX_NUM_CHANNELS_def FCC_LIMIT_def
      needsRamp_def newMixer_def)

lemma pair_ready: "ready (pairSelected p q)"
  using pair_selected[of p q] selectedTrack_fields(1)
  by (simp add: ready_def genericReady_def wfMixer_def groupOk_def)

lemma pair_acquired: "map_of (mTracks pairAcquired) 7 = Some acquiredTrack"
  using pair_selected[of "[Frames 10 (replicate 80 1)]" "[Frames 64 (replicate 512 1)]"]
  by (simp add: pairAcquired_def withTrack_def acquire_track_def getNextBuffer_def putTrack_def
      map_of_map_insert acquiredTrack_def selectedTrack_def)

lemma acquiredTrack_fields:
  "wfTrack acquiredTrack" "mIn acquiredTrack \<noteq> None" "t_frameCount acquiredTrack = 10"
  "bufferProvider acquiredTrack = Some []" "needs acquiredTrack = 1"
  using selectedTrack_fields(1)[of "[]"]
  by (simp_all add: acquiredTrack_def wfTrack_def selectedTrack_def)

lemma silent_volumeMix:
  "volumeMix silentExt mt True False to ti (selectedTrack p\<lparr>bufferProvider := Some q, buffer := b\<rparr>)
      (mem_read mem a n) k d None False
     = (selectedTrack p\<lparr>bufferProvider := Some q, buffer := b\<rparr>, mem_read mem a n, None)"
  using selectedTrack_fields(5)[of p]
  by (simp add: volumeMix_def Let_def silentExt_def fit_def fitAux_def mem_read_def
      FCC_LIMIT_def)

text \<open>
  Claim C9. A null buffer from the provider of a track, at any point of a cycle, makes the
  track add nothing to the frames still to be mixed, leaves what has been mixed as it is,
  and does not make \<open>process\<close> fail, in this cycle or in the next.

  \<^item> \<open>process\<close> returns, and the mixer is then ready for the next call, which returns too,
    whatever the providers answer and whenever they have no buffer: for the hook
    \<open>process__genericNoResampling\<close> on groups of tracks that do not resample, and for the
    hook \<open>process__noResampleOneTrack\<close>.
  \<^item> In a block of \<open>process__genericNoResampling\<close>, a track that has \<open>k\<close> frames left of its
    buffer, \<open>k\<close> less than the \<open>fc\<close> frames of the block and possibly zero, and whose
    provider then has no buffer, gets one call of its hook for these \<open>k\<close> frames when
    \<open>k > 0\<close> and none otherwise. The turn of the track ends without failure; the
    accumulator is the one its hook left, equal to the accumulator the other tracks of
    the group had filled at every byte from frame \<open>k\<close> on; the track is left with \<open>mIn\<close>
    null and its provider one answer further.
  \<^item> In the later blocks of the cycle the turn of a track whose \<open>mIn\<close> is null leaves the
    accumulator, the memory and every track as they are.
  \<^item> A cycle of \<open>process__genericNoResampling\<close> on one group all of whose tracks have the
    hook \<open>track__nop\<close> or a provider with no buffer writes zeros over the
    \<open>mFrameCount\<close> frames of the main buffer and no other byte, and leaves a track whose
    provider had no buffer with the buffer released and the provider one answer further.
  \<^item> A cycle of \<open>process__noResampleOneTrack\<close> whose provider gives \<open>k\<close> frames, fewer than
    \<open>mFrameCount\<close>, and then no buffer, writes what the kernel makes of the \<open>k\<close> frames,
    zeros over the \<open>mFrameCount - k\<close> frames that follow in the main buffer, and no
    other byte; the provider is left two answers further. When the provider has no buffer
    at the start of the cycle, the whole main buffer is zeroed.
\<close>

theorem null_buffer_contributes_silence:
  "(ready m \<longrightarrow>
      (\<exists>m' m''. process x m = Inr m' \<and> ready m' \<and> process x m' = Inr m'' \<and> ready m''))
   \<and> (map_of (mTracks mb) name = Some t \<and> wfTrack t \<and> mIn t \<noteq> None \<and> t_frameCount t = k
        \<and> k < fc \<and> fc \<le> BLOCKSIZE \<and> bufferProvider t = Some p \<and> noData p
        \<and> length ot = BLOCKSIZE * MAX_NUM_CHANNELS * 4 \<longrightarrow>
      (\<exists>s1. (if k = 0
               then s1 = \<lparr>ms_track = t, ms_outTemp = ot, ms_temp = mResampleTemp mb,
                          ms_memory = memory mb,
                          ms_aux = (if needs t AND NEEDS_AUX \<noteq> 0 then auxBuffer t + 4 * nf
                                    else 0)\<rparr>
               else callHook x 0 k (if needs t AND NEEDS_AUX \<noteq> 0 then auxBuffer t + 4 * nf else 0)
                      \<lparr>ms_track = t, ms_outTemp = ot, ms_temp = mResampleTemp mb,
                       ms_memory = memory mb,
                       ms_aux = (if needs t AND NEEDS_AUX \<noteq> 0 then auxBuffer t + 4 * nf
                                 else 0)\<rparr> = Inr s1)
          \<and> mixTrack x nf fc name (mb, ot)
              = Inr ((putTrack name (starved p (ms_track s1)) mb)
                       \<lparr>mResampleTemp := ms_temp s1, memory := ms_memory s1\<rparr>, ms_outTemp s1)
          \<and> sameSetup t (ms_track s1)
          \<and> length (ms_outTemp s1) = length ot
          \<and> (\<forall>i. k * mMixerChannelCount t * 4 \<le> i \<longrightarrow> ms_outTemp s1 ! i = ot ! i)))
   \<and> (map_of (mTracks mc) namec = Some tc \<and> mIn tc = None \<longrightarrow>
      (\<exists>m'. mixTrack x nfc fcc namec (mc, otc) = Inr (m', otc) \<and> memory m' = memory mc
           \<and> map_of (mTracks m') = map_of (mTracks mc)))
   \<and> (mHook mg = Process_genericNoResampling \<and> mGroups mg = [(key, name0 # rest)] \<and> key \<noteq> 0
        \<and> groupOk mg (name0 # rest) \<and> distinct (name0 # rest)
        \<and> (\<forall>name \<in> set (name0 # rest). \<exists>t. map_of (mTracks mg) name = Some t \<and> silent t)
        \<and> map_of (mTracks mg) name0 = Some t0 \<and> zeroConversion x (mMixerFormat t0) \<longrightarrow>
      (\<exists>m'. process x mg = Inr m' \<and> sameTracks mg m'
          \<and> memory m' = zeroed key (mFrameCount mg * mMixerChannelCount t0
                                      * audio_bytes_per_sample (mMixerFormat t0)) (memory mg)
          \<and> (\<forall>name \<in> set (name0 # rest). \<forall>t p. map_of (mTracks mg) name = Some t
                \<longrightarrow> bufferProvider t = Some p \<longrightarrow> noData p
                \<longrightarrow> map_of (mTracks m') name = Some (starved p t))))
   \<and> (mHook mo = Process_noResampleOneTrack mt to ti \<and> mEnabled mo = [nameo]
        \<and> map_of (mTracks mo) nameo = Some tn
        \<and> bufferProvider tn = Some (Frames j d # q) \<and> noData q \<and> j < mFrameCount mo
        \<and> mainBuffer tn \<noteq> 0
        \<and> volumeMix x mt (ti = T_float) False to ti
              (tn\<lparr>bufferProvider := Some q,
                 buffer := \<lparr>raw = Some d, frameCount = j, aligned = True\<rparr>\<rparr>)
              (mem_read (memory mo) (mainBuffer tn) (j * mMixerChannelCount tn * sizeof to)) j d
              (if auxBuffer tn = 0 then None
               else Some (mem_read (memory mo) (auxBuffer tn) (4 * j)))
              (needsRamp tn) = (t2, out', aux') \<longrightarrow>
      process x mo
        = Inr ((putTrack nameo
                  (t2\<lparr>bufferProvider := Some (tl q),
                      buffer := \<lparr>raw = None, frameCount = 0, aligned = True\<rparr>\<rparr>) mo)
               \<lparr>memory := zeroed (mainBuffer tn + j * mMixerChannelCount tn * sizeof to)
                    ((mFrameCount mo - j) * mMixerChannelCount tn
                       * audio_bytes_per_sample (mMixerFormat tn))
                    (case aux' of None \<Rightarrow> mem_write (mainBuffer tn) out' (memory mo)
                     | Some a \<Rightarrow> mem_write (auxBuffer tn) a
                                   (mem_write (mainBuffer tn) out' (memory mo)))\<rparr>))
   \<and> (mHook ms = Process_noResampleOneTrack mt' to' ti' \<and> mEnabled ms = [names]
        \<and> map_of (mTracks ms) names = Some ts
        \<and> bufferProvider ts = Some ps \<and> noData ps \<and> 0 < mFrameCount ms
        \<and> mainBuffer ts \<noteq> 0 \<longrightarrow>
      process x ms
        = Inr ((putTrack names
                  (ts\<lparr>bufferProvider := Some (tl ps),
                      buffer := \<lparr>raw = None, frameCount = 0, aligned = True\<rparr>\<rparr>) ms)
               \<lparr>memory := zeroed (mainBuffer ts)
                    (mFrameCount ms * mMixerChannelCount ts
                       * audio_bytes_per_sample (mMixerFormat ts))
                    (memory ms)\<rparr>))"
proof (intro conjI impI)
  assume r: "ready m"
  from process_ready[OF r, of x] obtain m' where m': "process x m = Inr m'" "ready m'" by auto
  from process_ready[OF m'(2), of x] obtain m'' where "process x m' = Inr m''" "ready m''"
    by auto
  then show "\<exists>m' m''. process x m = Inr m' \<and> ready m' \<and> process x m' = Inr m'' \<and> ready m''"
    using m' by - (rule exI[of _ m'], rule exI[of _ m''], simp)
next
  assume "map_of (mTracks mb) name = Some t \<and> wfTrack t \<and> mIn t \<noteq> None \<and> t_frameCount t = k
        \<and> k < fc \<and> fc \<le> BLOCKSIZE \<and> bufferProvider t = Some p \<and> noData p
        \<and> length ot = BLOCKSIZE * MAX_NUM_CHANNELS * 4"
  then have a: "map_of (mTracks mb) name = Some t" "wfTrack t" "mIn t \<noteq> None"
    "t_frameCount t = k" "k < fc" "fc \<le> BLOCKSIZE" "bufferProvider t = Some p" "noData p"
    "length ot = BLOCKSIZE * MAX_NUM_CHANNELS * 4"
    by simp_all
  show "\<exists>s1. (if k = 0
               then s1 = \<lparr>ms_track = t, ms_outTemp = ot, ms_temp = mResampleTemp mb,
                          ms_memory = memory mb,
                          ms_aux = (if needs t AND NEEDS_AUX \<noteq> 0 then auxBuffer t + 4 * nf
                                    else 0)\<rparr>
               else callHook x 0 k (if needs t AND NEEDS_AUX \<noteq> 0 then auxBuffer t + 4 * nf else 0)
                      \<lparr>ms_track = t, ms_outTemp = ot, ms_temp = mResampleTemp mb,
                       ms_memory = memory mb,
                       ms_aux = (if needs t AND NEEDS_AUX \<noteq> 0 then auxBuffer t + 4 * nf
                                 else 0)\<rparr> = Inr s1)
          \<and> mixTrack x nf fc name (mb, ot)
              = Inr ((putTrack name (starved p (ms_track s1)) mb)
                       \<lparr>mResampleTemp := ms_temp s1, memory := ms_memory s1\<rparr>, ms_outTemp s1)
          \<and> sameSetup t (ms_track s1)
          \<and> length (ms_outTemp s1) = length ot
          \<and> (\<forall>i. k * mMixerChannelCount t * 4 \<le> i \<longrightarrow> ms_outTemp s1 ! i = ot ! i)"
    by (rule mixTrack_partial[OF a])
next
  assume "map_of (mTracks mc) namec = Some tc \<and> mIn tc = None"
  then have a: "map_of (mTracks mc) namec = Some tc" "mIn tc = None" by simp_all
  show "\<exists>m'. mixTrack x nfc fcc namec (mc, otc) = Inr (m', otc) \<and> memory m' = memory mc
           \<and> map_of (mTracks m') = map_of (mTracks mc)"
    by (rule mixTrack_null[OF a])
next
  assume "mHook mg = Process_genericNoResampling \<and> mGroups mg = [(key, name0 # rest)] \<and> key \<noteq> 0
        \<and> groupOk mg (name0 # rest) \<and> distinct (name0 # rest)
        \<and> (\<forall>name \<in> set (name0 # rest). \<exists>t. map_of (mTracks mg) name = Some t \<and> silent t)
        \<and> map_of (mTracks mg) name0 = Some t0 \<and> zeroConversion x (mMixerFormat t0)"
  then have a: "mHook mg = Process_genericNoResampling" "mGroups mg = [(key, name0 # rest)]"
    "key \<noteq> 0" "groupOk mg (name0 # rest)" "distinct (name0 # rest)"
    "\<forall>name \<in> set (name0 # rest). \<exists>t. map_of (mTracks mg) name = Some t \<and> silent t"
    "map_of (mTracks mg) name0 = Some t0" "zeroConversion x (mMixerFormat t0)"
    by blast+
  show "\<exists>m'. process x mg = Inr m' \<and> sameTracks mg m'
          \<and> memory m' = zeroed key (mFrameCount mg * mMixerChannelCount t0
                                      * audio_bytes_per_sample (mMixerFormat t0)) (memory mg)
          \<and> (\<forall>name \<in> set (name0 # rest). \<forall>t p. map_of (mTracks mg) name = Some t
                \<longrightarrow> bufferProvider t = Some p \<longrightarrow> noData p
                \<longrightarrow> map_of (mTracks m') name = Some (starved p t))"
    by (rule process_generic_silent[OF a])
next
  assume "mHook mo = Process_noResampleOneTrack mt to ti \<and> mEnabled mo = [nameo]
        \<and> map_of (mTracks mo) nameo = Some tn
        \<and> bufferProvider tn = Some (Frames j d # q) \<and> noData q \<and> j < mFrameCount mo
        \<and> mainBuffer tn \<noteq> 0
        \<and> volumeMix x mt (ti = T_float) False to ti
              (tn\<lparr>bufferProvider := Some q,
                 buffer := \<lparr>raw = Some d, frameCount = j, aligned = True\<rparr>\<rparr>)
              (mem_read (memory mo) (mainBuffer tn) (j * mMixerChannelCount tn * sizeof to)) j d
              (if auxBuffer tn = 0 then None
               else Some (mem_read (memory mo) (auxBuffer tn) (4 * j)))
              (needsRamp tn) = (t2, out', aux')"
  then have a: "mHook mo = Process_noResampleOneTrack mt to ti" "mEnabled mo = [nameo]"
    "map_of (mTracks mo) nameo = Some tn"
    "bufferProvider tn = Some (Frames j d # q)" "noData q" "j < mFrameCount mo"
    "mainBuffer tn \<noteq> 0"
    "volumeMix x mt (ti = T_float) False to ti
              (tn\<lparr>bufferProvider := Some q,
                 buffer := \<lparr>raw = Some d, frameCount = j, aligned = True\<rparr>\<rparr>)
              (mem_read (memory mo) (mainBuffer tn) (j * mMixerChannelCount tn * sizeof to)) j d
              (if auxBuffer tn = 0 then None
               else Some (mem_read (memory mo) (auxBuffer tn) (4 * j)))
              (needsRamp tn) = (t2, out', aux')"
    by blast+
  show "process x mo
        = Inr ((putTrack nameo
                  (t2\<lparr>bufferProvider := Some (tl q),
                      buffer := \<lparr>raw = None, frameCount = 0, aligned = True\<rparr>\<rparr>) mo)
               \<lparr>memory := zeroed (mainBuffer tn + j * mMixerChannelCount tn * sizeof to)
                    ((mFrameCount mo - j) * mMixerChannelCount tn
                       * audio_bytes_per_sample (mMixerFormat tn))
                    (case aux' of None \<Rightarrow> mem_write (mainBuffer tn) out' (memory mo)
                     | Some a \<Rightarrow> mem_write (auxBuffer tn) a
                                   (mem_write (mainBuffer tn) out' (memory mo)))\<rparr>)"
    by (rule process_oneTrack_partial[OF a])
next
  assume "mHook ms = Process_noResampleOneTrack mt' to' ti' \<and> mEnabled ms = [names]
        \<and> map_of (mTracks ms) names = Some ts
        \<and> bufferProvider ts = Some ps \<and> noData ps \<and> 0 < mFrameCount ms
        \<and> mainBuffer ts \<noteq> 0"
  then have a: "mHook ms = Process_noResampleOneTrack mt' to' ti'" "mEnabled ms = [names]"
    "map_of (mTracks ms) names = Some ts"
    "bufferProvider ts = Some ps" "noData ps" "0 < mFrameCount ms" "mainBuffer ts \<noteq> 0"
    by blast+
  show "process x ms
        = Inr ((putTrack names
                  (ts\<lparr>bufferProvider := Some (tl ps),
                      buffer := \<lparr>raw = None, frameCount = 0, aligned = True\<rparr>\<rparr>) ms)
               \<lparr>memory := zeroed (mainBuffer ts)
                    (mFrameCount ms * mMixerChannelCount ts
                       * audio_bytes_per_sample (mMixerFormat ts))
                    (memory ms)\<rparr>)"
    by (rule process_oneTrack_null[OF a])
qed

theorem null_buffer_contributes_silence_witness:
  "ready (pairSelected [Frames 10 (replicate 80 1)] [Frames 64 (replicate 512 1)])
   \<and> (\<exists>m' m''. process silentExt
                   (pairSelected [Frames 10 (replicate 80 1)] [Frames 64 (replicate 512 1)])
                 = Inr m'
          \<and> ready m' \<and> process silentExt m' = Inr m'' \<and> ready m'')
   \<and> map_of (mTracks pairAcquired) 7 = Some acquiredTrack
   \<and> (\<exists>s1. callHook silentExt 0 10 0
               \<lparr>ms_track = acquiredTrack,
                ms_outTemp = replicate (BLOCKSIZE * MAX_NUM_CHANNELS * 4) 0,
                ms_temp = mResampleTemp pairAcquired, ms_memory = memory pairAcquired,
                ms_aux = 0\<rparr> = Inr s1
          \<and> mixTrack silentExt 0 16 7
               (pairAcquired, replicate (BLOCKSIZE * MAX_NUM_CHANNELS * 4) 0)
              = Inr ((putTrack 7 (starved [] (ms_track s1)) pairAcquired)
                       \<lparr>mResampleTemp := ms_temp s1, memory := ms_memory s1\<rparr>, ms_outTemp s1)
          \<and> ms_outTemp s1 ! 80 = 0)
   \<and> mIn (the (map_of (mTracks pairStarved) 7)) = None
   \<and> (\<exists>m'. mixTrack silentExt 16 16 7
               (pairStarved, replicate (BLOCKSIZE * MAX_NUM_CHANNELS * 4) 0)
              = Inr (m', replicate (BLOCKSIZE * MAX_NUM_CHANNELS * 4) 0)
          \<and> memory m' = memory pairStarved)
   \<and> (\<exists>m'. process silentExt (pairSelected [] [NoBuffer]) = Inr m'
          \<and> memory m' = zeroed 4096 256 (memory (pairSelected [] [NoBuffer]))
          \<and> map_of (mTracks m') 7 = Some (starved [] (selectedTrack []))
          \<and> map_of (mTracks m') 8 = Some (starved [NoBuffer] (selectedTrack [NoBuffer])))
   \<and> process silentExt (feedSelected [Frames 30 (replicate 240 1)])
       = Inr ((putTrack 7 (selectedTrack []) (feedSelected [Frames 30 (replicate 240 1)]))
               \<lparr>memory := zeroed (4096 + 120) 136
                   (mem_write 4096
                      (mem_read (memory (feedSelected [Frames 30 (replicate 240 1)])) 4096 120)
                      (memory (feedSelected [Frames 30 (replicate 240 1)])))\<rparr>)
   \<and> process silentExt (feedSelected [NoBuffer])
       = Inr ((putTrack 7 (selectedTrack []) (feedSelected [NoBuffer]))
               \<lparr>memory := zeroed 4096 256 (memory (feedSelected [NoBuffer]))\<rparr>)"
proof -
  let ?pq = "pairSelected [Frames 10 (replicate 80 1)] [Frames 64 (replicate 512 1)]"
  let ?z = "replicate (BLOCKSIZE * MAX_NUM_CHANNELS * 4) (0::byte)"
  let ?d = "replicate 240 (1::byte)"
  note T = null_buffer_contributes_silence[where x = silentExt]
  have c1: "\<exists>m' m''. process silentExt ?pq = Inr m' \<and> ready m' \<and> process silentExt m' = Inr m''
      \<and> ready m''"
    using T[where m = ?pq, THEN conjunct1] pair_ready by blast
  have h2: "map_of (mTracks pairAcquired) 7 = Some acquiredTrack \<and> wfTrack acquiredTrack
      \<and> mIn acquiredTrack \<noteq> None \<and> t_frameCount acquiredTrack = 10 \<and> (10::nat) < 16
      \<and> 16 \<le> BLOCKSIZE \<and> bufferProvider acquiredTrack = Some [] \<and> noData []
      \<and> length ?z = BLOCKSIZE * MAX_NUM_CHANNELS * 4"
    using pair_acquired acquiredTrack_fields by (simp add: BLOCKSIZE_def noData_def)
  have ch: "mMixerChannelCount acquiredTrack = 2"
    using selectedTrack_fields(5)[of "[]"] by (simp add: acquiredTrack_def)
  have na: "needs acquiredTrack AND NEEDS_AUX = 0"
    by (simp add: acquiredTrack_fields(5))
  from mp[OF T[where mb = pairAcquired and name = 7 and t = acquiredTrack and k = 10
        and fc = 16 and p = "[]" and ot = ?z and nf = 0, THEN conjunct2, THEN conjunct1] h2]
  obtain s1 where s1: "callHook silentExt 0 10 0
               \<lparr>ms_track = acquiredTrack, ms_outTemp = ?z,
                ms_temp = mResampleTemp pairAcquired, ms_memory = memory pairAcquired,
                ms_aux = 0\<rparr> = Inr s1"
    "mixTrack silentExt 0 16 7 (pairAcquired, ?z)
       = Inr ((putTrack 7 (starved [] (ms_track s1)) pairAcquired)
                \<lparr>mResampleTemp := ms_temp s1, memory := ms_memory s1\<rparr>, ms_outTemp s1)"
    "\<forall>i. 10 * mMixerChannelCount acquiredTrack * 4 \<le> i \<longrightarrow> ms_outTemp s1 ! i = ?z ! i"
    unfolding na by auto
  have o80: "ms_outTemp s1 ! 80 = 0"
    using s1(3) ch by (simp add: BLOCKSIZE_def MAX_NUM_CHANNELS_def FCC_LIMIT_def)
  have c2: "\<exists>s1. callHook silentExt 0 10 0
               \<lparr>ms_track = acquiredTrack, ms_outTemp = ?z,
                ms_temp = mResampleTemp pairAcquired, ms_memory = memory pairAcquired,
                ms_aux = 0\<rparr> = Inr s1
          \<and> mixTrack silentExt 0 16 7 (pairAcquired, ?z)
              = Inr ((putTrack 7 (starved [] (ms_track s1)) pairAcquired)
                       \<lparr>mResampleTemp := ms_temp s1, memory := ms_memory s1\<rparr>, ms_outTemp s1)
          \<and> ms_outTemp s1 ! 80 = 0"
    using s1(1,2) o80 by - (rule exI[of _ s1], simp)
  have l3: "map_of (mTracks pairStarved) 7 = Some (starved [] (ms_track s1))"
    by (simp add: pairStarved_def s1(2) putTrack_def map_of_map_insert)
  have m3: "mIn (starved [] (ms_track s1)) = None" by (simp add: starved_def)
  have h3: "map_of (mTracks pairStarved) 7 = Some (starved [] (ms_track s1))
      \<and> mIn (starved [] (ms_track s1)) = None"
    using l3 m3 by simp
  have c3: "\<exists>m'. mixTrack silentExt 16 16 7 (pairStarved, ?z) = Inr (m', ?z)
      \<and> memory m' = memory pairStarved"
    using mp[OF T[where mc = pairStarved and namec = 7 and tc = "starved [] (ms_track s1)"
          and nfc = 16 and fcc = 16 and otc = ?z,
          THEN conjunct2, THEN conjunct2, THEN conjunct1] h3]
    by blast
  let ?g = "pairSelected [] [NoBuffer]"
  note ps = pair_selected[of "[]" "[NoBuffer]"]
  have h4: "mHook ?g = Process_genericNoResampling \<and> mGroups ?g = [(4096, [7, 8])]
      \<and> (4096::nat) \<noteq> 0 \<and> groupOk ?g [7, 8] \<and> distinct [7, 8 :: int]
      \<and> (\<forall>name \<in> set [7, 8]. \<exists>t. map_of (mTracks ?g) name = Some t \<and> silent t)
      \<and> map_of (mTracks ?g) 7 = Some (selectedTrack [])
      \<and> zeroConversion silentExt (mMixerFormat (selectedTrack []))"
    using ps selectedTrack_fields(1,2,6)
    by (simp add: groupOk_def silent_def noData_def zeroConversion_def silentExt_def
        mult.commute)
  from mp[OF T[where mg = ?g and key = 4096 and ?name0.0 = 7 and rest = "[8]"
        and ?t0.0 = "selectedTrack []",
        THEN conjunct2, THEN conjunct2, THEN conjunct2, THEN conjunct1] h4]
  obtain m4 where m4: "process silentExt ?g = Inr m4"
    "memory m4 = zeroed 4096 (mFrameCount ?g * mMixerChannelCount (selectedTrack [])
         * audio_bytes_per_sample (mMixerFormat (selectedTrack []))) (memory ?g)"
    "\<forall>name \<in> set [7, 8]. \<forall>t p. map_of (mTracks ?g) name = Some t
        \<longrightarrow> bufferProvider t = Some p \<longrightarrow> noData p
        \<longrightarrow> map_of (mTracks m4) name = Some (starved p t)"
    by blast
  have m47: "map_of (mTracks m4) 7 = Some (starved [] (selectedTrack []))"
    using m4(3) ps selectedTrack_fields(2)[of "[]"] by (simp add: noData_def)
  have m48: "map_of (mTracks m4) 8 = Some (starved [NoBuffer] (selectedTrack [NoBuffer]))"
    using m4(3) ps selectedTrack_fields(2)[of "[NoBuffer]"] by (simp add: noData_def)
  have c4: "\<exists>m'. process silentExt ?g = Inr m'
      \<and> memory m' = zeroed 4096 256 (memory ?g)
      \<and> map_of (mTracks m') 7 = Some (starved [] (selectedTrack []))
      \<and> map_of (mTracks m') 8 = Some (starved [NoBuffer] (selectedTrack [NoBuffer]))"
    using m4(1,2) m47 m48 ps selectedTrack_fields(5,6)
    by - (rule exI[of _ m4], simp add: audio_bytes_per_sample_def)
  let ?f = "feedSelected [Frames 30 ?d]"
  let ?t5 = "selectedTrack [Frames 30 ?d]"
  let ?t2 = "?t5\<lparr>bufferProvider := Some [],
      buffer := \<lparr>raw = Some ?d, frameCount = 30, aligned = True\<rparr>\<rparr>"
  note fs = feed_selected[of "[Frames 30 ?d]"]
  have h5: "mHook ?f = Process_noResampleOneTrack MIXTYPE_MULTI_SAVEONLY_STEREOVOL T_int16 T_float
      \<and> mEnabled ?f = [7] \<and> map_of (mTracks ?f) 7 = Some ?t5
      \<and> bufferProvider ?t5 = Some (Frames 30 ?d # []) \<and> noData [] \<and> 30 < mFrameCount ?f
      \<and> mainBuffer ?t5 \<noteq> 0
      \<and> volumeMix silentExt MIXTYPE_MULTI_SAVEONLY_STEREOVOL (T_float = T_float) False
           T_int16 T_float
           (?t5\<lparr>bufferProvider := Some [],
               buffer := \<lparr>raw = Some ?d, frameCount = 30, aligned = True\<rparr>\<rparr>)
           (mem_read (memory ?f) (mainBuffer ?t5) (30 * mMixerChannelCount ?t5 * sizeof T_int16))
           30 ?d
           (if auxBuffer ?t5 = 0 then None
            else Some (mem_read (memory ?f) (auxBuffer ?t5) (4 * 30)))
           (needsRamp ?t5) = (?t2, mem_read (memory ?f) 4096 120, None)"
    using fs selectedTrack_fields[of "[Frames 30 ?d]"]
    by (simp add: noData_def silent_volumeMix)
  have t5: "?t2\<lparr>bufferProvider := Some (tl []),
      buffer := \<lparr>raw = None, frameCount = 0, aligned = True\<rparr>\<rparr> = selectedTrack []"
    by (simp add: selectedTrack_def playingTrack_def stereoTrack_def newTrack_def)
  have c5: "process silentExt ?f
       = Inr ((putTrack 7 (selectedTrack []) ?f)
               \<lparr>memory := zeroed (4096 + 120) 136
                   (mem_write 4096 (mem_read (memory ?f) 4096 120) (memory ?f))\<rparr>)"
    using mp[OF T[where mo = ?f and mt = MIXTYPE_MULTI_SAVEONLY_STEREOVOL and to = T_int16
          and ti = T_float and nameo = 7 and tn = ?t5 and j = 30 and d = ?d and q = "[]"
          and ?t2.0 = ?t2 and out' = "mem_read (memory ?f) 4096 120" and aux' = None,
          THEN conjunct2, THEN conjunct2, THEN conjunct2, THEN conjunct2, THEN conjunct1] h5]
      fs selectedTrack_fields[of "[Frames 30 ?d]"] t5
    by (simp add: audio_bytes_per_sample_def)
  let ?n = "feedSelected [NoBuffer]"
  note fn = feed_selected[of "[NoBuffer]"]
  have h6: "mHook ?n = Process_noResampleOneTrack MIXTYPE_MULTI_SAVEONLY_STEREOVOL T_int16 T_float
      \<and> mEnabled ?n = [7] \<and> map_of (mTracks ?n) 7 = Some (selectedTrack [NoBuffer])
      \<and> bufferProvider (selectedTrack [NoBuffer]) = Some [NoBuffer] \<and> noData [NoBuffer]
      \<and> 0 < mFrameCount ?n \<and> mainBuffer (selectedTrack [NoBuffer]) \<noteq> 0"
    using fn selectedTrack_fields[of "[NoBuffer]"] by (simp add: noData_def)
  have t6: "(selectedTrack [NoBuffer])\<lparr>bufferProvider := Some (tl [NoBuffer]),
      buffer := \<lparr>raw = None, frameCount = 0, aligned = True\<rparr>\<rparr> = selectedTrack []"
    by (simp add: selectedTrack_def playingTrack_def stereoTrack_def newTrack_def)
  have c6: "process silentExt ?n
       = Inr ((putTrack 7 (selectedTrack []) ?n)\<lparr>memory := zeroed 4096 256 (memory ?n)\<rparr>)"
    using mp[OF T[where ms = ?n and mt' = MIXTYPE_MULTI_SAVEONLY_STEREOVOL and to' = T_int16
          and ti' = T_float and names = 7 and ts = "selectedTrack [NoBuffer]"
          and ps = "[NoBuffer]",
          THEN conjunct2, THEN conjunct2, THEN conjunct2, THEN conjunct2, THEN conjunct2] h6]
      fn selectedTrack_fields[of "[NoBuffer]"] t6
    by (simp add: audio_bytes_per_sample_def)
  show ?thesis
    using pair_ready pair_acquired c1 c2 l3 m3 c3 c4 c5 c6 by simp
qed

end
